theory Spec2Isabelle
  imports Main "HOL-Library.Sublist"
begin

section \<open>The headless code-review runner (scripts/code-reviewer.sh)\<close>

text \<open>
  The script is a sequential shell program. Its globals become a record that is
  passed along, every \<^verbatim>\<open>exit\<close> becomes the value \<open>Exited code state\<close>, and
  everything the script asks of the outside world (environment variables, the
  file-system probes, the external tools, the clock) is read from a record
  \<open>env\<close> that is fixed during one run.
\<close>

subsection \<open>Text helpers\<close>

definition nl :: char where
  "nl = CHR 0x0A"

text \<open>\<^verbatim>\<open>head -n\<close> on the bytes of a file: the first \<open>n\<close> lines, terminators included.\<close>

fun head_n :: "nat \<Rightarrow> string \<Rightarrow> string" where
  "head_n n [] = []"
| "head_n n (c # s) =
     (if n = 0 then []
      else if c = nl then c # head_n (n - 1) s
      else c # head_n n s)"

text \<open>One \<^verbatim>\<open>s/c/rep/g\<close> command of sed: every occurrence of the character is replaced.\<close>

definition gsub :: "char \<Rightarrow> string \<Rightarrow> string \<Rightarrow> string" where
  "gsub c rep s = concat (map (\<lambda>x. if x = c then rep else [x]) s)"

text \<open>
  \<^verbatim>\<open>sed 's/&/\&amp;/g; s/</\&lt;/g; s/>/\&gt;/g; s/"/\&quot;/g'\<close>: four
  substitutions, applied in this order.
\<close>

definition sed_escape :: "string \<Rightarrow> string" where
  "sed_escape s =
     gsub (CHR 0x22) ''&quot;''
       (gsub (CHR ''>'') ''&gt;''
         (gsub (CHR ''<'') ''&lt;''
           (gsub (CHR ''&'') ''&amp;'' s)))"

text \<open>
  What a command substitution \<^verbatim>\<open>$(...)\<close> keeps of the bytes its command
  wrote: bash drops NUL bytes and removes every trailing newline.
\<close>

definition cmd_subst :: "string \<Rightarrow> string" where
  "cmd_subst s = rev (dropWhile (\<lambda>c. c = nl) (rev (filter (\<lambda>c. c \<noteq> CHR 0x00) s)))"

text \<open>\<^verbatim>\<open>"${cmd[*]}"\<close>: the words joined by single spaces.\<close>

fun unwords :: "string list \<Rightarrow> string" where
  "unwords [] = []"
| "unwords [w] = w"
| "unwords (w # ws) = w @ '' '' @ unwords ws"

text \<open>\<^verbatim>\<open>${VAR:-default}\<close>: the default replaces an unset or empty variable.\<close>

definition dflt :: "string option \<Rightarrow> string \<Rightarrow> string" where
  "dflt v d = (case v of None \<Rightarrow> d | Some s \<Rightarrow> if s = [] then d else s)"

text \<open>Decimal digits of a shell integer, as \<^verbatim>\<open>${passed}\<close> expands.\<close>

fun digits :: "nat \<Rightarrow> string" where
  "digits n =
     (if n < 10 then [char_of (48 + n)]
      else digits (n div 10) @ [char_of (48 + n mod 10)])"

declare digits.simps [simp del]

subsection \<open>The outside world\<close>

text \<open>
  \<open>exec\<close> gives, for a working directory and a command line, the exit status
  and the combined standard output and standard error of the command.
  \<open>npm_install_stdout\<close> is what \<^verbatim>\<open>npm install --silent\<close> prints on its
  standard output in the frontend directory.
  \<open>write_error\<close> gives the shell's diagnostic when a path cannot be opened for
  writing, and \<open>None\<close> when it can. \<open>awk_seconds d ms\<close> is what
  \<^verbatim>\<open>awk "BEGIN {printf \"%.df\", ms/1000}"\<close> prints, and \<open>json_dumps\<close> what
  the \<^verbatim>\<open>python3 -c "... json.dumps ..."\<close> filter prints (\<open>None\<close> when it fails).
\<close>

record env =
  CR_LEVEL :: "string option"
  CR_OUTPUT :: "string option"
  CR_TARGET :: "string option"
  CR_FAIL_FAST :: "string option"
  CR_NO_COLOR :: "string option"
  CR_VERBOSE :: "string option"
  PROJECT_ROOT :: string
  BACKEND_PATH :: string
  FRONTEND_PATH :: string
  stdout_tty :: bool
  on_path :: "string \<Rightarrow> bool"
  venv_exec :: "string \<Rightarrow> bool"
  backend_dir :: bool
  tests_dir :: bool
  frontend_dir :: bool
  node_modules :: bool
  package_json :: "string option"
  exec :: "string \<Rightarrow> string list \<Rightarrow> nat \<times> string"
  npm_install_stdout :: string
  clock_ms :: "nat \<Rightarrow> int"
  iso_timestamp :: string
  awk_seconds :: "nat \<Rightarrow> int \<Rightarrow> string"
  json_dumps :: "string \<Rightarrow> string option"
  write_error :: "string \<Rightarrow> string option"

subsection \<open>Reports\<close>

text \<open>
  The text report is kept as the bytes the script prints. The JSON and JUnit
  reports are kept as the documents the here-documents and \<^verbatim>\<open>echo\<close> lines
  spell out, one field per interpolated value.
\<close>

record json_check =
  jc_name :: string
  jc_status :: string
  jc_duration_ms :: int
  jc_output :: string

record json_doc =
  j_version :: string
  j_timestamp :: string
  j_level :: string
  j_target :: string
  j_total :: nat
  j_passed :: nat
  j_failed :: nat
  j_checks :: "json_check list"

record junit_failure =
  jf_message :: string
  jf_cdata :: string

record junit_testcase =
  tc_name :: string
  tc_classname :: string
  tc_time :: string
  tc_failure :: "junit_failure option"

record junit_doc =
  ju_tests :: nat
  ju_failures :: nat
  ju_timestamp :: string
  ju_testcases :: "junit_testcase list"

datatype report = Text string | Json json_doc | Junit junit_doc

text \<open>What reaches standard output: lines of text, or a rendered report.\<close>

datatype printed = Txt string | Doc report

subsection \<open>The shell's state\<close>

text \<open>
  One row of the result store: line \<open>i\<close> of \<^verbatim>\<open>names.txt\<close>,
  \<^verbatim>\<open>statuses.txt\<close>, \<^verbatim>\<open>durations.txt\<close> and \<^verbatim>\<open>outputs.txt\<close>, which
  \<^verbatim>\<open>store_result\<close> appends together. The captured-output file
  \<^verbatim>\<open>${TEMP_DIR}/output_k.txt\<close> is named by its number \<open>k\<close>; the empty
  line written for a passed check is \<open>None\<close>.
\<close>

record check_row =
  row_name :: string
  row_status :: string
  row_duration :: int
  row_output :: "nat option"

record state =
  LEVEL :: string
  OUTPUT :: string
  TARGET :: string
  FAIL_FAST :: string
  NO_COLOR :: string
  VERBOSE :: string
  OUTPUT_FILE :: string
  colors :: bool
  CHECK_COUNT :: nat
  TOTAL_ERRORS :: nat
  rows :: "check_row list"
  files :: "nat \<rightharpoonup> string"
  cwd :: string
  errexit :: bool
  errexit_ignored :: bool
  stderr_null :: bool
  ticks :: nat
  out :: "printed list"
  err :: "string list"
  ran :: "(string \<times> string list) list"
  written :: "(string \<times> report) list"
  rendered :: "report list"

text \<open>
  \<open>colors\<close> records the branch \<^verbatim>\<open>setup_colors\<close> took. \<open>errexit\<close> is the
  shell option \<^verbatim>\<open>-e\<close>: the script starts with \<^verbatim>\<open>set -uo pipefail\<close>, so it
  is off until \<^verbatim>\<open>run_check\<close> executes \<^verbatim>\<open>set -e\<close>. \<open>errexit_ignored\<close> and
  \<open>stderr_null\<close> hold while a function runs on the left of \<^verbatim>\<open>||\<close> with
  \<^verbatim>\<open>2>/dev/null\<close>. \<open>ticks\<close> counts the readings of the clock. \<open>out\<close> and
  \<open>err\<close> are the writes to standard output and to standard error, \<open>ran\<close> the
  external commands started with their working directory, \<open>written\<close> the
  files written by \<^verbatim>\<open>output_results\<close>, \<open>rendered\<close> the values that
  \<^verbatim>\<open>output_results\<close> has assigned to \<^verbatim>\<open>output_content\<close>, one for each call
  of the renderer.
\<close>

datatype flow = Running state | Exited nat state

fun andthen :: "flow \<Rightarrow> (state \<Rightarrow> flow) \<Rightarrow> flow" where
  "andthen (Running s) f = f s"
| "andthen (Exited c s) f = Exited c s"

fun exit_code :: "flow \<Rightarrow> nat option" where
  "exit_code (Running s) = None"
| "exit_code (Exited c s) = Some c"

fun final :: "flow \<Rightarrow> state" where
  "final (Running s) = s"
| "final (Exited c s) = s"

definition initial :: "env \<Rightarrow> state" where
  "initial e =
     \<lparr> LEVEL = dflt (CR_LEVEL e) ''standard'',
       OUTPUT = dflt (CR_OUTPUT e) ''text'',
       TARGET = dflt (CR_TARGET e) ''all'',
       FAIL_FAST = dflt (CR_FAIL_FAST e) ''0'',
       NO_COLOR = dflt (CR_NO_COLOR e) ''0'',
       VERBOSE = dflt (CR_VERBOSE e) ''0'',
       OUTPUT_FILE = [],
       colors = False,
       CHECK_COUNT = 0,
       TOTAL_ERRORS = 0,
       rows = [],
       files = Map.empty,
       cwd = [],
       errexit = False,
       errexit_ignored = False,
       stderr_null = False,
       ticks = 0,
       out = [],
       err = [],
       ran = [],
       written = [],
       rendered = [] \<rparr>"

subsection \<open>Colors and log helpers\<close>

definition setup_colors :: "env \<Rightarrow> state \<Rightarrow> state" where
  "setup_colors e st =
     (if NO_COLOR st = ''1'' \<or> \<not> stdout_tty e then st\<lparr>colors := False\<rparr>
      else st\<lparr>colors := True\<rparr>)"

text \<open>The escape sequences as \<^verbatim>\<open>echo -e\<close> prints them.\<close>

definition ansi :: "state \<Rightarrow> string \<Rightarrow> string" where
  "ansi st code = (if colors st then CHR 0x1B # CHR ''['' # code @ ''m'' else [])"

definition RED :: "state \<Rightarrow> string" where "RED st = ansi st ''0;31''"
definition GREEN :: "state \<Rightarrow> string" where "GREEN st = ansi st ''0;32''"
definition YELLOW :: "state \<Rightarrow> string" where "YELLOW st = ansi st ''0;33''"
definition BLUE :: "state \<Rightarrow> string" where "BLUE st = ansi st ''0;34''"
definition CYAN :: "state \<Rightarrow> string" where "CYAN st = ansi st ''0;36''"
definition RESET :: "state \<Rightarrow> string" where "RESET st = ansi st ''0''"

text \<open>A write to standard error; nothing arrives while it is \<^verbatim>\<open>/dev/null\<close>.\<close>

definition to_stderr :: "string \<Rightarrow> state \<Rightarrow> state" where
  "to_stderr bytes st = (if stderr_null st then st else st\<lparr>err := err st @ [bytes]\<rparr>)"

definition echo_err :: "string \<Rightarrow> state \<Rightarrow> state" where
  "echo_err line st = to_stderr (line @ [nl]) st"

definition log_info :: "string \<Rightarrow> state \<Rightarrow> state" where
  "log_info msg st =
     (if OUTPUT st = ''text'' then echo_err (BLUE st @ ''[INFO]'' @ RESET st @ '' '' @ msg) st
      else st)"

definition log_success :: "string \<Rightarrow> state \<Rightarrow> state" where
  "log_success msg st =
     (if OUTPUT st = ''text'' then echo_err (GREEN st @ ''[PASS]'' @ RESET st @ '' '' @ msg) st
      else st)"

definition log_error :: "string \<Rightarrow> state \<Rightarrow> state" where
  "log_error msg st =
     (if OUTPUT st = ''text'' then echo_err (RED st @ ''[FAIL]'' @ RESET st @ '' '' @ msg) st
      else st)"

definition log_warning :: "string \<Rightarrow> state \<Rightarrow> state" where
  "log_warning msg st =
     (if OUTPUT st = ''text'' then echo_err (YELLOW st @ ''[WARN]'' @ RESET st @ '' '' @ msg) st
      else st)"

definition log_verbose :: "string \<Rightarrow> state \<Rightarrow> state" where
  "log_verbose msg st =
     (if VERBOSE st = ''1'' \<and> OUTPUT st = ''text''
      then echo_err (CYAN st @ ''[DEBUG]'' @ RESET st @ '' '' @ msg) st
      else st)"

subsection \<open>Utility functions\<close>

text \<open>The here-document of \<^verbatim>\<open>show_help\<close>, line by line.\<close>

definition usage_text :: "string list" where
  "usage_text =
     [''Headless Code Review for CI/CD Integration'',
      '''',
      ''USAGE:'',
      ''    code-reviewer.sh [OPTIONS]'',
      '''',
      ''OPTIONS:'',
      ''    -l, --level LEVEL      Check level: quick|standard|full (default: standard)'',
      ''                           quick    - Format checks only (fast)'',
      ''                           standard - Format + lint + type checks'',
      ''                           full     - All checks including tests'',
      '''',
      ''    -o, --output FORMAT    Output format: text|json|junit (default: text)'',
      ''                           text  - Human-readable output'',
      ''                           json  - JSON format for programmatic use'',
      ''                           junit - JUnit XML for CI systems'',
      '''',
      ''    -t, --target TARGET    Target: all|backend|frontend (default: all)'',
      '''',
      ''    -f, --file FILE        Write output to FILE (default: stdout)'',
      '''',
      ''    --fail-fast            Exit immediately on first failure'',
      ''    --no-color             Disable colored output'',
      ''    -v, --verbose          Enable verbose output'',
      ''    -h, --help             Show this help message'',
      '''',
      ''ENVIRONMENT VARIABLES:'',
      ''    CR_LEVEL               Default check level'',
      ''    CR_OUTPUT              Default output format'',
      ''    CR_TARGET              Default target'',
      ''    CR_FAIL_FAST           Enable fail-fast mode (1|0)'',
      ''    CR_NO_COLOR            Disable colors (1|0)'',
      ''    CR_VERBOSE             Enable verbose mode (1|0)'',
      ''    CR_BACKEND_PATH        Path to backend directory'',
      ''    CR_FRONTEND_PATH       Path to frontend directory'',
      '''',
      ''EXAMPLES:'',
      ''    # Quick format check in CI'',
      ''    ./scripts/code-reviewer.sh --level quick --output json'',
      '''',
      ''    # Full review with JUnit output for GitHub Actions'',
      ''    ./scripts/code-reviewer.sh --level full --output junit -f report.xml'',
      '''',
      ''    # Backend only, fail fast'',
      ''    ./scripts/code-reviewer.sh --target backend --fail-fast'',
      '''',
      ''EXIT CODES:'',
      ''    0 - All checks passed'',
      ''    1 - One or more checks failed'',
      ''    2 - Configuration/setup error'',
      ''    3 - Dependency missing'']"

definition show_help :: "state \<Rightarrow> state" where
  "show_help st = st\<lparr>out := out st @ map Txt usage_text\<rparr>"

text \<open>
  The three \<^verbatim>\<open>case\<close> statements after the loop of \<^verbatim>\<open>parse_args\<close>. The
  messages are written with a plain \<^verbatim>\<open>echo ... >&2\<close>.
\<close>

definition validate_options :: "state \<Rightarrow> flow" where
  "validate_options st =
     (if \<not> (LEVEL st = ''quick'' \<or> LEVEL st = ''standard'' \<or> LEVEL st = ''full'')
      then Exited 2 (echo_err (''Invalid level: '' @ LEVEL st) st)
      else if \<not> (OUTPUT st = ''text'' \<or> OUTPUT st = ''json'' \<or> OUTPUT st = ''junit'')
      then Exited 2 (echo_err (''Invalid output format: '' @ OUTPUT st) st)
      else if \<not> (TARGET st = ''all'' \<or> TARGET st = ''backend'' \<or> TARGET st = ''frontend'')
      then Exited 2 (echo_err (''Invalid target: '' @ TARGET st) st)
      else Running st)"

text \<open>
  Under \<^verbatim>\<open>set -u\<close> the expansion of \<^verbatim>\<open>$2\<close> with a single argument left
  stops the shell with status 1.
\<close>

definition unbound_variable :: "string \<Rightarrow> state \<Rightarrow> flow" where
  "unbound_variable v st = Exited 1 (echo_err (v @ '': unbound variable'') st)"

text \<open>
  The \<^verbatim>\<open>while [[ $# -gt 0 ]]\<close> loop of \<^verbatim>\<open>parse_args\<close>, one \<^verbatim>\<open>case\<close> branch
  for each option; it returns when no argument is left.
\<close>

fun parse_loop :: "string list \<Rightarrow> state \<Rightarrow> flow" where
  "parse_loop [] st = Running st"
| "parse_loop (a # rest) st =
     (if a = ''-l'' \<or> a = ''--level'' then
        (case rest of
           [] \<Rightarrow> unbound_variable ''$2'' st
         | v # rest' \<Rightarrow> parse_loop rest' (st\<lparr>LEVEL := v\<rparr>))
      else if a = ''-o'' \<or> a = ''--output'' then
        (case rest of
           [] \<Rightarrow> unbound_variable ''$2'' st
         | v # rest' \<Rightarrow> parse_loop rest' (st\<lparr>OUTPUT := v\<rparr>))
      else if a = ''-t'' \<or> a = ''--target'' then
        (case rest of
           [] \<Rightarrow> unbound_variable ''$2'' st
         | v # rest' \<Rightarrow> parse_loop rest' (st\<lparr>TARGET := v\<rparr>))
      else if a = ''-f'' \<or> a = ''--file'' then
        (case rest of
           [] \<Rightarrow> unbound_variable ''$2'' st
         | v # rest' \<Rightarrow> parse_loop rest' (st\<lparr>OUTPUT_FILE := v\<rparr>))
      else if a = ''--fail-fast'' then parse_loop rest (st\<lparr>FAIL_FAST := ''1''\<rparr>)
      else if a = ''--no-color'' then parse_loop rest (st\<lparr>NO_COLOR := ''1''\<rparr>)
      else if a = ''-v'' \<or> a = ''--verbose'' then parse_loop rest (st\<lparr>VERBOSE := ''1''\<rparr>)
      else if a = ''-h'' \<or> a = ''--help'' then Exited 0 (show_help st)
      else Exited 2 (show_help (echo_err (''Unknown option: '' @ a) st)))"

text \<open>\<^verbatim>\<open>parse_args\<close>: the loop, then the validation.\<close>

definition parse_args :: "string list \<Rightarrow> state \<Rightarrow> flow" where
  "parse_args args st = andthen (parse_loop args st) validate_options"

text \<open>The local variable \<^verbatim>\<open>missing\<close> of \<^verbatim>\<open>check_dependencies\<close>.\<close>

definition missing_deps :: "env \<Rightarrow> state \<Rightarrow> string" where
  "missing_deps e st =
     (if TARGET st = ''all'' \<or> TARGET st = ''backend''
      then (if on_path e ''python3'' then [] else '' python3'') else [])
     @ (if TARGET st = ''all'' \<or> TARGET st = ''frontend''
        then (if on_path e ''node'' then [] else '' node'')
             @ (if on_path e ''npm'' then [] else '' npm'')
        else [])"

definition check_dependencies :: "env \<Rightarrow> state \<Rightarrow> flow" where
  "check_dependencies e st =
     (if missing_deps e st \<noteq> []
      then Exited 3 (echo_err (''Missing dependencies:'' @ missing_deps e st) st)
      else Running st)"

text \<open>One reading of the clock in milliseconds.\<close>

definition get_timestamp_ms :: "env \<Rightarrow> state \<Rightarrow> int \<times> state" where
  "get_timestamp_ms e st = (clock_ms e (ticks st), st\<lparr>ticks := ticks st + 1\<rparr>)"

subsection \<open>Result storage\<close>

definition store_result :: "string \<Rightarrow> string \<Rightarrow> int \<Rightarrow> nat option \<Rightarrow> state \<Rightarrow> state" where
  "store_result name status duration output_file st =
     st\<lparr> CHECK_COUNT := CHECK_COUNT st + 1,
         rows := rows st @
           [\<lparr> row_name = name, row_status = status,
              row_duration = duration, row_output = output_file \<rparr>] \<rparr>"

subsection \<open>Output formatters\<close>

definition echo :: "string \<Rightarrow> string" where
  "echo line = line @ [nl]"

text \<open>
  The first loop of \<^verbatim>\<open>output_text\<close>: one line per row, counting
  \<open>passed\<close> and \<open>failed\<close>.
\<close>

fun text_loop :: "env \<Rightarrow> state \<Rightarrow> check_row list \<Rightarrow> nat \<times> nat \<times> string \<Rightarrow> nat \<times> nat \<times> string" where
  "text_loop e st [] acc = acc"
| "text_loop e st (r # rs) (passed, failed, printed) =
     (if row_status r = ''passed''
      then text_loop e st rs
             (passed + 1, failed,
              printed @ echo (GREEN st @ ''[PASS]'' @ RESET st @ '' '' @ row_name r
                              @ '' ('' @ awk_seconds e 2 (row_duration r) @ ''s)''))
      else text_loop e st rs
             (passed, failed + 1,
              printed @ echo (RED st @ ''[FAIL]'' @ RESET st @ '' '' @ row_name r
                              @ '' ('' @ awk_seconds e 2 (row_duration r) @ ''s)'')))"

text \<open>The second loop: a titled block with \<^verbatim>\<open>head -30\<close> per failed row.\<close>

fun failures_loop :: "state \<Rightarrow> check_row list \<Rightarrow> string \<Rightarrow> string" where
  "failures_loop st [] printed = printed"
| "failures_loop st (r # rs) printed =
     (case row_output r of
        None \<Rightarrow> failures_loop st rs printed
      | Some k \<Rightarrow>
          (case files st k of
             None \<Rightarrow> failures_loop st rs printed
           | Some content \<Rightarrow>
               if row_status r = ''failed''
               then failures_loop st rs
                      (printed @ echo [] @ echo (''--- '' @ row_name r @ '' ---'')
                       @ head_n 30 content)
               else failures_loop st rs printed))"

definition output_text :: "env \<Rightarrow> state \<Rightarrow> string" where
  "output_text e st =
     (case text_loop e st (rows st) (0, 0, []) of
        (passed, failed, printed) \<Rightarrow>
          echo [] @ echo ''==========================================''
          @ echo ''CODE REVIEW SUMMARY''
          @ echo ''==========================================''
          @ echo []
          @ echo (''Level:    '' @ LEVEL st)
          @ echo (''Target:   '' @ TARGET st)
          @ echo (''Time:     '' @ iso_timestamp e)
          @ echo []
          @ printed
          @ echo []
          @ echo ''------------------------------------------''
          @ echo (''Results: '' @ digits passed @ '' passed, '' @ digits failed @ '' failed'')
          @ echo ''------------------------------------------''
          @ (if failed > 0
             then failures_loop st (rows st) (echo [] @ echo ''FAILURES:'')
             else []))"

text \<open>
  The loop of \<^verbatim>\<open>output_json\<close>. \<open>output_content\<close> is the JSON string the
  Python filter prints for the captured file, and \<^verbatim>\<open>""\<close> when there is no
  file or the filter fails.
\<close>

definition json_output_content :: "env \<Rightarrow> state \<Rightarrow> check_row \<Rightarrow> string" where
  "json_output_content e st r =
     (case row_output r of
        None \<Rightarrow> [CHR 0x22, CHR 0x22]
      | Some k \<Rightarrow>
          (case files st k of
             None \<Rightarrow> [CHR 0x22, CHR 0x22]
           | Some content \<Rightarrow>
               (case json_dumps e content of
                  None \<Rightarrow> [CHR 0x22, CHR 0x22]
                | Some s \<Rightarrow> s)))"

fun json_loop :: "env \<Rightarrow> state \<Rightarrow> check_row list \<Rightarrow> nat \<times> nat \<times> json_check list \<Rightarrow> nat \<times> nat \<times> json_check list" where
  "json_loop e st [] acc = acc"
| "json_loop e st (r # rs) (passed, failed, checks_json) =
     json_loop e st rs
       (if row_status r = ''passed'' then passed + 1 else passed,
        if row_status r = ''passed'' then failed else failed + 1,
        checks_json @
          [\<lparr> jc_name = row_name r, jc_status = row_status r,
             jc_duration_ms = row_duration r,
             jc_output = json_output_content e st r \<rparr>])"

definition output_json :: "env \<Rightarrow> state \<Rightarrow> json_doc" where
  "output_json e st =
     (case json_loop e st (rows st) (0, 0, []) of
        (passed, failed, checks_json) \<Rightarrow>
          \<lparr> j_version = ''1.0'',
            j_timestamp = iso_timestamp e,
            j_level = LEVEL st,
            j_target = TARGET st,
            j_total = CHECK_COUNT st,
            j_passed = passed,
            j_failed = failed,
            j_checks = checks_json \<rparr>)"

text \<open>
  One \<^verbatim>\<open>testcase\<close> of \<^verbatim>\<open>output_junit\<close>. The \<^verbatim>\<open>failure\<close> element is
  printed for a row whose status is \<^verbatim>\<open>failed\<close> and whose captured file
  exists; its character data is \<^verbatim>\<open>$(head -50 file | sed ...)\<close>.
\<close>

definition junit_testcase_of :: "env \<Rightarrow> state \<Rightarrow> check_row \<Rightarrow> junit_testcase" where
  "junit_testcase_of e st r =
     \<lparr> tc_name = row_name r,
       tc_classname = ''code-review'',
       tc_time = awk_seconds e 3 (row_duration r),
       tc_failure =
         (case row_output r of
            None \<Rightarrow> None
          | Some k \<Rightarrow>
              (case files st k of
                 None \<Rightarrow> None
               | Some content \<Rightarrow>
                   if row_status r = ''failed''
                   then Some \<lparr> jf_message = ''Check failed'',
                               jf_cdata = cmd_subst (sed_escape (head_n 50 content)) \<rparr>
                   else None)) \<rparr>"

fun junit_loop :: "env \<Rightarrow> state \<Rightarrow> check_row list \<Rightarrow> junit_testcase list \<Rightarrow> junit_testcase list" where
  "junit_loop e st [] printed = printed"
| "junit_loop e st (r # rs) printed = junit_loop e st rs (printed @ [junit_testcase_of e st r])"

definition output_junit :: "env \<Rightarrow> state \<Rightarrow> junit_doc" where
  "output_junit e st =
     \<lparr> ju_tests = CHECK_COUNT st,
       ju_failures = TOTAL_ERRORS st,
       ju_timestamp = iso_timestamp e,
       ju_testcases = junit_loop e st (rows st) [] \<rparr>"

text \<open>
  The \<^verbatim>\<open>case "${OUTPUT}"\<close> of \<^verbatim>\<open>output_results\<close>; the text report passes
  through a command substitution. No branch matches another value, which
  leaves \<^verbatim>\<open>output_content\<close> unset.
\<close>

definition render :: "env \<Rightarrow> state \<Rightarrow> report option" where
  "render e st =
     (if OUTPUT st = ''text'' then Some (Text (cmd_subst (output_text e st)))
      else if OUTPUT st = ''json'' then Some (Json (output_json e st))
      else if OUTPUT st = ''junit'' then Some (Junit (output_junit e st))
      else None)"

text \<open>
  \<^verbatim>\<open>output_results\<close>. When the redirection to \<^verbatim>\<open>${OUTPUT_FILE}\<close> fails, the
  shell prints its diagnostic and the \<^verbatim>\<open>echo\<close> has status 1: with
  \<^verbatim>\<open>errexit\<close> in force the shell exits with that status, otherwise the
  function goes on to \<^verbatim>\<open>log_info\<close>.
\<close>

definition output_results :: "env \<Rightarrow> state \<Rightarrow> flow" where
  "output_results e st =
     (case render e st of
        None \<Rightarrow> unbound_variable ''output_content'' st
      | Some output_content \<Rightarrow>
          if OUTPUT_FILE st \<noteq> [] then
            (case write_error e (OUTPUT_FILE st) of
               None \<Rightarrow>
                 Running (log_info (''Results written to: '' @ OUTPUT_FILE st)
                            (st\<lparr>rendered := rendered st @ [output_content],
                                written := written st @ [(OUTPUT_FILE st, output_content)]\<rparr>))
             | Some diagnostic \<Rightarrow>
                 if errexit st \<and> \<not> errexit_ignored st
                 then Exited 1 (echo_err diagnostic
                                  (st\<lparr>rendered := rendered st @ [output_content]\<rparr>))
                 else Running (log_info (''Results written to: '' @ OUTPUT_FILE st)
                                 (echo_err diagnostic
                                    (st\<lparr>rendered := rendered st @ [output_content]\<rparr>))))
          else Running (st\<lparr>rendered := rendered st @ [output_content],
                           out := out st @ [Doc output_content]\<rparr>))"

subsection \<open>Sequencing of shell commands\<close>

text \<open>
  A function body is a list of commands run in order until one of them exits
  the shell. \<open>cmd\<close> is a command that cannot exit, \<open>ifte\<close> an
  \<^verbatim>\<open>if ... then ... else ... fi\<close>, \<open>skip\<close> the missing \<^verbatim>\<open>else\<close>.
\<close>

fun seq :: "(state \<Rightarrow> flow) list \<Rightarrow> state \<Rightarrow> flow" where
  "seq [] st = Running st"
| "seq (c # cs) st = andthen (c st) (seq cs)"

definition cmd :: "(state \<Rightarrow> state) \<Rightarrow> state \<Rightarrow> flow" where
  "cmd f st = Running (f st)"

definition skip :: "state \<Rightarrow> flow" where
  "skip st = Running st"

definition ifte :: "(state \<Rightarrow> bool) \<Rightarrow> (state \<Rightarrow> flow) \<Rightarrow> (state \<Rightarrow> flow) \<Rightarrow> state \<Rightarrow> flow" where
  "ifte b f g st = (if b st then f st else g st)"

text \<open>
  \<^verbatim>\<open>f ... 2>/dev/null || alternative\<close>: while \<open>f\<close> runs, its standard error
  is discarded and \<^verbatim>\<open>errexit\<close> is ignored. The only function called this way
  is \<^verbatim>\<open>run_check\<close>, whose status is 0 whenever it returns (its last command
  is a log helper, or an \<^verbatim>\<open>if\<close> whose condition is false), so the
  alternative is never started.
\<close>

definition quiet_or :: "(state \<Rightarrow> flow) \<Rightarrow> state \<Rightarrow> flow" where
  "quiet_or f st =
     (case f (st\<lparr>stderr_null := True, errexit_ignored := True\<rparr>) of
        Exited c s \<Rightarrow> Exited c s
      | Running s \<Rightarrow>
          Running (s\<lparr>stderr_null := stderr_null st, errexit_ignored := errexit_ignored st\<rparr>))"

subsection \<open>Check runners\<close>

definition run_check :: "env \<Rightarrow> string \<Rightarrow> string \<Rightarrow> string list \<Rightarrow> state \<Rightarrow> flow" where
  "run_check e name description cmd_words st =
     (let st1 = log_verbose (''Running: '' @ unwords cmd_words) st;
          (start_ts, st2) = get_timestamp_ms e st1;
          output_file = CHECK_COUNT st2;
          (exit_status, captured) = exec e (cwd st2) cmd_words;
          st3 = st2\<lparr> ran := ran st2 @ [(cwd st2, cmd_words)],
                    files := (files st2)(output_file \<mapsto> captured),
                    errexit := True \<rparr>;
          (end_ts, st4) = get_timestamp_ms e st3;
          duration = (if end_ts - start_ts < 0 then 0 else end_ts - start_ts)
      in if exit_status = 0
         then Running (log_success description (store_result name ''passed'' duration None st4))
         else
           let st5 = store_result name ''failed'' duration (Some output_file) st4;
               st6 = log_error description (st5\<lparr>TOTAL_ERRORS := TOTAL_ERRORS st5 + 1\<rparr>);
               st7 = (if VERBOSE st6 = ''1'' \<and> OUTPUT st6 = ''text''
                      then to_stderr (head_n 50 captured) st6 else st6)
           in if FAIL_FAST st7 = ''1''
              then andthen (output_results e st7) (Exited 1)
              else Running st7)"

text \<open>The tool of the virtual environment if executable, else the one on the path, else empty.\<close>

definition resolve_tool :: "env \<Rightarrow> string \<Rightarrow> string" where
  "resolve_tool e tool =
     (if venv_exec e tool then PROJECT_ROOT e @ ''/.venv/bin/'' @ tool
      else if on_path e tool then tool
      else [])"

definition none_if_empty :: "string \<Rightarrow> string" where
  "none_if_empty s = (if s = [] then ''none'' else s)"

definition run_backend_checks :: "env \<Rightarrow> state \<Rightarrow> flow" where
  "run_backend_checks e =
     ifte (\<lambda>st. \<not> backend_dir e)
       (cmd (log_warning (''Backend directory not found: '' @ BACKEND_PATH e)))
       (seq
         [cmd (log_info ''Running backend checks...''),
          cmd (\<lambda>st. st\<lparr>cwd := BACKEND_PATH e\<rparr>),
          cmd (log_verbose (''Tool paths: black='' @ none_if_empty (resolve_tool e ''black'')
                            @ '', isort='' @ none_if_empty (resolve_tool e ''isort''))),
          ifte (\<lambda>st. resolve_tool e ''black'' \<noteq> [])
            (run_check e ''backend_black'' ''Backend: Black formatting''
               [resolve_tool e ''black'', ''--check'', ''--quiet'', ''.''])
            (cmd (log_warning ''black not installed - skipping format check'')),
          ifte (\<lambda>st. resolve_tool e ''isort'' \<noteq> [])
            (run_check e ''backend_isort'' ''Backend: Import sorting (isort)''
               [resolve_tool e ''isort'', ''--check-only'', ''--quiet'', ''.''])
            (cmd (log_warning ''isort not installed - skipping import sort check'')),
          ifte (\<lambda>st. LEVEL st = ''standard'' \<or> LEVEL st = ''full'')
            (seq
              [ifte (\<lambda>st. resolve_tool e ''flake8'' \<noteq> [])
                 (run_check e ''backend_flake8'' ''Backend: Flake8 linting''
                    [resolve_tool e ''flake8'', ''.'', ''--max-line-length=88'',
                     ''--count'', ''--statistics''])
                 (cmd (log_warning ''flake8 not installed - skipping lint check'')),
               ifte (\<lambda>st. resolve_tool e ''mypy'' \<noteq> [])
                 (run_check e ''backend_mypy'' ''Backend: Type checking (mypy)''
                    [resolve_tool e ''mypy'', ''.'', ''--ignore-missing-imports'',
                     ''--no-error-summary''])
                 (cmd (log_warning ''mypy not installed - skipping type check''))])
            skip,
          ifte (\<lambda>st. LEVEL st = ''full'')
            (ifte (\<lambda>st. tests_dir e \<and> resolve_tool e ''pytest'' \<noteq> [])
               (run_check e ''backend_pytest'' ''Backend: Unit tests (pytest)''
                  [resolve_tool e ''pytest'', ''tests/'', ''-v'', ''--tb=short'', ''-q''])
               (ifte (\<lambda>st. tests_dir e)
                  (cmd (log_warning ''pytest not installed - skipping tests''))
                  skip))
            skip,
          cmd (\<lambda>st. st\<lparr>cwd := PROJECT_ROOT e\<rparr>)])"

text \<open>
  \<^verbatim>\<open>grep -q 'pattern' package.json\<close> for a pattern of ordinary characters:
  some line of the file contains it. No pattern used has a newline, so this
  is containment in the bytes of the file; a missing file matches nothing.
\<close>

definition grep_q :: "string \<Rightarrow> string option \<Rightarrow> bool" where
  "grep_q pattern file =
     (case file of None \<Rightarrow> False | Some content \<Rightarrow> sublist pattern content)"

definition quoted :: "string \<Rightarrow> string" where
  "quoted s = CHR 0x22 # s @ [CHR 0x22]"

text \<open>
  \<^verbatim>\<open>npm install --silent 2>/dev/null || true\<close>: the command is started and
  its exit status is not used. Only its standard error is discarded: what it
  prints on standard output goes to the standard output of the script.
\<close>

definition npm_install :: "env \<Rightarrow> state \<Rightarrow> state" where
  "npm_install e st =
     st\<lparr>ran := ran st @ [(cwd st, [''npm'', ''install'', ''--silent''])],
        out := out st @ (if npm_install_stdout e = [] then []
                         else [Txt (npm_install_stdout e)])\<rparr>"

definition run_frontend_checks :: "env \<Rightarrow> state \<Rightarrow> flow" where
  "run_frontend_checks e =
     ifte (\<lambda>st. \<not> frontend_dir e)
       (cmd (log_warning (''Frontend directory not found: '' @ FRONTEND_PATH e)))
       (seq
         [cmd (log_info ''Running frontend checks...''),
          cmd (\<lambda>st. st\<lparr>cwd := FRONTEND_PATH e\<rparr>),
          ifte (\<lambda>st. \<not> node_modules e)
            (seq [cmd (log_warning ''node_modules not found - installing dependencies...''),
                  cmd (npm_install e)])
            skip,
          ifte (\<lambda>st. package_json e \<noteq> None)
            (ifte (\<lambda>st. grep_q (quoted ''lint'') (package_json e))
               (quiet_or (run_check e ''frontend_eslint'' ''Frontend: ESLint''
                            [''npm'', ''run'', ''lint'', ''--silent'']))
               skip)
            skip,
          ifte (\<lambda>st. LEVEL st = ''standard'' \<or> LEVEL st = ''full'')
            (ifte (\<lambda>st. grep_q (quoted ''type-check'') (package_json e))
               (quiet_or (run_check e ''frontend_typecheck'' ''Frontend: TypeScript type check''
                            [''npm'', ''run'', ''type-check'', ''--silent'']))
               skip)
            skip,
          ifte (\<lambda>st. LEVEL st = ''full'')
            (seq
              [ifte (\<lambda>st. grep_q (quoted ''test'') (package_json e))
                 (quiet_or (run_check e ''frontend_jest'' ''Frontend: Jest tests''
                              [''npm'', ''test'', ''--'', ''--passWithNoTests'',
                               ''--watchAll=false'']))
                 skip,
               ifte (\<lambda>st. grep_q (quoted ''build'') (package_json e))
                 (run_check e ''frontend_build'' ''Frontend: Build check''
                    [''npm'', ''run'', ''build''])
                 skip])
            skip,
          cmd (\<lambda>st. st\<lparr>cwd := PROJECT_ROOT e\<rparr>)])"

subsection \<open>Main\<close>

text \<open>
  Everything \<^verbatim>\<open>main\<close> does after \<^verbatim>\<open>parse_args\<close>. \<^verbatim>\<open>setup_temp\<close> and the
  four \<^verbatim>\<open>touch\<close> commands create the files that \<open>rows\<close> and \<open>files\<close>
  stand for; \<^verbatim>\<open>START_TIME\<close> is one reading of the clock.
\<close>

definition main_body :: "env \<Rightarrow> state \<Rightarrow> flow" where
  "main_body e =
     seq
       [cmd (setup_colors e),
        cmd (log_info ''Starting code review...''),
        cmd (\<lambda>st. log_info (''Level: '' @ LEVEL st @ '' | Target: '' @ TARGET st
                             @ '' | Output: '' @ OUTPUT st) st),
        check_dependencies e,
        cmd (\<lambda>st. snd (get_timestamp_ms e st)),
        ifte (\<lambda>st. TARGET st = ''all'')
          (seq [run_backend_checks e, run_frontend_checks e])
          (ifte (\<lambda>st. TARGET st = ''backend'')
             (run_backend_checks e)
             (ifte (\<lambda>st. TARGET st = ''frontend'')
                (run_frontend_checks e)
                skip)),
        output_results e,
        ifte (\<lambda>st. TOTAL_ERRORS st > 0) (Exited 1) (Exited 0)]"

definition main :: "env \<Rightarrow> string list \<Rightarrow> flow" where
  "main e args = andthen (parse_args args (initial e)) (main_body e)"

section \<open>Definitions used in the proofs\<close>

text \<open>
  The log helpers change nothing but \<open>err\<close>. \<open>errs_after f st\<close> names the
  standard error after \<open>f\<close> without looking into it.
\<close>

definition errs_after :: "(state \<Rightarrow> state) \<Rightarrow> state \<Rightarrow> string list" where
  "errs_after f st = err (f st)"

text \<open>A line of a log helper: colored tag, message, newline.\<close>

definition tagged :: "state \<Rightarrow> string \<Rightarrow> string \<Rightarrow> string \<Rightarrow> string" where
  "tagged st color label m = ansi st color @ label @ ansi st ''0'' @ '' '' @ m @ [nl]"

text \<open>The row that \<^verbatim>\<open>run_check\<close> appends when started in \<open>st\<close>.\<close>

definition new_row :: "env \<Rightarrow> string \<Rightarrow> string list \<Rightarrow> state \<Rightarrow> check_row" where
  "new_row e n w st =
     \<lparr> row_name = n,
       row_status = (if fst (exec e (cwd st) w) = 0 then ''passed'' else ''failed''),
       row_duration = (if clock_ms e (ticks st + 1) - clock_ms e (ticks st) < 0 then 0
                       else clock_ms e (ticks st + 1) - clock_ms e (ticks st)),
       row_output = (if fst (exec e (cwd st) w) = 0 then None else Some (CHECK_COUNT st)) \<rparr>"

text \<open>What \<^verbatim>\<open>run_check\<close> writes to standard error before it renders or returns.\<close>

definition check_errs :: "env \<Rightarrow> string \<Rightarrow> string list \<Rightarrow> state \<Rightarrow> string list" where
  "check_errs e d w st =
     (if VERBOSE st = ''1'' \<and> OUTPUT st = ''text'' \<and> \<not> stderr_null st
      then [tagged st ''0;36'' ''[DEBUG]'' (''Running: '' @ unwords w)] else [])
     @ (if fst (exec e (cwd st) w) = 0
        then (if OUTPUT st = ''text'' \<and> \<not> stderr_null st
              then [tagged st ''0;32'' ''[PASS]'' d] else [])
        else (if OUTPUT st = ''text'' \<and> \<not> stderr_null st
              then [tagged st ''0;31'' ''[FAIL]'' d] else [])
             @ (if VERBOSE st = ''1'' \<and> OUTPUT st = ''text'' \<and> \<not> stderr_null st
                then [head_n 50 (snd (exec e (cwd st) w))] else []))"

text \<open>The state in which \<^verbatim>\<open>run_check\<close> returns, or calls \<^verbatim>\<open>output_results\<close>.\<close>

definition checked :: "env \<Rightarrow> string \<Rightarrow> string \<Rightarrow> string list \<Rightarrow> state \<Rightarrow> state" where
  "checked e n d w st =
     st\<lparr> ticks := ticks st + 2,
         ran := ran st @ [(cwd st, w)],
         files := (files st)(CHECK_COUNT st \<mapsto> snd (exec e (cwd st) w)),
         errexit := True,
         CHECK_COUNT := CHECK_COUNT st + 1,
         rows := rows st @ [new_row e n w st],
         TOTAL_ERRORS := (if fst (exec e (cwd st) w) = 0 then TOTAL_ERRORS st
                          else TOTAL_ERRORS st + 1),
         err := err st @ check_errs e d w st \<rparr>"

text \<open>The same for a call \<^verbatim>\<open>run_check ... 2>/dev/null || ...\<close>.\<close>

definition hushed :: "state \<Rightarrow> state" where
  "hushed st = st\<lparr>stderr_null := True, errexit_ignored := True\<rparr>"

definition qchecked :: "env \<Rightarrow> string \<Rightarrow> string \<Rightarrow> string list \<Rightarrow> state \<Rightarrow> state" where
  "qchecked e n d w st =
     (checked e n d w (hushed st))\<lparr>stderr_null := stderr_null st,
                                   errexit_ignored := errexit_ignored st\<rparr>"

text \<open>
  \<open>hoare P c Q E\<close>: from a state with \<open>P\<close>, the command \<open>c\<close> returns in a
  state with \<open>Q\<close>, or exits with a status \<open>k\<close> in a state with \<open>E k\<close>.
\<close>

definition hoare :: "(state \<Rightarrow> bool) \<Rightarrow> (state \<Rightarrow> flow) \<Rightarrow> (state \<Rightarrow> bool) \<Rightarrow> (nat \<Rightarrow> state \<Rightarrow> bool) \<Rightarrow> bool" where
  "hoare P c Q E = (\<forall>s. P s \<longrightarrow> (case c s of Running s' \<Rightarrow> Q s' | Exited k s' \<Rightarrow> E k s'))"

text \<open>
  \<open>allowed e l t n\<close> collects the conditions on the path to the call of
  \<^verbatim>\<open>run_check\<close> for the check named \<open>n\<close>, at level \<open>l\<close> and target \<open>t\<close>.
\<close>

definition allowed :: "env \<Rightarrow> string \<Rightarrow> string \<Rightarrow> string \<Rightarrow> bool" where
  "allowed e l t n =
     (if n = ''backend_black'' then
        (t = ''all'' \<or> t = ''backend'') \<and> backend_dir e \<and> resolve_tool e ''black'' \<noteq> []
      else if n = ''backend_isort'' then
        (t = ''all'' \<or> t = ''backend'') \<and> backend_dir e \<and> resolve_tool e ''isort'' \<noteq> []
      else if n = ''backend_flake8'' then
        (t = ''all'' \<or> t = ''backend'') \<and> backend_dir e \<and> (l = ''standard'' \<or> l = ''full'')
        \<and> resolve_tool e ''flake8'' \<noteq> []
      else if n = ''backend_mypy'' then
        (t = ''all'' \<or> t = ''backend'') \<and> backend_dir e \<and> (l = ''standard'' \<or> l = ''full'')
        \<and> resolve_tool e ''mypy'' \<noteq> []
      else if n = ''backend_pytest'' then
        (t = ''all'' \<or> t = ''backend'') \<and> backend_dir e \<and> l = ''full''
        \<and> tests_dir e \<and> resolve_tool e ''pytest'' \<noteq> []
      else if n = ''frontend_eslint'' then
        (t = ''all'' \<or> t = ''frontend'') \<and> frontend_dir e
        \<and> grep_q (quoted ''lint'') (package_json e)
      else if n = ''frontend_typecheck'' then
        (t = ''all'' \<or> t = ''frontend'') \<and> frontend_dir e \<and> (l = ''standard'' \<or> l = ''full'')
        \<and> grep_q (quoted ''type-check'') (package_json e)
      else if n = ''frontend_jest'' then
        (t = ''all'' \<or> t = ''frontend'') \<and> frontend_dir e \<and> l = ''full''
        \<and> grep_q (quoted ''test'') (package_json e)
      else if n = ''frontend_build'' then
        (t = ''all'' \<or> t = ''frontend'') \<and> frontend_dir e \<and> l = ''full''
        \<and> grep_q (quoted ''build'') (package_json e)
      else False)"

definition quiet_name :: "string \<Rightarrow> bool" where
  "quiet_name n = (n = ''frontend_eslint'' \<or> n = ''frontend_typecheck'' \<or> n = ''frontend_jest'')"

text \<open>The description and the command line that each call site passes to \<^verbatim>\<open>run_check\<close>.\<close>

definition check_desc :: "string \<Rightarrow> string" where
  "check_desc n =
     (if n = ''backend_black'' then ''Backend: Black formatting''
      else if n = ''backend_isort'' then ''Backend: Import sorting (isort)''
      else if n = ''backend_flake8'' then ''Backend: Flake8 linting''
      else if n = ''backend_mypy'' then ''Backend: Type checking (mypy)''
      else if n = ''backend_pytest'' then ''Backend: Unit tests (pytest)''
      else if n = ''frontend_eslint'' then ''Frontend: ESLint''
      else if n = ''frontend_typecheck'' then ''Frontend: TypeScript type check''
      else if n = ''frontend_jest'' then ''Frontend: Jest tests''
      else if n = ''frontend_build'' then ''Frontend: Build check''
      else [])"

definition check_cmd :: "env \<Rightarrow> string \<Rightarrow> string list" where
  "check_cmd e n =
     (if n = ''backend_black'' then [resolve_tool e ''black'', ''--check'', ''--quiet'', ''.'']
      else if n = ''backend_isort'' then
        [resolve_tool e ''isort'', ''--check-only'', ''--quiet'', ''.'']
      else if n = ''backend_flake8'' then
        [resolve_tool e ''flake8'', ''.'', ''--max-line-length=88'', ''--count'', ''--statistics'']
      else if n = ''backend_mypy'' then
        [resolve_tool e ''mypy'', ''.'', ''--ignore-missing-imports'', ''--no-error-summary'']
      else if n = ''backend_pytest'' then
        [resolve_tool e ''pytest'', ''tests/'', ''-v'', ''--tb=short'', ''-q'']
      else if n = ''frontend_eslint'' then [''npm'', ''run'', ''lint'', ''--silent'']
      else if n = ''frontend_typecheck'' then [''npm'', ''run'', ''type-check'', ''--silent'']
      else if n = ''frontend_jest'' then
        [''npm'', ''test'', ''--'', ''--passWithNoTests'', ''--watchAll=false'']
      else if n = ''frontend_build'' then [''npm'', ''run'', ''build'']
      else [])"

text \<open>The branches of the \<^verbatim>\<open>case "$1"\<close> in \<^verbatim>\<open>parse_args\<close>, by kind.\<close>

datatype opt = OLevel | OOutput | OTarget | OFile | OFailFast | ONoColor | OVerbose | OHelp | OUnknown

definition opt_kind :: "string \<Rightarrow> opt" where
  "opt_kind a =
     (if a = ''-l'' \<or> a = ''--level'' then OLevel
      else if a = ''-o'' \<or> a = ''--output'' then OOutput
      else if a = ''-t'' \<or> a = ''--target'' then OTarget
      else if a = ''-f'' \<or> a = ''--file'' then OFile
      else if a = ''--fail-fast'' then OFailFast
      else if a = ''--no-color'' then ONoColor
      else if a = ''-v'' \<or> a = ''--verbose'' then OVerbose
      else if a = ''-h'' \<or> a = ''--help'' then OHelp
      else OUnknown)"

fun apply_opt :: "opt \<Rightarrow> string \<Rightarrow> state \<Rightarrow> state" where
  "apply_opt OLevel v st = st\<lparr>LEVEL := v\<rparr>"
| "apply_opt OOutput v st = st\<lparr>OUTPUT := v\<rparr>"
| "apply_opt OTarget v st = st\<lparr>TARGET := v\<rparr>"
| "apply_opt OFile v st = st\<lparr>OUTPUT_FILE := v\<rparr>"
| "apply_opt OFailFast v st = st\<lparr>FAIL_FAST := ''1''\<rparr>"
| "apply_opt ONoColor v st = st\<lparr>NO_COLOR := ''1''\<rparr>"
| "apply_opt OVerbose v st = st\<lparr>VERBOSE := ''1''\<rparr>"
| "apply_opt OHelp v st = st"
| "apply_opt OUnknown v st = st"

definition takes_value :: "opt \<Rightarrow> bool" where
  "takes_value k = (k = OLevel \<or> k = OOutput \<or> k = OTarget \<or> k = OFile)"

definition is_flag :: "opt \<Rightarrow> bool" where
  "is_flag k = (k = OFailFast \<or> k = ONoColor \<or> k = OVerbose)"

text \<open>Two states that differ in the configuration variables at most.\<close>

definition conf_frame :: "state \<Rightarrow> state \<Rightarrow> bool" where
  "conf_frame st st' =
     (rows st' = rows st \<and> CHECK_COUNT st' = CHECK_COUNT st \<and> TOTAL_ERRORS st' = TOTAL_ERRORS st
      \<and> files st' = files st \<and> ran st' = ran st \<and> out st' = out st \<and> err st' = err st
      \<and> written st' = written st \<and> rendered st' = rendered st \<and> errexit st' = errexit st
      \<and> errexit_ignored st' = errexit_ignored st \<and> stderr_null st' = stderr_null st
      \<and> ticks st' = ticks st \<and> cwd st' = cwd st \<and> colors st' = colors st)"

definition valid_config :: "state \<Rightarrow> bool" where
  "valid_config cfg =
     ((LEVEL cfg = ''quick'' \<or> LEVEL cfg = ''standard'' \<or> LEVEL cfg = ''full'')
      \<and> (OUTPUT cfg = ''text'' \<or> OUTPUT cfg = ''json'' \<or> OUTPUT cfg = ''junit'')
      \<and> (TARGET cfg = ''all'' \<or> TARGET cfg = ''backend'' \<or> TARGET cfg = ''frontend''))"

text \<open>An exit from \<^verbatim>\<open>parse_args\<close> has run nothing and printed no report.\<close>

definition no_run :: "state \<Rightarrow> state \<Rightarrow> bool" where
  "no_run st s =
     (rows s = rows st \<and> ran s = ran st \<and> written s = written st
      \<and> rendered s = rendered st
      \<and> (out s = out st \<or> out s = out st @ map Txt usage_text))"

text \<open>The configuration of \<open>s\<close> is that of \<open>c\<close>.\<close>

definition cfg_is :: "state \<Rightarrow> state \<Rightarrow> bool" where
  "cfg_is c s =
     (LEVEL s = LEVEL c \<and> OUTPUT s = OUTPUT c \<and> TARGET s = TARGET c
      \<and> FAIL_FAST s = FAIL_FAST c \<and> NO_COLOR s = NO_COLOR c \<and> VERBOSE s = VERBOSE c
      \<and> OUTPUT_FILE s = OUTPUT_FILE c)"

text \<open>A command that is a check, not the installation of the dependencies.\<close>

definition is_check :: "string \<times> string list \<Rightarrow> bool" where
  "is_check x = (snd x \<noteq> [''npm'', ''install'', ''--silent''])"

text \<open>The checks that were started, in order, each with its working directory.\<close>

definition checks_run :: "state \<Rightarrow> (string \<times> string list) list" where
  "checks_run st = filter is_check (ran st)"

text \<open>
  Row \<open>i\<close> of the store records the \<open>i\<close>-th check that was started: the
  command is the one of the check that the row names, file \<open>i\<close> holds what
  the command printed, and the status and the file reference of the row
  follow its exit status.
\<close>

definition row_ok :: "env \<Rightarrow> state \<Rightarrow> nat \<Rightarrow> check_row \<Rightarrow> bool" where
  "row_ok e st i r =
     (i < length (checks_run st)
      \<and> (case checks_run st ! i of
            (d, w) \<Rightarrow>
              w = check_cmd e (row_name r)
              \<and> files st i = Some (snd (exec e d w))
              \<and> row_status r = (if fst (exec e d w) = 0 then ''passed'' else ''failed'')
              \<and> row_output r = (if fst (exec e d w) = 0 then None else Some i)))"

definition store_ok :: "env \<Rightarrow> state \<Rightarrow> bool" where
  "store_ok e st =
     (CHECK_COUNT st = length (rows st)
      \<and> length (checks_run st) = length (rows st)
      \<and> TOTAL_ERRORS st = length (filter (\<lambda>r. row_status r = ''failed'') (rows st))
      \<and> (\<forall>i < length (rows st). row_ok e st i (rows st ! i)))"

text \<open>What \<^verbatim>\<open>npm install\<close> has printed on standard output, each time it was started.\<close>

definition install_output :: "env \<Rightarrow> state \<Rightarrow> printed list" where
  "install_output e s =
     concat (map (\<lambda>x. if is_check x \<or> npm_install_stdout e = [] then []
                       else [Txt (npm_install_stdout e)]) (ran s))"

text \<open>
  The renderer has been called once, on the store as \<open>s\<close> has it, and its
  report is the last thing printed, or has been written to the output file; a
  write that fails leaves no file.
\<close>

definition delivered :: "env \<Rightarrow> state \<Rightarrow> bool" where
  "delivered e s =
     (case render e s of
        None \<Rightarrow> False
      | Some r \<Rightarrow>
          rendered s = [r]
          \<and> (if OUTPUT_FILE s = [] then out s = install_output e s @ [Doc r] \<and> written s = []
              else out s = install_output e s
                   \<and> written s = (case write_error e (OUTPUT_FILE s) of
                                    None \<Rightarrow> [(OUTPUT_FILE s, r)] | Some x \<Rightarrow> [])))"

text \<open>Nothing has been rendered, and only \<^verbatim>\<open>npm install\<close> has printed.\<close>

definition undelivered :: "env \<Rightarrow> state \<Rightarrow> bool" where
  "undelivered e s = (out s = install_output e s \<and> written s = [] \<and> rendered s = [])"

text \<open>
  The four entities of the specification, one character at a time; the
  \<^verbatim>\<open>sed\<close> script of the source is compared with it below.
\<close>

definition xml_entity :: "char \<Rightarrow> string" where
  "xml_entity c =
     (if c = CHR ''&'' then ''&amp;''
      else if c = CHR ''<'' then ''&lt;''
      else if c = CHR ''>'' then ''&gt;''
      else if c = CHR 0x22 then ''&quot;''
      else [c])"

text \<open>The report cannot be written to the configured file.\<close>

definition write_fails :: "env \<Rightarrow> state \<Rightarrow> bool" where
  "write_fails e c = (OUTPUT_FILE c \<noteq> [] \<and> write_error e (OUTPUT_FILE c) \<noteq> None)"

text \<open>
  The exit status \<open>k\<close> of a run with configuration \<open>c\<close> that ends in state
  \<open>s\<close>: 3 before any check when a runtime is missing; otherwise 1 when a
  check failed, or when checks were recorded and the report cannot be
  written; otherwise 0.
\<close>

definition exit_rule :: "env \<Rightarrow> state \<Rightarrow> nat \<Rightarrow> state \<Rightarrow> bool" where
  "exit_rule e c k s =
     ((k = 3 \<and> missing_deps e c \<noteq> [] \<and> rows s = [])
      \<or> (k = 1 \<and> missing_deps e c = [] \<and> rows s \<noteq> []
          \<and> (TOTAL_ERRORS s > 0 \<or> write_fails e c))
      \<or> (k = 0 \<and> missing_deps e c = [] \<and> TOTAL_ERRORS s = 0
          \<and> (write_fails e c \<longrightarrow> rows s = [])))"

text \<open>All rows passed; or all but the last passed and the last failed.\<close>

definition all_passed :: "check_row list \<Rightarrow> bool" where
  "all_passed rs = list_all (\<lambda>r. row_status r = ''passed'') rs"

definition first_failure :: "check_row list \<Rightarrow> bool" where
  "first_failure rs =
     (\<exists>ps r. rs = ps @ [r] \<and> all_passed ps \<and> row_status r = ''failed'')"

text \<open>
  The head of the output captured in file \<open>i\<close> is on standard error; and this
  holds for every failed row of the store but those of the three checks that
  are called with standard error discarded.
\<close>

definition head_shown :: "state \<Rightarrow> nat \<Rightarrow> bool" where
  "head_shown s i =
     (case files s i of None \<Rightarrow> False | Some content \<Rightarrow> head_n 50 content \<in> set (err s))"

definition heads_shown :: "state \<Rightarrow> bool" where
  "heads_shown s =
     (CHECK_COUNT s = length (rows s)
      \<and> (\<forall>i < length (rows s).
            row_status (rows s ! i) = ''failed'' \<and> \<not> quiet_name (row_name (rows s ! i))
            \<longrightarrow> head_shown s i))"

text \<open>The \<^verbatim>\<open>case "${TARGET}"\<close> of \<^verbatim>\<open>main\<close>.\<close>

definition target_checks :: "env \<Rightarrow> state \<Rightarrow> flow" where
  "target_checks e =
     ifte (\<lambda>st. TARGET st = ''all'')
       (seq [run_backend_checks e, run_frontend_checks e])
       (ifte (\<lambda>st. TARGET st = ''backend'')
          (run_backend_checks e)
          (ifte (\<lambda>st. TARGET st = ''frontend'')
             (run_frontend_checks e)
             skip))"


text \<open>
  The checks named in \<open>D\<close> that the configuration \<open>c\<close> selects are in the
  store of \<open>s\<close>.
\<close>

definition recorded :: "env \<Rightarrow> state \<Rightarrow> string set \<Rightarrow> state \<Rightarrow> bool" where
  "recorded e c D s =
     (cfg_is c s
      \<and> (\<forall>n\<in>D. allowed e (LEVEL c) (TARGET c) n \<longrightarrow> n \<in> row_name ` set (rows s)))"

text \<open>Fail-fast is on and a check has failed.\<close>

definition cut_short :: "state \<Rightarrow> state \<Rightarrow> bool" where
  "cut_short c s = (FAIL_FAST c = ''1'' \<and> list_ex (\<lambda>r. row_status r = ''failed'') (rows s))"

text \<open>
  A run ends for want of a runtime, or cut short by fail-fast, or with every
  selected check in the store.
\<close>

definition ends_complete :: "env \<Rightarrow> state \<Rightarrow> nat \<Rightarrow> state \<Rightarrow> bool" where
  "ends_complete e c k s =
     (cfg_is c s \<and> (missing_deps e c \<noteq> [] \<or> cut_short c s \<or> recorded e c UNIV s))"

text \<open>The set of the checks that a run has executed, by name.\<close>

definition executed :: "env \<Rightarrow> string list \<Rightarrow> string set" where
  "executed e args = set (map row_name (rows (final (main e args))))"

section \<open>Example environments\<close>

text \<open>
  A project with Python, Node, npm, black, isort and flake8 on the path, no
  virtual environment, no \<^verbatim>\<open>node_modules\<close>, a \<^verbatim>\<open>package.json\<close> with a
  lint and a test script, a flake8 that reports one violation, an
  \<^verbatim>\<open>npm install\<close> that prints nothing, and one path that cannot be written.
\<close>

definition ci_env :: env where
  "ci_env =
     \<lparr> CR_LEVEL = None, CR_OUTPUT = None, CR_TARGET = None, CR_FAIL_FAST = None,
       CR_NO_COLOR = None, CR_VERBOSE = None,
       PROJECT_ROOT = ''/repo'', BACKEND_PATH = ''/repo/backend'',
       FRONTEND_PATH = ''/repo/frontend'',
       stdout_tty = False,
       on_path = (\<lambda>t. t = ''python3'' \<or> t = ''node'' \<or> t = ''npm'' \<or> t = ''black''
                        \<or> t = ''isort'' \<or> t = ''flake8''),
       venv_exec = (\<lambda>t. False),
       backend_dir = True, tests_dir = True, frontend_dir = True, node_modules = False,
       package_json = Some (''{'' @ quoted ''scripts'' @ '': {'' @ quoted ''lint'' @ '': 1, ''
                            @ quoted ''test'' @ '': 2}}''),
       exec = (\<lambda>d w. if w = [''flake8'', ''.'', ''--max-line-length=88'', ''--count'', ''--statistics'']
                      then (1, ''a.py:1:1: E501 x<y'' @ [nl, nl])
                      else (0, ''ok'' @ [nl])),
       npm_install_stdout = [],
       clock_ms = (\<lambda>n. int n * 10),
       iso_timestamp = ''2026-01-01T00:00:00Z'',
       awk_seconds = (\<lambda>d ms. ''0.010''),
       json_dumps = (\<lambda>s. Some (quoted s)),
       write_error = (\<lambda>p. if p = ''/ro/report'' then Some ''/ro/report: Permission denied''
                           else None) \<rparr>"

text \<open>The JSON report of that project for \<^verbatim>\<open>-o json -t backend\<close>.\<close>

definition ci_json :: json_doc where
  "ci_json =
     \<lparr> j_version = ''1.0'', j_timestamp = ''2026-01-01T00:00:00Z'',
       j_level = ''standard'', j_target = ''backend'',
       j_total = 3, j_passed = 2, j_failed = 1,
       j_checks =
         [\<lparr> jc_name = ''backend_black'', jc_status = ''passed'',
             jc_duration_ms = 10, jc_output = [CHR 0x22, CHR 0x22] \<rparr>,
          \<lparr> jc_name = ''backend_isort'', jc_status = ''passed'',
             jc_duration_ms = 10, jc_output = [CHR 0x22, CHR 0x22] \<rparr>,
          \<lparr> jc_name = ''backend_flake8'', jc_status = ''failed'',
             jc_duration_ms = 10,
             jc_output = quoted (''a.py:1:1: E501 x<y'' @ [nl, nl]) \<rparr>] \<rparr>"

text \<open>The JUnit report of the example project for \<^verbatim>\<open>-o junit -t backend\<close>.\<close>

definition ci_junit :: junit_doc where
  "ci_junit =
     \<lparr> ju_tests = 3, ju_failures = 1, ju_timestamp = ''2026-01-01T00:00:00Z'',
       ju_testcases =
         [\<lparr> tc_name = ''backend_black'', tc_classname = ''code-review'',
             tc_time = ''0.010'', tc_failure = None \<rparr>,
          \<lparr> tc_name = ''backend_isort'', tc_classname = ''code-review'',
             tc_time = ''0.010'', tc_failure = None \<rparr>,
          \<lparr> tc_name = ''backend_flake8'', tc_classname = ''code-review'',
             tc_time = ''0.010'',
             tc_failure = Some \<lparr> jf_message = ''Check failed'',
                                 jf_cdata = ''a.py:1:1: E501 x&lt;y'' \<rparr> \<rparr>] \<rparr>"

text \<open>The example project on a machine without Node and npm.\<close>

definition no_node_env :: env where
  "no_node_env = ci_env\<lparr>on_path := (\<lambda>t. t = ''python3'' \<or> t = ''black'')\<rparr>"

text \<open>The example project without its backend directory.\<close>

definition no_backend_env :: env where
  "no_backend_env = ci_env\<lparr>backend_dir := False\<rparr>"

text \<open>
  The example project with tools that all fail and an \<^verbatim>\<open>npm install\<close> that
  prints one line on standard output.
\<close>

definition red_env :: env where
  "red_env = ci_env\<lparr>exec := (\<lambda>d w. (1, ''boom'' @ [nl])),
                    npm_install_stdout := ''added 1 package'' @ [nl]\<rparr>"

text \<open>
  A project whose \<^verbatim>\<open>package.json\<close> defines a lint script only and lists
  \<^verbatim>\<open>build\<close> among its files; \<^verbatim>\<open>npm run build\<close> fails there for want of
  the script.
\<close>

definition files_build_env :: env where
  "files_build_env =
     ci_env\<lparr>package_json := Some (''{'' @ quoted ''scripts'' @ '': {'' @ quoted ''lint''
                                   @ '': 1}, '' @ quoted ''files'' @ '': ['' @ quoted ''build''
                                   @ '']}''),
            exec := (\<lambda>d w. if w = [''npm'', ''run'', ''build'']
                           then (1, ''npm error Missing script: build'' @ [nl])
                           else (0, ''ok'' @ [nl]))\<rparr>"


section \<open>Reasoning about runs\<close>

subsection \<open>What the log helpers leave alone\<close>

lemma to_stderr_frame: "to_stderr b st = st\<lparr>err := errs_after (to_stderr b) st\<rparr>"
  by (simp add: errs_after_def to_stderr_def)

lemma echo_err_frame: "echo_err l st = st\<lparr>err := errs_after (echo_err l) st\<rparr>"
  by (simp add: errs_after_def echo_err_def to_stderr_def)

lemma log_info_frame: "log_info m st = st\<lparr>err := errs_after (log_info m) st\<rparr>"
  by (simp add: errs_after_def log_info_def echo_err_def to_stderr_def)

lemma log_success_frame: "log_success m st = st\<lparr>err := errs_after (log_success m) st\<rparr>"
  by (simp add: errs_after_def log_success_def echo_err_def to_stderr_def)

lemma log_error_frame: "log_error m st = st\<lparr>err := errs_after (log_error m) st\<rparr>"
  by (simp add: errs_after_def log_error_def echo_err_def to_stderr_def)

lemma log_warning_frame: "log_warning m st = st\<lparr>err := errs_after (log_warning m) st\<rparr>"
  by (simp add: errs_after_def log_warning_def echo_err_def to_stderr_def)

lemma log_verbose_frame: "log_verbose m st = st\<lparr>err := errs_after (log_verbose m) st\<rparr>"
  by (simp add: errs_after_def log_verbose_def echo_err_def to_stderr_def)

lemmas log_frames = to_stderr_frame echo_err_frame log_info_frame log_success_frame
  log_error_frame log_warning_frame log_verbose_frame

lemma if_err_update:
  "(if c then s\<lparr>err := x\<rparr> else s) = s\<lparr>err := (if c then x else err s)\<rparr>"
  by simp

subsection \<open>Exits and final states\<close>

lemma final_andthen_Exited: "final (andthen f (Exited k)) = final f"
  by (cases f) simp_all

lemma exit_code_andthen_Exited:
  "exit_code (andthen f (Exited k)) = (case exit_code f of None \<Rightarrow> Some k | Some c \<Rightarrow> Some c)"
  by (cases f) simp_all

lemma flow_eq: "f = (case exit_code f of None \<Rightarrow> Running (final f) | Some k \<Rightarrow> Exited k (final f))"
  by (cases f) simp_all

subsection \<open>The fields after \<^verbatim>\<open>output_results\<close>\<close>

lemma output_results_exit:
  "exit_code (output_results e st) = None \<or> exit_code (output_results e st) = Some 1"
  by (simp add: output_results_def unbound_variable_def split: option.splits)

lemma output_results_exit_1:
  "(case exit_code (output_results e st) of None \<Rightarrow> Some (Suc 0) | Some c \<Rightarrow> Some c)
     = Some (Suc 0)"
  using output_results_exit [of e st] by (auto split: option.splits)

lemma output_results_fields:
  "rows (final (output_results e st)) = rows st"
  "CHECK_COUNT (final (output_results e st)) = CHECK_COUNT st"
  "TOTAL_ERRORS (final (output_results e st)) = TOTAL_ERRORS st"
  "files (final (output_results e st)) = files st"
  "ran (final (output_results e st)) = ran st"
  "cwd (final (output_results e st)) = cwd st"
  "errexit (final (output_results e st)) = errexit st"
  "errexit_ignored (final (output_results e st)) = errexit_ignored st"
  "stderr_null (final (output_results e st)) = stderr_null st"
  "ticks (final (output_results e st)) = ticks st"
  "colors (final (output_results e st)) = colors st"
  "LEVEL (final (output_results e st)) = LEVEL st"
  "OUTPUT (final (output_results e st)) = OUTPUT st"
  "TARGET (final (output_results e st)) = TARGET st"
  "FAIL_FAST (final (output_results e st)) = FAIL_FAST st"
  "NO_COLOR (final (output_results e st)) = NO_COLOR st"
  "VERBOSE (final (output_results e st)) = VERBOSE st"
  "OUTPUT_FILE (final (output_results e st)) = OUTPUT_FILE st"
  by (simp_all add: output_results_def unbound_variable_def log_frames split: option.splits)

subsection \<open>The state after \<^verbatim>\<open>run_check\<close>\<close>

lemma to_stderr_alt:
  "to_stderr b st = st\<lparr>err := err st @ (if stderr_null st then [] else [b])\<rparr>"
  by (simp add: to_stderr_def)

lemma echo_err_alt:
  "echo_err l st = st\<lparr>err := err st @ (if stderr_null st then [] else [l @ [nl]])\<rparr>"
  by (simp add: echo_err_def to_stderr_alt)

lemma tagged_frame [simp]:
  "tagged (st\<lparr>err := x\<rparr>) = tagged st"
  "tagged (st\<lparr>ticks := t\<rparr>) = tagged st"
  "tagged (st\<lparr>ran := r\<rparr>) = tagged st"
  "tagged (st\<lparr>files := f\<rparr>) = tagged st"
  "tagged (st\<lparr>errexit := b\<rparr>) = tagged st"
  "tagged (st\<lparr>CHECK_COUNT := k\<rparr>) = tagged st"
  "tagged (st\<lparr>TOTAL_ERRORS := k\<rparr>) = tagged st"
  "tagged (st\<lparr>rows := rs\<rparr>) = tagged st"
  "tagged (st\<lparr>cwd := c\<rparr>) = tagged st"
  "tagged (st\<lparr>rendered := rd\<rparr>) = tagged st"
  by (simp_all add: tagged_def ansi_def fun_eq_iff)

lemma log_info_alt:
  "log_info m st = st\<lparr>err := err st @ (if OUTPUT st = ''text'' \<and> \<not> stderr_null st
      then [tagged st ''0;34'' ''[INFO]'' m] else [])\<rparr>"
  by (simp add: log_info_def echo_err_alt tagged_def BLUE_def RESET_def)

lemma log_success_alt:
  "log_success m st = st\<lparr>err := err st @ (if OUTPUT st = ''text'' \<and> \<not> stderr_null st
      then [tagged st ''0;32'' ''[PASS]'' m] else [])\<rparr>"
  by (simp add: log_success_def echo_err_alt tagged_def GREEN_def RESET_def)

lemma log_error_alt:
  "log_error m st = st\<lparr>err := err st @ (if OUTPUT st = ''text'' \<and> \<not> stderr_null st
      then [tagged st ''0;31'' ''[FAIL]'' m] else [])\<rparr>"
  by (simp add: log_error_def echo_err_alt tagged_def RED_def RESET_def)

lemma log_warning_alt:
  "log_warning m st = st\<lparr>err := err st @ (if OUTPUT st = ''text'' \<and> \<not> stderr_null st
      then [tagged st ''0;33'' ''[WARN]'' m] else [])\<rparr>"
  by (simp add: log_warning_def echo_err_alt tagged_def YELLOW_def RESET_def)

lemma log_verbose_alt:
  "log_verbose m st = st\<lparr>err := err st @
      (if VERBOSE st = ''1'' \<and> OUTPUT st = ''text'' \<and> \<not> stderr_null st
       then [tagged st ''0;36'' ''[DEBUG]'' m] else [])\<rparr>"
  by (simp add: log_verbose_def echo_err_alt tagged_def CYAN_def RESET_def)

lemmas log_alt = to_stderr_alt echo_err_alt log_info_alt log_success_alt log_error_alt
  log_warning_alt log_verbose_alt

lemma run_check_passed:
  "fst (exec e (cwd st) w) = 0 \<Longrightarrow> run_check e n d w st = Running (checked e n d w st)"
  by (simp add: run_check_def Let_def split_def get_timestamp_ms_def store_result_def
        new_row_def log_alt checked_def check_errs_def
        split del: if_split cong del: if_weak_cong)

lemma run_check_failed:
  "fst (exec e (cwd st) w) \<noteq> 0 \<Longrightarrow> FAIL_FAST st \<noteq> ''1'' \<Longrightarrow>
     run_check e n d w st = Running (checked e n d w st)"
  apply (simp add: run_check_def Let_def split_def get_timestamp_ms_def store_result_def
        new_row_def log_alt checked_def check_errs_def if_err_update
        split del: if_split cong del: if_weak_cong)
  apply (rule state.equality; simp)
  done

lemma run_check_fail_fast:
  "fst (exec e (cwd st) w) \<noteq> 0 \<Longrightarrow> FAIL_FAST st = ''1'' \<Longrightarrow>
     run_check e n d w st = andthen (output_results e (checked e n d w st)) (Exited 1)"
  apply (simp add: run_check_def Let_def split_def get_timestamp_ms_def store_result_def
        new_row_def log_alt checked_def check_errs_def if_err_update
        split del: if_split cong del: if_weak_cong)
  apply (rule arg_cong2 [where f = andthen, OF _ refl])
  apply (rule arg_cong [where f = "output_results e"])
  apply (rule state.equality; simp)
  done

lemma run_check_eq:
  "run_check e n d w st =
     (if fst (exec e (cwd st) w) \<noteq> 0 \<and> FAIL_FAST st = ''1''
      then andthen (output_results e (checked e n d w st)) (Exited 1)
      else Running (checked e n d w st))"
  using run_check_passed [of e st w n d] run_check_failed [of e st w n d]
    run_check_fail_fast [of e st w n d]
  by (cases "fst (exec e (cwd st) w) = 0"; cases "FAIL_FAST st = ''1''") simp_all

lemma checked_fields [simp]:
  "rows (checked e n d w st) = rows st @ [new_row e n w st]"
  "CHECK_COUNT (checked e n d w st) = CHECK_COUNT st + 1"
  "TOTAL_ERRORS (checked e n d w st) =
     (if fst (exec e (cwd st) w) = 0 then TOTAL_ERRORS st else TOTAL_ERRORS st + 1)"
  "files (checked e n d w st) = (files st)(CHECK_COUNT st \<mapsto> snd (exec e (cwd st) w))"
  "ran (checked e n d w st) = ran st @ [(cwd st, w)]"
  "cwd (checked e n d w st) = cwd st"
  "errexit (checked e n d w st) = True"
  "errexit_ignored (checked e n d w st) = errexit_ignored st"
  "stderr_null (checked e n d w st) = stderr_null st"
  "ticks (checked e n d w st) = ticks st + 2"
  "colors (checked e n d w st) = colors st"
  "LEVEL (checked e n d w st) = LEVEL st"
  "OUTPUT (checked e n d w st) = OUTPUT st"
  "TARGET (checked e n d w st) = TARGET st"
  "FAIL_FAST (checked e n d w st) = FAIL_FAST st"
  "NO_COLOR (checked e n d w st) = NO_COLOR st"
  "VERBOSE (checked e n d w st) = VERBOSE st"
  "OUTPUT_FILE (checked e n d w st) = OUTPUT_FILE st"
  "out (checked e n d w st) = out st"
  "written (checked e n d w st) = written st"
  "rendered (checked e n d w st) = rendered st"
  "err (checked e n d w st) = err st @ check_errs e d w st"
  by (simp_all add: checked_def)

lemma run_check_exit:
  "exit_code (run_check e n d w st) =
     (if fst (exec e (cwd st) w) \<noteq> 0 \<and> FAIL_FAST st = ''1'' then Some 1 else None)"
  by (simp add: run_check_eq exit_code_andthen_Exited output_results_exit_1)

lemma run_check_final:
  "final (run_check e n d w st) =
     (if fst (exec e (cwd st) w) \<noteq> 0 \<and> FAIL_FAST st = ''1''
      then final (output_results e (checked e n d w st))
      else checked e n d w st)"
  by (simp add: run_check_eq final_andthen_Exited)


lemma new_row_hushed [simp]: "new_row e n w (hushed st) = new_row e n w st"
  by (simp add: new_row_def hushed_def)

lemma check_errs_hushed [simp]: "check_errs e d w (hushed st) = []"
  by (simp add: check_errs_def hushed_def)

lemma hushed_fields [simp]:
  "rows (hushed st) = rows st"
  "CHECK_COUNT (hushed st) = CHECK_COUNT st"
  "TOTAL_ERRORS (hushed st) = TOTAL_ERRORS st"
  "files (hushed st) = files st"
  "ran (hushed st) = ran st"
  "cwd (hushed st) = cwd st"
  "errexit (hushed st) = errexit st"
  "errexit_ignored (hushed st) = True"
  "stderr_null (hushed st) = True"
  "ticks (hushed st) = ticks st"
  "colors (hushed st) = colors st"
  "LEVEL (hushed st) = LEVEL st"
  "OUTPUT (hushed st) = OUTPUT st"
  "TARGET (hushed st) = TARGET st"
  "FAIL_FAST (hushed st) = FAIL_FAST st"
  "NO_COLOR (hushed st) = NO_COLOR st"
  "VERBOSE (hushed st) = VERBOSE st"
  "OUTPUT_FILE (hushed st) = OUTPUT_FILE st"
  "out (hushed st) = out st"
  "written (hushed st) = written st"
  "rendered (hushed st) = rendered st"
  "err (hushed st) = err st"
  by (simp_all add: hushed_def)

lemma qchecked_fields [simp]:
  "rows (qchecked e n d w st) = rows st @ [new_row e n w st]"
  "CHECK_COUNT (qchecked e n d w st) = CHECK_COUNT st + 1"
  "TOTAL_ERRORS (qchecked e n d w st) =
     (if fst (exec e (cwd st) w) = 0 then TOTAL_ERRORS st else TOTAL_ERRORS st + 1)"
  "files (qchecked e n d w st) = (files st)(CHECK_COUNT st \<mapsto> snd (exec e (cwd st) w))"
  "ran (qchecked e n d w st) = ran st @ [(cwd st, w)]"
  "cwd (qchecked e n d w st) = cwd st"
  "errexit (qchecked e n d w st) = True"
  "errexit_ignored (qchecked e n d w st) = errexit_ignored st"
  "stderr_null (qchecked e n d w st) = stderr_null st"
  "ticks (qchecked e n d w st) = ticks st + 2"
  "colors (qchecked e n d w st) = colors st"
  "LEVEL (qchecked e n d w st) = LEVEL st"
  "OUTPUT (qchecked e n d w st) = OUTPUT st"
  "TARGET (qchecked e n d w st) = TARGET st"
  "FAIL_FAST (qchecked e n d w st) = FAIL_FAST st"
  "NO_COLOR (qchecked e n d w st) = NO_COLOR st"
  "VERBOSE (qchecked e n d w st) = VERBOSE st"
  "OUTPUT_FILE (qchecked e n d w st) = OUTPUT_FILE st"
  "out (qchecked e n d w st) = out st"
  "written (qchecked e n d w st) = written st"
  "rendered (qchecked e n d w st) = rendered st"
  "err (qchecked e n d w st) = err st"
  by (simp_all add: qchecked_def)

lemma quiet_run_check_eq:
  "quiet_or (run_check e n d w) st =
     (if fst (exec e (cwd st) w) \<noteq> 0 \<and> FAIL_FAST st = ''1''
      then andthen (output_results e (checked e n d w (hushed st))) (Exited 1)
      else Running (qchecked e n d w st))"
proof (cases "fst (exec e (cwd st) w) \<noteq> 0 \<and> FAIL_FAST st = ''1''")
  case True
  have "exit_code (andthen (output_results e (checked e n d w (hushed st))) (Exited 1)) = Some 1"
    by (simp add: exit_code_andthen_Exited output_results_exit_1)
  then obtain s where "andthen (output_results e (checked e n d w (hushed st))) (Exited 1) = Exited 1 s"
    by (cases "andthen (output_results e (checked e n d w (hushed st))) (Exited 1)") simp_all
  with True show ?thesis
    by (simp add: quiet_or_def run_check_eq hushed_def [symmetric])
next
  case False
  then show ?thesis
    by (auto simp add: quiet_or_def run_check_eq hushed_def [symmetric] qchecked_def)
qed

subsection \<open>Triples\<close>

lemma hoareI:
  "(\<And>s. P s \<Longrightarrow> (case c s of Running s' \<Rightarrow> Q s' | Exited k s' \<Rightarrow> E k s')) \<Longrightarrow> hoare P c Q E"
  by (simp add: hoare_def)

lemma hoareD:
  "hoare P c Q E \<Longrightarrow> P s \<Longrightarrow> (case c s of Running s' \<Rightarrow> Q s' | Exited k s' \<Rightarrow> E k s')"
  by (simp add: hoare_def)

lemma hoare_seq_Nil: "hoare I (seq []) I E"
  by (simp add: hoare_def)

lemma hoare_seq_Cons:
  assumes "hoare P c R E" and "hoare R (seq cs) Q E"
  shows "hoare P (seq (c # cs)) Q E"
proof (rule hoareI)
  fix s assume p: "P s"
  show "case seq (c # cs) s of Running s' \<Rightarrow> Q s' | Exited k s' \<Rightarrow> E k s'"
  proof (cases "c s")
    case (Running s1)
    with hoareD [OF assms(1) p] have "R s1" by simp
    from hoareD [OF assms(2) this] Running show ?thesis by simp
  next
    case (Exited k s1)
    with hoareD [OF assms(1) p] show ?thesis by simp
  qed
qed

lemma hoare_ifte_known:
  assumes "\<And>s. P s \<Longrightarrow> b s = B" and "B \<Longrightarrow> hoare P f Q E" and "\<not> B \<Longrightarrow> hoare P g Q E"
  shows "hoare P (ifte b f g) Q E"
proof (rule hoareI)
  fix s assume p: "P s"
  show "case ifte b f g s of Running s' \<Rightarrow> Q s' | Exited k s' \<Rightarrow> E k s'"
  proof (cases B)
    case True
    with assms(1) [OF p] hoareD [OF assms(2) p] show ?thesis by (simp add: ifte_def)
  next
    case False
    with assms(1) [OF p] hoareD [OF assms(3) p] show ?thesis by (simp add: ifte_def)
  qed
qed

lemma hoare_skip: "hoare I skip I E"
  by (simp add: hoare_def skip_def)

lemma hoare_cmd: "(\<And>s. P s \<Longrightarrow> Q (f s)) \<Longrightarrow> hoare P (cmd f) Q E"
  by (simp add: hoare_def cmd_def)

lemma hoare_run_check:
  assumes "\<And>s. P s \<Longrightarrow> \<not> (fst (exec e (cwd s) w) \<noteq> 0 \<and> FAIL_FAST s = ''1'')
             \<Longrightarrow> Q (checked e n d w s)"
    and "\<And>s. P s \<Longrightarrow> fst (exec e (cwd s) w) \<noteq> 0 \<Longrightarrow> FAIL_FAST s = ''1''
             \<Longrightarrow> E 1 (final (output_results e (checked e n d w s)))"
  shows "hoare P (run_check e n d w) Q E"
proof (rule hoareI)
  fix s assume p: "P s"
  show "case run_check e n d w s of Running s' \<Rightarrow> Q s' | Exited k s' \<Rightarrow> E k s'"
  proof (cases "fst (exec e (cwd s) w) \<noteq> 0 \<and> FAIL_FAST s = ''1''")
    case True
    then have x: "exit_code (run_check e n d w s) = Some 1"
      and f: "final (run_check e n d w s) = final (output_results e (checked e n d w s))"
      by (simp_all add: run_check_exit run_check_final)
    from x obtain s' where r: "run_check e n d w s = Exited 1 s'"
      by (cases "run_check e n d w s") simp_all
    with f assms(2) [OF p] True show ?thesis by simp
  next
    case False
    then have "run_check e n d w s = Running (checked e n d w s)"
      using run_check_eq [of e n d w s] by auto
    moreover have "Q (checked e n d w s)"
      using assms(1) [OF p False] .
    ultimately show ?thesis by simp
  qed
qed

lemma hoare_quiet_run_check:
  assumes "\<And>s. P s \<Longrightarrow> \<not> (fst (exec e (cwd s) w) \<noteq> 0 \<and> FAIL_FAST s = ''1'')
             \<Longrightarrow> Q (qchecked e n d w s)"
    and "\<And>s. P s \<Longrightarrow> fst (exec e (cwd s) w) \<noteq> 0 \<Longrightarrow> FAIL_FAST s = ''1''
             \<Longrightarrow> E 1 (final (output_results e (checked e n d w (hushed s))))"
  shows "hoare P (quiet_or (run_check e n d w)) Q E"
proof (rule hoareI)
  fix s assume p: "P s"
  show "case quiet_or (run_check e n d w) s of Running s' \<Rightarrow> Q s' | Exited k s' \<Rightarrow> E k s'"
  proof (cases "fst (exec e (cwd s) w) \<noteq> 0 \<and> FAIL_FAST s = ''1''")
    case True
    have "exit_code (andthen (output_results e (checked e n d w (hushed s))) (Exited 1)) = Some 1"
      by (simp add: exit_code_andthen_Exited output_results_exit_1)
    then obtain s' where r: "andthen (output_results e (checked e n d w (hushed s))) (Exited 1) = Exited 1 s'"
      by (cases "andthen (output_results e (checked e n d w (hushed s))) (Exited 1)") simp_all
    then have "s' = final (output_results e (checked e n d w (hushed s)))"
      by (metis final.simps(2) final_andthen_Exited)
    with r assms(2) [OF p] True show ?thesis by (simp add: quiet_run_check_eq)
  next
    case False
    then have "quiet_or (run_check e n d w) s = Running (qchecked e n d w s)"
      using quiet_run_check_eq [of e n d w s] by auto
    moreover have "Q (qchecked e n d w s)"
      using assms(1) [OF p False] .
    ultimately show ?thesis by simp
  qed
qed


subsection \<open>Where each check is called\<close>

lemma hoare_eq: "hoare P c Q E \<Longrightarrow> c = c' \<Longrightarrow> hoare P c' Q E"
  by simp

lemma backend_rule:
  assumes cfg: "\<And>s. I s \<Longrightarrow> LEVEL s = l \<and> TARGET s = t"
    and t: "t = ''all'' \<or> t = ''backend''"
    and leaf: "\<And>n. allowed e l t n \<Longrightarrow> \<not> quiet_name n \<Longrightarrow>
                 hoare I (run_check e n (check_desc n) (check_cmd e n)) I E"
    and info: "\<And>m s. I s \<Longrightarrow> I (log_info m s)"
    and warn: "\<And>m s. I s \<Longrightarrow> I (log_warning m s)"
    and verb: "\<And>m s. I s \<Longrightarrow> I (log_verbose m s)"
    and cd: "\<And>x s. I s \<Longrightarrow> I (s\<lparr>cwd := x\<rparr>)"
  shows "hoare I (run_backend_checks e) I E"
  unfolding run_backend_checks_def
  apply (rule hoare_ifte_known [where B = "\<not> backend_dir e"], simp)
   apply (rule hoare_cmd, erule warn)
  apply (intro hoare_seq_Cons [where R = I] hoare_seq_Nil)
         apply (rule hoare_cmd, erule info)
        apply (rule hoare_cmd, erule cd)
       apply (rule hoare_cmd, erule verb)
      apply (rule hoare_ifte_known [where B = "resolve_tool e ''black'' \<noteq> []"], simp)
       apply (rule hoare_eq [OF leaf [of "''backend_black''"]]; simp add: allowed_def quiet_name_def check_desc_def check_cmd_def t)
      apply (rule hoare_cmd, erule warn)
     apply (rule hoare_ifte_known [where B = "resolve_tool e ''isort'' \<noteq> []"], simp)
      apply (rule hoare_eq [OF leaf [of "''backend_isort''"]]; simp add: allowed_def quiet_name_def check_desc_def check_cmd_def t)
     apply (rule hoare_cmd, erule warn)
    apply (rule hoare_ifte_known [where B = "l = ''standard'' \<or> l = ''full''"], simp add: cfg)
     apply (intro hoare_seq_Cons [where R = I] hoare_seq_Nil)
      apply (rule hoare_ifte_known [where B = "resolve_tool e ''flake8'' \<noteq> []"], simp)
       apply (rule hoare_eq [OF leaf [of "''backend_flake8''"]]; simp add: allowed_def quiet_name_def check_desc_def check_cmd_def t)
      apply (rule hoare_cmd, erule warn)
     apply (rule hoare_ifte_known [where B = "resolve_tool e ''mypy'' \<noteq> []"], simp)
      apply (rule hoare_eq [OF leaf [of "''backend_mypy''"]]; simp add: allowed_def quiet_name_def check_desc_def check_cmd_def t)
     apply (rule hoare_cmd, erule warn)
    apply (rule hoare_skip)
   apply (rule hoare_ifte_known [where B = "l = ''full''"], simp add: cfg)
    apply (rule hoare_ifte_known [where B = "tests_dir e \<and> resolve_tool e ''pytest'' \<noteq> []"], simp)
     apply (rule hoare_eq [OF leaf [of "''backend_pytest''"]]; simp add: allowed_def quiet_name_def check_desc_def check_cmd_def t)
    apply (rule hoare_ifte_known [where B = "tests_dir e"], simp)
     apply (rule hoare_cmd, erule warn)
    apply (rule hoare_skip)
   apply (rule hoare_skip)
  apply (rule hoare_cmd, erule cd)
  done

lemma frontend_rule:
  assumes cfg: "\<And>s. I s \<Longrightarrow> LEVEL s = l \<and> TARGET s = t"
    and t: "t = ''all'' \<or> t = ''frontend''"
    and leaf: "\<And>n. allowed e l t n \<Longrightarrow> \<not> quiet_name n \<Longrightarrow>
                 hoare I (run_check e n (check_desc n) (check_cmd e n)) I E"
    and qleaf: "\<And>n. allowed e l t n \<Longrightarrow> quiet_name n \<Longrightarrow>
                  hoare I (quiet_or (run_check e n (check_desc n) (check_cmd e n))) I E"
    and info: "\<And>m s. I s \<Longrightarrow> I (log_info m s)"
    and warn: "\<And>m s. I s \<Longrightarrow> I (log_warning m s)"
    and cd: "\<And>x s. I s \<Longrightarrow> I (s\<lparr>cwd := x\<rparr>)"
    and npm: "\<And>s. I s \<Longrightarrow> I (npm_install e s)"
  shows "hoare I (run_frontend_checks e) I E"
  unfolding run_frontend_checks_def
  apply (rule hoare_ifte_known [where B = "\<not> frontend_dir e"], simp)
   apply (rule hoare_cmd, erule warn)
  apply (intro hoare_seq_Cons [where R = I] hoare_seq_Nil)
        apply (rule hoare_cmd, erule info)
       apply (rule hoare_cmd, erule cd)
      apply (rule hoare_ifte_known [where B = "\<not> node_modules e"], simp)
       apply (intro hoare_seq_Cons [where R = I] hoare_seq_Nil)
        apply (rule hoare_cmd, erule warn)
       apply (rule hoare_cmd, erule npm)
      apply (rule hoare_skip)
     apply (rule hoare_ifte_known [where B = "package_json e \<noteq> None"], simp)
      apply (rule hoare_ifte_known [where B = "grep_q (quoted ''lint'') (package_json e)"], simp)
       apply (rule hoare_eq [OF qleaf [of "''frontend_eslint''"]]; simp add: allowed_def quiet_name_def check_desc_def check_cmd_def t)
      apply (rule hoare_skip)
     apply (rule hoare_skip)
    apply (rule hoare_ifte_known [where B = "l = ''standard'' \<or> l = ''full''"], simp add: cfg)
     apply (rule hoare_ifte_known [where B = "grep_q (quoted ''type-check'') (package_json e)"], simp)
      apply (rule hoare_eq [OF qleaf [of "''frontend_typecheck''"]]; simp add: allowed_def quiet_name_def check_desc_def check_cmd_def t)
     apply (rule hoare_skip)
    apply (rule hoare_skip)
   apply (rule hoare_ifte_known [where B = "l = ''full''"], simp add: cfg)
    apply (intro hoare_seq_Cons [where R = I] hoare_seq_Nil)
     apply (rule hoare_ifte_known [where B = "grep_q (quoted ''test'') (package_json e)"], simp)
      apply (rule hoare_eq [OF qleaf [of "''frontend_jest''"]]; simp add: allowed_def quiet_name_def check_desc_def check_cmd_def t)
     apply (rule hoare_skip)
    apply (rule hoare_ifte_known [where B = "grep_q (quoted ''build'') (package_json e)"], simp)
     apply (rule hoare_eq [OF leaf [of "''frontend_build''"]]; simp add: allowed_def quiet_name_def check_desc_def check_cmd_def t)
    apply (rule hoare_skip)
   apply (rule hoare_skip)
  apply (rule hoare_cmd, erule cd)
  done

text \<open>
  The rule for \<open>main_body\<close>: an invariant \<open>I\<close> of everything before
  \<^verbatim>\<open>output_results\<close>, a condition \<open>Q\<close> after it, and a condition \<open>E\<close> at
  every exit.
\<close>

lemma main_body_rule:
  assumes cfg: "\<And>s. I s \<Longrightarrow> LEVEL s = l \<and> TARGET s = t"
    and leaf: "\<And>n. allowed e l t n \<Longrightarrow> \<not> quiet_name n \<Longrightarrow>
                 hoare I (run_check e n (check_desc n) (check_cmd e n)) I E"
    and qleaf: "\<And>n. allowed e l t n \<Longrightarrow> quiet_name n \<Longrightarrow>
                  hoare I (quiet_or (run_check e n (check_desc n) (check_cmd e n))) I E"
    and info: "\<And>m s. I s \<Longrightarrow> I (log_info m s)"
    and warn: "\<And>m s. I s \<Longrightarrow> I (log_warning m s)"
    and verb: "\<And>m s. I s \<Longrightarrow> I (log_verbose m s)"
    and cd: "\<And>x s. I s \<Longrightarrow> I (s\<lparr>cwd := x\<rparr>)"
    and npm: "\<And>s. I s \<Longrightarrow> I (npm_install e s)"
    and col: "\<And>s. I0 s \<Longrightarrow> I0 (setup_colors e s)"
    and info0: "\<And>m s. I0 s \<Longrightarrow> I0 (log_info m s)"
    and deps: "\<And>s. I0 s \<Longrightarrow> missing_deps e s \<noteq> [] \<Longrightarrow>
                 E 3 (echo_err (''Missing dependencies:'' @ missing_deps e s) s)"
    and tick: "\<And>s. I0 s \<Longrightarrow> missing_deps e s = [] \<Longrightarrow> I (s\<lparr>ticks := Suc (ticks s)\<rparr>)"
    and outp: "hoare I (output_results e) Q E"
    and fin: "\<And>s. Q s \<Longrightarrow> (if TOTAL_ERRORS s > 0 then E 1 s else E 0 s)"
  shows "hoare I0 (main_body e) (\<lambda>s. False) E"
  unfolding main_body_def
  apply (rule hoare_seq_Cons [where R = I0], rule hoare_cmd, erule col)
  apply (rule hoare_seq_Cons [where R = I0], rule hoare_cmd, erule info0)
  apply (rule hoare_seq_Cons [where R = I0], rule hoare_cmd, erule info0)
  apply (rule hoare_seq_Cons [where R = "\<lambda>s. I0 s \<and> missing_deps e s = []"])
   apply (rule hoareI)
   apply (case_tac "missing_deps e s = []")
    apply (simp add: check_dependencies_def)
   apply (frule (1) deps)
   apply (simp add: check_dependencies_def)
  apply (rule hoare_seq_Cons [where R = I], rule hoare_cmd)
   apply (simp add: get_timestamp_ms_def tick)
  apply (rule hoare_seq_Cons [where R = I])
   apply (rule hoare_ifte_known [where B = "t = ''all''"], simp add: cfg)
    apply (intro hoare_seq_Cons [where R = I] hoare_seq_Nil)
     apply (rule backend_rule [where l = l and t = t]; (simp add: cfg leaf info warn verb cd)?)
    apply (rule frontend_rule [where l = l and t = t]; (simp add: cfg leaf qleaf info warn cd npm)?)
   apply (rule hoare_ifte_known [where B = "t = ''backend''"], simp add: cfg)
    apply (rule backend_rule [where l = l and t = t]; (simp add: cfg leaf info warn verb cd)?)
   apply (rule hoare_ifte_known [where B = "t = ''frontend''"], simp add: cfg)
    apply (rule frontend_rule [where l = l and t = t]; (simp add: cfg leaf qleaf info warn cd npm)?)
   apply (rule hoare_skip)
  apply (rule hoare_seq_Cons [where R = Q], rule outp)
  apply (rule hoare_seq_Cons [where R = "\<lambda>s. False"])
   apply (rule hoareI, drule fin, simp add: ifte_def split: if_splits)
  apply (simp add: hoare_def)
  done


subsection \<open>What \<^verbatim>\<open>parse_args\<close> changes\<close>

lemma parse_args_Nil [simp]: "parse_args [] st = validate_options st"
  by (simp add: parse_args_def)

lemma parse_args_step:
  "parse_args (a # rest) st =
     (if takes_value (opt_kind a) then
        (case rest of
           [] \<Rightarrow> unbound_variable ''$2'' st
         | v # rest' \<Rightarrow> parse_args rest' (apply_opt (opt_kind a) v st))
      else if is_flag (opt_kind a) then parse_args rest (apply_opt (opt_kind a) [] st)
      else if opt_kind a = OHelp then Exited 0 (show_help st)
      else Exited 2 (show_help (echo_err (''Unknown option: '' @ a) st)))"
  by (cases rest; simp add: parse_args_def opt_kind_def takes_value_def is_flag_def
        unbound_variable_def)

lemma conf_frame_refl: "conf_frame st st"
  by (simp add: conf_frame_def)

lemma conf_frame_trans: "conf_frame a b \<Longrightarrow> conf_frame b c \<Longrightarrow> conf_frame a c"
  by (simp add: conf_frame_def)

lemma apply_opt_frame: "conf_frame st (apply_opt k v st)"
  by (cases k) (simp_all add: conf_frame_def)

lemma validate_options_Running:
  "validate_options st = Running cfg \<Longrightarrow> cfg = st \<and> valid_config st"
  by (simp add: validate_options_def valid_config_def split: if_splits)

lemma no_run_frame: "conf_frame st st' \<Longrightarrow> no_run st' s \<Longrightarrow> no_run st s"
  by (simp add: no_run_def conf_frame_def)

lemma validate_options_Exited:
  "validate_options st = Exited k s \<Longrightarrow> no_run st s"
  by (auto simp add: validate_options_def no_run_def echo_err_alt split: if_splits)

text \<open>
  The three facts about \<^verbatim>\<open>parse_args\<close> share one induction: on the
  number of arguments left, by the kind of the first.
\<close>

lemma parse_args_induct [case_names nil val val1 flag other]:
  assumes nil: "\<And>st. P [] st"
    and val: "\<And>a v rest st. takes_value (opt_kind a) \<Longrightarrow>
                 P rest (apply_opt (opt_kind a) v st) \<Longrightarrow> P (a # v # rest) st"
    and val1: "\<And>a st. takes_value (opt_kind a) \<Longrightarrow> P [a] st"
    and flag: "\<And>a rest st. \<not> takes_value (opt_kind a) \<Longrightarrow> is_flag (opt_kind a) \<Longrightarrow>
                 P rest (apply_opt (opt_kind a) [] st) \<Longrightarrow> P (a # rest) st"
    and other: "\<And>a rest st. \<not> takes_value (opt_kind a) \<Longrightarrow> \<not> is_flag (opt_kind a) \<Longrightarrow>
                 P (a # rest) st"
  shows "P args st"
proof (induction args arbitrary: st rule: length_induct)
  case (1 args)
  show ?case
  proof (cases args)
    case Nil
    then show ?thesis by (simp add: nil)
  next
    case (Cons a rest)
    show ?thesis
    proof (cases "takes_value (opt_kind a)")
      case True
      show ?thesis
      proof (cases rest)
        case Nil
        with Cons True show ?thesis by (simp add: val1)
      next
        case (Cons v rest')
        with \<open>args = a # rest\<close> have "length rest' < length args" by simp
        with 1 have "P rest' (apply_opt (opt_kind a) v st)" by blast
        with True Cons \<open>args = a # rest\<close> show ?thesis by (simp add: val)
      qed
    next
      case False
      show ?thesis
      proof (cases "is_flag (opt_kind a)")
        case True
        from Cons have "length rest < length args" by simp
        with 1 have "P rest (apply_opt (opt_kind a) [] st)" by blast
        with False True Cons show ?thesis by (simp add: flag)
      next
        case nf: False
        with False Cons show ?thesis by (simp add: other)
      qed
    qed
  qed
qed

lemma parse_args_Running:
  "parse_args args st = Running cfg \<Longrightarrow> conf_frame st cfg \<and> valid_config cfg"
proof (induction args st rule: parse_args_induct)
  case (nil st)
  then show ?case by (auto dest: validate_options_Running simp: conf_frame_refl)
next
  case (val a v rest st)
  from val(3) val(1) have "parse_args rest (apply_opt (opt_kind a) v st) = Running cfg"
    by (simp add: parse_args_step)
  with val(2) have "conf_frame (apply_opt (opt_kind a) v st) cfg \<and> valid_config cfg" by simp
  with apply_opt_frame [of st "opt_kind a" v] show ?case
    by (blast intro: conf_frame_trans)
next
  case (val1 a st)
  then show ?case
    by (simp add: parse_args_step unbound_variable_def)
next
  case (flag a rest st)
  from flag(4) flag(1,2) have "parse_args rest (apply_opt (opt_kind a) [] st) = Running cfg"
    by (simp add: parse_args_step)
  with flag(3) have "conf_frame (apply_opt (opt_kind a) [] st) cfg \<and> valid_config cfg" by simp
  with apply_opt_frame [of st "opt_kind a" "[]"] show ?case
    by (blast intro: conf_frame_trans)
next
  case (other a rest st)
  then show ?case
    by (simp add: parse_args_step split: if_splits)
qed

text \<open>Options after a list that parses are parsed from the configuration it leaves.\<close>

lemma parse_args_append:
  "parse_args args st = Running cfg \<Longrightarrow> parse_args (args @ extra) st = parse_args extra cfg"
proof (induction args st rule: parse_args_induct)
  case (nil st)
  then show ?case by (auto dest: validate_options_Running)
next
  case (val a v rest st)
  from val(3) val(1) have "parse_args rest (apply_opt (opt_kind a) v st) = Running cfg"
    by (simp add: parse_args_step)
  with val(2) val(1) show ?case
    by (simp add: parse_args_step)
next
  case (val1 a st)
  then show ?case
    by (simp add: parse_args_step unbound_variable_def)
next
  case (flag a rest st)
  from flag(4) flag(1,2) have "parse_args rest (apply_opt (opt_kind a) [] st) = Running cfg"
    by (simp add: parse_args_step)
  with flag(3) flag(1,2) show ?case
    by (simp add: parse_args_step)
next
  case (other a rest st)
  then show ?case
    by (simp add: parse_args_step split: if_splits)
qed

lemma parse_args_Exited:
  "parse_args args st = Exited k s \<Longrightarrow> no_run st s"
proof (induction args st rule: parse_args_induct)
  case (nil st)
  then show ?case by (auto dest: validate_options_Exited)
next
  case (val a v rest st)
  from val(3) val(1) have "parse_args rest (apply_opt (opt_kind a) v st) = Exited k s"
    by (simp add: parse_args_step)
  with val(2) have "no_run (apply_opt (opt_kind a) v st) s" by simp
  with apply_opt_frame [of st "opt_kind a" v] show ?case
    by (blast intro: no_run_frame)
next
  case (val1 a st)
  then show ?case
    by (auto simp add: parse_args_step unbound_variable_def no_run_def echo_err_alt)
next
  case (flag a rest st)
  from flag(4) flag(1,2) have "parse_args rest (apply_opt (opt_kind a) [] st) = Exited k s"
    by (simp add: parse_args_step)
  with flag(3) have "no_run (apply_opt (opt_kind a) [] st) s" by simp
  with apply_opt_frame [of st "opt_kind a" "[]"] show ?case
    by (blast intro: no_run_frame)
next
  case (other a rest st)
  then show ?case
    by (auto simp add: parse_args_step no_run_def show_help_def echo_err_alt
        split: if_splits)
qed


text \<open>The loop alone: when it returns, only configuration variables have changed.\<close>

lemma parse_loop_step:
  "parse_loop (a # rest) st =
     (if takes_value (opt_kind a) then
        (case rest of
           [] \<Rightarrow> unbound_variable ''$2'' st
         | v # rest' \<Rightarrow> parse_loop rest' (apply_opt (opt_kind a) v st))
      else if is_flag (opt_kind a) then parse_loop rest (apply_opt (opt_kind a) [] st)
      else if opt_kind a = OHelp then Exited 0 (show_help st)
      else Exited 2 (show_help (echo_err (''Unknown option: '' @ a) st)))"
  by (cases rest; simp add: opt_kind_def takes_value_def is_flag_def)

lemma parse_loop_Running:
  "parse_loop args st = Running st' \<Longrightarrow> conf_frame st st'"
proof (induction args st rule: parse_args_induct)
  case (nil st)
  then show ?case by (simp add: conf_frame_refl)
next
  case (val a v rest st)
  from val(3) val(1) have "parse_loop rest (apply_opt (opt_kind a) v st) = Running st'"
    by (simp add: parse_loop_step del: parse_loop.simps)
  with val(2) have "conf_frame (apply_opt (opt_kind a) v st) st'" by simp
  with apply_opt_frame [of st "opt_kind a" v] show ?case
    by (blast intro: conf_frame_trans)
next
  case (val1 a st)
  then show ?case
    by (simp add: parse_loop_step unbound_variable_def del: parse_loop.simps)
next
  case (flag a rest st)
  from flag(4) flag(1,2) have "parse_loop rest (apply_opt (opt_kind a) [] st) = Running st'"
    by (simp add: parse_loop_step del: parse_loop.simps)
  with flag(3) have "conf_frame (apply_opt (opt_kind a) [] st) st'" by simp
  with apply_opt_frame [of st "opt_kind a" "[]"] show ?case
    by (blast intro: conf_frame_trans)
next
  case (other a rest st)
  then show ?case
    by (simp add: parse_loop_step del: parse_loop.simps split: if_splits)
qed

subsection \<open>Leaves of a run\<close>

lemma leaf_rule:
  assumes outp: "hoare J (output_results e) Q E"
    and q: "\<And>s. Q s \<Longrightarrow> E 1 s"
    and step: "\<And>s. I s \<Longrightarrow> I (checked e n d w s)"
    and pre: "\<And>s. I s \<Longrightarrow> fst (exec e (cwd s) w) \<noteq> 0 \<Longrightarrow> FAIL_FAST s = ''1''
                \<Longrightarrow> J (checked e n d w s)"
  shows "hoare I (run_check e n d w) I E"
proof (rule hoare_run_check)
  fix s assume "I s"
  then show "I (checked e n d w s)" by (rule step)
next
  fix s assume i: "I s" and f: "fst (exec e (cwd s) w) \<noteq> 0" and ff: "FAIL_FAST s = ''1''"
  let ?r = "output_results e (checked e n d w s)"
  from hoareD [OF outp pre [OF i f ff]]
  have c: "case ?r of Running s' \<Rightarrow> Q s' | Exited k s' \<Rightarrow> E k s'" .
  show "E 1 (final ?r)"
  proof (cases ?r)
    case (Running s')
    with c have "Q s'" by simp
    from q [OF this] Running show ?thesis by simp
  next
    case (Exited k s')
    with output_results_exit [of e "checked e n d w s"] have "k = 1" by simp
    with c Exited show ?thesis by simp
  qed
qed

lemma qleaf_rule:
  assumes outp: "hoare J (output_results e) Q E"
    and q: "\<And>s. Q s \<Longrightarrow> E 1 s"
    and step: "\<And>s. I s \<Longrightarrow> I (qchecked e n d w s)"
    and pre: "\<And>s. I s \<Longrightarrow> fst (exec e (cwd s) w) \<noteq> 0 \<Longrightarrow> FAIL_FAST s = ''1''
                \<Longrightarrow> J (checked e n d w (hushed s))"
  shows "hoare I (quiet_or (run_check e n d w)) I E"
proof (rule hoare_quiet_run_check)
  fix s assume "I s"
  then show "I (qchecked e n d w s)" by (rule step)
next
  fix s assume i: "I s" and f: "fst (exec e (cwd s) w) \<noteq> 0" and ff: "FAIL_FAST s = ''1''"
  let ?r = "output_results e (checked e n d w (hushed s))"
  from hoareD [OF outp pre [OF i f ff]]
  have c: "case ?r of Running s' \<Rightarrow> Q s' | Exited k s' \<Rightarrow> E k s'" .
  show "E 1 (final ?r)"
  proof (cases ?r)
    case (Running s')
    with c have "Q s'" by simp
    from q [OF this] Running show ?thesis by simp
  next
    case (Exited k s')
    with output_results_exit [of e "checked e n d w (hushed s)"] have "k = 1" by simp
    with c Exited show ?thesis by simp
  qed
qed

text \<open>A run ends in an exit.\<close>

lemma hoare_exit:
  assumes "hoare I c (\<lambda>s. False) E" and "I s"
  shows "\<exists>k s'. c s = Exited k s' \<and> E k s'"
  using hoareD [OF assms] by (cases "c s") simp_all

subsection \<open>The configuration stays\<close>

lemma cfg_is_cong:
  "LEVEL s' = LEVEL s \<Longrightarrow> OUTPUT s' = OUTPUT s \<Longrightarrow> TARGET s' = TARGET s
   \<Longrightarrow> FAIL_FAST s' = FAIL_FAST s \<Longrightarrow> NO_COLOR s' = NO_COLOR s \<Longrightarrow> VERBOSE s' = VERBOSE s
   \<Longrightarrow> OUTPUT_FILE s' = OUTPUT_FILE s \<Longrightarrow> cfg_is c s' = cfg_is c s"
  by (simp add: cfg_is_def)

lemma cfg_is_keep [simp]:
  "cfg_is c (log_info m s) = cfg_is c s"
  "cfg_is c (log_warning m s) = cfg_is c s"
  "cfg_is c (log_verbose m s) = cfg_is c s"
  "cfg_is c (echo_err m s) = cfg_is c s"
  "cfg_is c (s\<lparr>cwd := x\<rparr>) = cfg_is c s"
  "cfg_is c (s\<lparr>ticks := t\<rparr>) = cfg_is c s"
  "cfg_is c (npm_install e s) = cfg_is c s"
  "cfg_is c (setup_colors e s) = cfg_is c s"
  "cfg_is c (checked e n d w s) = cfg_is c s"
  "cfg_is c (qchecked e n d w s) = cfg_is c s"
  "cfg_is c (hushed s) = cfg_is c s"
  "cfg_is c (final (output_results e s)) = cfg_is c s"
  by (rule cfg_is_cong; simp add: log_alt npm_install_def setup_colors_def output_results_fields)+

lemma cfg_is_refl: "cfg_is c c"
  by (simp add: cfg_is_def)

subsection \<open>The store stays well formed\<close>

lemma check_cmd_is_check: "is_check (d, check_cmd e n)"
  by (simp add: is_check_def check_cmd_def)

lemma checks_run_checked [simp]:
  "checks_run (checked e n d (check_cmd e n) s) = checks_run s @ [(cwd s, check_cmd e n)]"
  "checks_run (qchecked e n d (check_cmd e n) s) = checks_run s @ [(cwd s, check_cmd e n)]"
  by (simp_all add: checks_run_def check_cmd_is_check)

lemma checks_run_npm_install [simp]: "checks_run (npm_install e s) = checks_run s"
  by (simp add: checks_run_def npm_install_def is_check_def)

lemma store_ok_cong:
  "rows s' = rows s \<Longrightarrow> CHECK_COUNT s' = CHECK_COUNT s \<Longrightarrow> TOTAL_ERRORS s' = TOTAL_ERRORS s
   \<Longrightarrow> files s' = files s \<Longrightarrow> ran s' = ran s \<Longrightarrow> store_ok e s' = store_ok e s"
  by (simp add: store_ok_def row_ok_def checks_run_def)

lemma store_ok_keep [simp]:
  "store_ok e (log_info m s) = store_ok e s"
  "store_ok e (log_warning m s) = store_ok e s"
  "store_ok e (log_verbose m s) = store_ok e s"
  "store_ok e (echo_err m s) = store_ok e s"
  "store_ok e (s\<lparr>cwd := x\<rparr>) = store_ok e s"
  "store_ok e (s\<lparr>ticks := t\<rparr>) = store_ok e s"
  "store_ok e (setup_colors e' s) = store_ok e s"
  "store_ok e (hushed s) = store_ok e s"
  "store_ok e (final (output_results e' s)) = store_ok e s"
  by (rule store_ok_cong; simp add: log_alt setup_colors_def output_results_fields)+

lemma row_ok_mono:
  assumes "row_ok e s i r" and "files s' i = files s i"
    and "checks_run s' = checks_run s @ extra"
  shows "row_ok e s' i r"
  using assms by (simp add: row_ok_def nth_append)

lemma store_ok_npm_install: "store_ok e s \<Longrightarrow> store_ok e (npm_install e' s)"
proof -
  assume a: "store_ok e s"
  have "row_ok e (npm_install e' s) i (rows s ! i)" if "i < length (rows s)" for i
  proof (rule row_ok_mono [where extra = "[]"])
    from a that show "row_ok e s i (rows s ! i)" by (simp add: store_ok_def)
    show "files (npm_install e' s) i = files s i" by (simp add: npm_install_def)
    show "checks_run (npm_install e' s) = checks_run s @ []" by simp
  qed
  with a show ?thesis
    by (simp add: store_ok_def) (simp add: npm_install_def)
qed

lemma store_ok_checked:
  assumes a: "store_ok e s"
  shows "store_ok e (checked e n d (check_cmd e n) s)"
  unfolding store_ok_def
proof (intro conjI allI impI)
  let ?s = "checked e n d (check_cmd e n) s"
  from a have c: "CHECK_COUNT s = length (rows s)" and l: "length (checks_run s) = length (rows s)"
    by (simp_all add: store_ok_def)
  show "CHECK_COUNT ?s = length (rows ?s)"
    using c by simp
  show "length (checks_run ?s) = length (rows ?s)"
    using l by simp
  show "TOTAL_ERRORS ?s = length (filter (\<lambda>r. row_status r = ''failed'') (rows ?s))"
    using a by (simp add: store_ok_def new_row_def)
  fix i assume i: "i < length (rows ?s)"
  show "row_ok e ?s i (rows ?s ! i)"
  proof (cases "i < length (rows s)")
    case True
    with a have "row_ok e s i (rows s ! i)" by (simp add: store_ok_def)
    then have "row_ok e ?s i (rows s ! i)"
      by (rule row_ok_mono) (use True c in simp_all)
    with True show ?thesis by (simp add: nth_append)
  next
    case False
    with i have "i = length (rows s)" by simp
    with c l show ?thesis
      by (simp add: row_ok_def nth_append new_row_def)
  qed
qed

lemma store_ok_qchecked:
  "store_ok e s \<Longrightarrow> store_ok e (qchecked e n d (check_cmd e n) s)"
  using store_ok_checked [of e s n d]
    store_ok_cong [of "qchecked e n d (check_cmd e n) s" "checked e n d (check_cmd e n) s" e]
  by simp

lemma store_ok_initial: "store_ok e (initial e')"
  by (simp add: store_ok_def initial_def checks_run_def)

lemma case_flow_final:
  "(case f of Running s' \<Rightarrow> P s' | Exited k s' \<Rightarrow> P s') = P (final f)"
  by (cases f) simp_all

lemma hoare_output_results_final:
  "(\<And>s. I s \<Longrightarrow> P (final (output_results e s))) \<Longrightarrow> hoare I (output_results e) P (\<lambda>k. P)"
  by (rule hoareI) (simp add: case_flow_final)

text \<open>Every run of \<open>main_body\<close> ends in an exit with a well-formed store.\<close>

lemma main_body_store:
  assumes "cfg_is c s0" and "store_ok e s0"
  shows "\<exists>k s. main_body e s0 = Exited k s \<and> cfg_is c s \<and> store_ok e s"
proof -
  let ?I = "\<lambda>s. cfg_is c s \<and> store_ok e s"
  have outp: "hoare ?I (output_results e) ?I (\<lambda>k. ?I)"
    by (rule hoare_output_results_final) simp
  have "hoare ?I (main_body e) (\<lambda>s. False) (\<lambda>k. ?I)"
  proof (rule main_body_rule [where l = "LEVEL c" and t = "TARGET c" and Q = ?I and I = ?I])
    show "\<And>s. ?I s \<Longrightarrow> LEVEL s = LEVEL c \<and> TARGET s = TARGET c"
      by (simp add: cfg_is_def)
    show "\<And>n. hoare ?I (run_check e n (check_desc n) (check_cmd e n)) ?I (\<lambda>k. ?I)"
      by (rule leaf_rule [OF outp]) (simp_all add: store_ok_checked)
    show "\<And>n. hoare ?I (quiet_or (run_check e n (check_desc n) (check_cmd e n))) ?I (\<lambda>k. ?I)"
      by (rule qleaf_rule [OF outp]) (simp_all add: store_ok_qchecked store_ok_checked)
    show "hoare ?I (output_results e) ?I (\<lambda>k. ?I)" by (rule outp)
  qed (simp_all add: store_ok_npm_install)
  from hoare_exit [OF this, of s0] assms show ?thesis by simp
qed

subsection \<open>What a report depends on\<close>

lemma text_loop_cong:
  "colors s' = colors s \<Longrightarrow> text_loop e s' rs (p, f, pr) = text_loop e s rs (p, f, pr)"
  by (induction rs arbitrary: p f pr) (simp_all add: GREEN_def RED_def RESET_def ansi_def)

lemma failures_loop_cong:
  "files s' = files s \<Longrightarrow> failures_loop s' rs pr = failures_loop s rs pr"
  by (induction rs arbitrary: pr) (simp_all split: option.splits)

lemma json_loop_cong:
  "files s' = files s \<Longrightarrow> json_loop e s' rs (p, f, cs) = json_loop e s rs (p, f, cs)"
  by (induction rs arbitrary: p f cs)
     (simp_all add: json_output_content_def cong: option.case_cong)

lemma junit_loop_cong:
  "files s' = files s \<Longrightarrow> junit_loop e s' rs tcs = junit_loop e s rs tcs"
  by (induction rs arbitrary: tcs)
     (simp_all add: junit_testcase_of_def cong: option.case_cong)

lemma render_cong:
  assumes "rows s' = rows s" and "CHECK_COUNT s' = CHECK_COUNT s"
    and "TOTAL_ERRORS s' = TOTAL_ERRORS s" and "files s' = files s" and "colors s' = colors s"
    and "LEVEL s' = LEVEL s" and "TARGET s' = TARGET s" and "OUTPUT s' = OUTPUT s"
  shows "render e s' = render e s"
proof -
  have "output_text e s' = output_text e s"
    using assms
    by (simp add: output_text_def text_loop_cong [of s' s] failures_loop_cong [of s' s]
          split: prod.splits)
  moreover have "output_json e s' = output_json e s"
    using assms by (simp add: output_json_def json_loop_cong [of s' s])
  moreover have "output_junit e s' = output_junit e s"
    using assms by (simp add: output_junit_def junit_loop_cong [of s' s])
  ultimately show ?thesis
    using assms by (simp add: render_def)
qed

lemma render_keep [simp]:
  "render e (s\<lparr>err := x\<rparr>) = render e s"
  "render e (s\<lparr>out := y\<rparr>) = render e s"
  "render e (s\<lparr>written := z\<rparr>) = render e s"
  "render e (s\<lparr>rendered := rd\<rparr>) = render e s"
  "render e (final (output_results e s)) = render e s"
  by (rule render_cong; simp add: output_results_fields)+

subsection \<open>The report is delivered once, at the end\<close>

lemma render_valid:
  "valid_config c \<Longrightarrow> cfg_is c s \<Longrightarrow> \<exists>r. render e s = Some r"
  by (auto simp add: valid_config_def cfg_is_def render_def)

lemma install_output_cong: "ran s' = ran s \<Longrightarrow> install_output e s' = install_output e s"
  by (simp add: install_output_def)

lemma install_output_checked [simp]:
  "install_output e' (checked e n d (check_cmd e n) s) = install_output e' s"
  "install_output e' (qchecked e n d (check_cmd e n) s) = install_output e' s"
  by (simp_all add: install_output_def check_cmd_is_check)

lemma undelivered_cong:
  "ran s' = ran s \<Longrightarrow> out s' = out s \<Longrightarrow> written s' = written s \<Longrightarrow> rendered s' = rendered s
   \<Longrightarrow> undelivered e s' = undelivered e s"
  by (simp add: undelivered_def install_output_def)

lemma undelivered_keep [simp]:
  "undelivered e (log_info m s) = undelivered e s"
  "undelivered e (log_warning m s) = undelivered e s"
  "undelivered e (log_verbose m s) = undelivered e s"
  "undelivered e (s\<lparr>cwd := x\<rparr>) = undelivered e s"
  "undelivered e (s\<lparr>err := l\<rparr>) = undelivered e s"
  "undelivered e (s\<lparr>ticks := t\<rparr>) = undelivered e s"
  "undelivered e (setup_colors e' s) = undelivered e s"
  "undelivered e (hushed s) = undelivered e s"
  by (rule undelivered_cong; simp add: log_alt setup_colors_def)+

lemma undelivered_checked [simp]:
  "undelivered e' (checked e n d (check_cmd e n) s) = undelivered e' s"
  "undelivered e' (qchecked e n d (check_cmd e n) s) = undelivered e' s"
  by (simp_all add: undelivered_def)

lemma undelivered_npm_install: "undelivered e s \<Longrightarrow> undelivered e (npm_install e s)"
  by (simp add: undelivered_def install_output_def npm_install_def is_check_def)

lemma output_results_delivers:
  assumes v: "valid_config c"
  shows "hoare (\<lambda>s. cfg_is c s \<and> undelivered e s)
     (output_results e)
     (\<lambda>s. cfg_is c s \<and> delivered e s)
     (\<lambda>k s. cfg_is c s \<and> (if k = 3 then out s = [] \<and> written s = [] else delivered e s))"
proof (rule hoareI)
  fix s assume a: "cfg_is c s \<and> undelivered e s"
  from render_valid [OF v, of s e] a obtain r where r: "render e s = Some r" by blast
  from a have u: "out s = install_output e s" "written s = []" "rendered s = []"
    by (simp_all add: undelivered_def)
  have i: "install_output e (s\<lparr>rendered := x, out := y\<rparr>) = install_output e s"
    "install_output e (s\<lparr>rendered := x, written := z\<rparr>) = install_output e s"
    "install_output e (s\<lparr>rendered := x\<rparr>) = install_output e s"
    "install_output e (s\<lparr>rendered := x, written := z, err := l\<rparr>) = install_output e s"
    "install_output e (s\<lparr>rendered := x, err := l\<rparr>) = install_output e s" for x y z l
    by (simp_all add: install_output_def)
  show "case output_results e s of
          Running s' \<Rightarrow> cfg_is c s' \<and> delivered e s'
        | Exited k s' \<Rightarrow> cfg_is c s' \<and>
            (if k = 3 then out s' = [] \<and> written s' = [] else delivered e s')"
  proof (cases "OUTPUT_FILE s = []")
    case True
    with a r u i show ?thesis
      by (simp add: output_results_def delivered_def cfg_is_def)
  next
    case False
    show ?thesis
    proof (cases "write_error e (OUTPUT_FILE s)")
      case None
      with a r u i False show ?thesis
        by (simp add: output_results_def delivered_def cfg_is_def log_alt)
    next
      case (Some x)
      with a r u i False show ?thesis
        by (simp add: output_results_def delivered_def cfg_is_def log_alt)
    qed
  qed
qed

lemma main_body_delivery:
  assumes v: "valid_config c" and "cfg_is c s0"
    and "ran s0 = []" and "out s0 = []" and "written s0 = []" and "rendered s0 = []"
  shows "\<exists>k s. main_body e s0 = Exited k s
           \<and> (if k = 3 then out s = [] \<and> written s = [] else delivered e s)"
proof -
  let ?A = "\<lambda>s. cfg_is c s \<and> ran s = [] \<and> out s = [] \<and> written s = [] \<and> rendered s = []"
  let ?I = "\<lambda>s. cfg_is c s \<and> undelivered e s"
  let ?Q = "\<lambda>s. cfg_is c s \<and> delivered e s"
  let ?E = "\<lambda>k s. cfg_is c s \<and> (if k = 3 then out s = [] \<and> written s = [] else delivered e s)"
  note outp = output_results_delivers [OF v, of e]
  have "hoare ?A (main_body e) (\<lambda>s. False) ?E"
  proof (rule main_body_rule [where l = "LEVEL c" and t = "TARGET c" and Q = ?Q and I = ?I])
    show "\<And>s. ?I s \<Longrightarrow> LEVEL s = LEVEL c \<and> TARGET s = TARGET c"
      by (simp add: cfg_is_def)
    show "\<And>n. hoare ?I (run_check e n (check_desc n) (check_cmd e n)) ?I ?E"
      by (rule leaf_rule [OF outp]) simp_all
    show "\<And>n. hoare ?I (quiet_or (run_check e n (check_desc n) (check_cmd e n))) ?I ?E"
      by (rule qleaf_rule [OF outp]) simp_all
    show "hoare ?I (output_results e) ?Q ?E" by (rule outp)
    show "\<And>s. ?I s \<Longrightarrow> ?I (npm_install e s)"
      by (simp add: undelivered_npm_install)
    show "\<And>s. ?A s \<Longrightarrow> missing_deps e s = [] \<Longrightarrow> ?I (s\<lparr>ticks := Suc (ticks s)\<rparr>)"
      by (simp add: undelivered_def install_output_def)
  qed (simp_all add: log_alt setup_colors_def cfg_is_def)
  from hoare_exit [OF this, of s0] assms
  obtain k s where "main_body e s0 = Exited k s" "?E k s" by blast
  then show ?thesis by blast
qed

lemma install_output_Doc: "Doc r \<notin> set (install_output e s)"
  by (auto simp add: install_output_def)

lemma delivered_member:
  "delivered e s \<Longrightarrow> Doc r \<in> set (out s) \<or> (p, r) \<in> set (written s) \<Longrightarrow> render e s = Some r"
  using install_output_Doc [of r e s]
  by (auto simp add: delivered_def split: option.splits if_splits)

subsection \<open>Every run, in two cases\<close>

lemma main_cases:
  obtains (parse_exit) k s where "parse_args args (initial e) = Exited k s"
      and "main e args = Exited k s" and "no_run (initial e) s"
  | (body) cfg k s where "parse_args args (initial e) = Running cfg"
      and "main e args = Exited k s" and "main_body e cfg = Exited k s"
      and "conf_frame (initial e) cfg" and "valid_config cfg"
      and "cfg_is cfg s" and "store_ok e s"
      and "if k = 3 then out s = [] \<and> written s = [] else delivered e s"
proof (cases "parse_args args (initial e)")
  case (Exited k s)
  then show ?thesis
    using parse_args_Exited [OF Exited] by (intro parse_exit [of k s]) (simp_all add: main_def)
next
  case (Running cfg)
  from parse_args_Running [OF Running]
  have fr: "conf_frame (initial e) cfg" and v: "valid_config cfg" by simp_all
  have so: "store_ok e cfg"
    using fr store_ok_cong [of cfg "initial e" e] store_ok_initial [of e e]
    by (simp add: conf_frame_def)
  from fr have o: "ran cfg = []" "out cfg = []" "written cfg = []" "rendered cfg = []"
    by (simp_all add: conf_frame_def initial_def)
  from main_body_store [OF cfg_is_refl so]
  obtain k s where 1: "main_body e cfg = Exited k s" "cfg_is cfg s" "store_ok e s" by blast
  from main_body_delivery [OF v cfg_is_refl o, of e] 1
  have 2: "if k = 3 then out s = [] \<and> written s = [] else delivered e s" by simp
  from Running 1 have "main e args = Exited k s" by (simp add: main_def)
  with Running 1 2 fr v show ?thesis by (intro body [of cfg k s]) simp_all
qed

subsection \<open>Exit statuses\<close>

lemma missing_deps_cong: "TARGET s = TARGET c \<Longrightarrow> missing_deps e s = missing_deps e c"
  by (simp add: missing_deps_def)

lemma output_results_top:
  assumes v: "valid_config c"
  shows "hoare (\<lambda>s. cfg_is c s \<and> missing_deps e c = [] \<and> errexit s = (rows s \<noteq> [])
                  \<and> \<not> errexit_ignored s \<and> (rows s = [] \<longrightarrow> TOTAL_ERRORS s = 0))
     (output_results e)
     (\<lambda>s. cfg_is c s \<and> missing_deps e c = [] \<and> (write_fails e c \<longrightarrow> rows s = [])
          \<and> (rows s = [] \<longrightarrow> TOTAL_ERRORS s = 0))
     (\<lambda>k s. cfg_is c s \<and> exit_rule e c k s)"
proof (rule hoareI)
  fix s
  assume a: "cfg_is c s \<and> missing_deps e c = [] \<and> errexit s = (rows s \<noteq> [])
             \<and> \<not> errexit_ignored s \<and> (rows s = [] \<longrightarrow> TOTAL_ERRORS s = 0)"
  from render_valid [OF v, of s e] a obtain r where r: "render e s = Some r" by blast
  from a have f: "OUTPUT_FILE s = OUTPUT_FILE c" by (simp add: cfg_is_def)
  show "case output_results e s of
          Running s' \<Rightarrow> cfg_is c s' \<and> missing_deps e c = []
             \<and> (write_fails e c \<longrightarrow> rows s' = []) \<and> (rows s' = [] \<longrightarrow> TOTAL_ERRORS s' = 0)
        | Exited k s' \<Rightarrow> cfg_is c s' \<and> exit_rule e c k s'"
  proof (cases "write_error e (OUTPUT_FILE s)")
    case None
    with a r f show ?thesis
      by (simp add: output_results_def write_fails_def cfg_is_def log_alt)
  next
    case (Some x)
    with a r f show ?thesis
      by (simp add: output_results_def write_fails_def exit_rule_def cfg_is_def log_alt)
  qed
qed

lemma output_results_fail_fast:
  assumes v: "valid_config c"
  shows "hoare (\<lambda>s. cfg_is c s \<and> missing_deps e c = [] \<and> TOTAL_ERRORS s > 0 \<and> rows s \<noteq> [])
     (output_results e)
     (\<lambda>s. cfg_is c s \<and> missing_deps e c = [] \<and> TOTAL_ERRORS s > 0 \<and> rows s \<noteq> [])
     (\<lambda>k s. cfg_is c s \<and> exit_rule e c k s)"
proof (rule hoareI)
  fix s
  assume a: "cfg_is c s \<and> missing_deps e c = [] \<and> TOTAL_ERRORS s > 0 \<and> rows s \<noteq> []"
  let ?r = "output_results e s"
  have fs: "cfg_is c (final ?r) \<and> TOTAL_ERRORS (final ?r) > 0 \<and> rows (final ?r) \<noteq> []"
    using a by (simp add: output_results_fields)
  show "case ?r of
          Running s' \<Rightarrow> cfg_is c s' \<and> missing_deps e c = [] \<and> TOTAL_ERRORS s' > 0 \<and> rows s' \<noteq> []
        | Exited k s' \<Rightarrow> cfg_is c s' \<and> exit_rule e c k s'"
  proof (cases ?r)
    case (Running s')
    with fs a show ?thesis by simp
  next
    case (Exited k s')
    with output_results_exit [of e s] have "k = 1" by simp
    with Exited fs a show ?thesis by (simp add: exit_rule_def)
  qed
qed

lemma main_body_exit:
  assumes v: "valid_config c"
    and s0: "rows c = []" "TOTAL_ERRORS c = 0" "\<not> errexit c" "\<not> errexit_ignored c"
  shows "\<exists>k s. main_body e c = Exited k s \<and> exit_rule e c k s"
proof -
  let ?A = "\<lambda>s. cfg_is c s \<and> rows s = [] \<and> TOTAL_ERRORS s = 0 \<and> \<not> errexit s
                  \<and> \<not> errexit_ignored s"
  let ?I = "\<lambda>s. cfg_is c s \<and> missing_deps e c = [] \<and> errexit s = (rows s \<noteq> [])
                  \<and> \<not> errexit_ignored s \<and> (rows s = [] \<longrightarrow> TOTAL_ERRORS s = 0)"
  let ?J = "\<lambda>s. cfg_is c s \<and> missing_deps e c = [] \<and> TOTAL_ERRORS s > 0 \<and> rows s \<noteq> []"
  let ?Q = "\<lambda>s. cfg_is c s \<and> missing_deps e c = [] \<and> (write_fails e c \<longrightarrow> rows s = [])
                  \<and> (rows s = [] \<longrightarrow> TOTAL_ERRORS s = 0)"
  let ?E = "\<lambda>k s. cfg_is c s \<and> exit_rule e c k s"
  note ff = output_results_fail_fast [OF v, of e]
  have q: "\<And>s. ?J s \<Longrightarrow> ?E 1 s"
    by (simp add: exit_rule_def)
  have "hoare ?A (main_body e) (\<lambda>s. False) ?E"
  proof (rule main_body_rule [where l = "LEVEL c" and t = "TARGET c" and Q = ?Q and I = ?I])
    show "\<And>s. ?I s \<Longrightarrow> LEVEL s = LEVEL c \<and> TARGET s = TARGET c"
      by (simp add: cfg_is_def)
    show "\<And>n. hoare ?I (run_check e n (check_desc n) (check_cmd e n)) ?I ?E"
      by (rule leaf_rule [OF ff q]) simp_all
    show "\<And>n. hoare ?I (quiet_or (run_check e n (check_desc n) (check_cmd e n))) ?I ?E"
      by (rule qleaf_rule [OF ff q]) simp_all
    show "hoare ?I (output_results e) ?Q ?E"
      by (rule output_results_top [OF v])
    show "\<And>s. ?Q s \<Longrightarrow> if 0 < TOTAL_ERRORS s then ?E 1 s else ?E 0 s"
      by (auto simp add: exit_rule_def)
    show "?E 3 (echo_err (''Missing dependencies:'' @ missing_deps e s) s)"
      if "?A s" and "missing_deps e s \<noteq> []" for s
    proof -
      from that have "missing_deps e s = missing_deps e c"
        by (intro missing_deps_cong) (simp add: cfg_is_def)
      with that show ?thesis
        by (simp add: exit_rule_def echo_err_alt cfg_is_def)
    qed
    show "?I (s\<lparr>ticks := Suc (ticks s)\<rparr>)" if "?A s" and "missing_deps e s = []" for s
    proof -
      from that have "missing_deps e s = missing_deps e c"
        by (intro missing_deps_cong) (simp add: cfg_is_def)
      with that show ?thesis
        by (simp add: cfg_is_def)
    qed
  qed (simp_all add: log_alt npm_install_def setup_colors_def cfg_is_def)
  from hoare_exit [OF this, of c] s0
  obtain k s where "main_body e c = Exited k s" "?E k s" by (auto simp add: cfg_is_refl)
  then show ?thesis by blast
qed

text \<open>What is known of a run whose arguments parse.\<close>

lemma main_Running:
  assumes "parse_args args (initial e) = Running cfg"
  obtains k s where "main e args = Exited k s" and "valid_config cfg" and "cfg_is cfg s"
    and "store_ok e s" and "exit_rule e cfg k s"
    and "if k = 3 then out s = [] \<and> written s = [] else delivered e s"
proof (cases rule: main_cases [of args e])
  case (parse_exit k s)
  with assms show ?thesis by simp
next
  case (body c k s)
  with assms have c: "c = cfg" by simp
  from body(4) have "rows c = []" "TOTAL_ERRORS c = 0" "\<not> errexit c" "\<not> errexit_ignored c"
    by (simp_all add: conf_frame_def initial_def)
  from main_body_exit [OF body(5) this, of e] body(3)
  have "exit_rule e c k s" by simp
  with body c show ?thesis by (intro that [of k s]) simp_all
qed

lemma store_ok_statuses:
  assumes "store_ok e s" and "r \<in> set (rows s)"
  shows "row_status r = ''passed'' \<or> row_status r = ''failed''"
proof -
  from assms(2) obtain i where "i < length (rows s)" "rows s ! i = r"
    by (auto simp add: in_set_conv_nth)
  with assms(1) have "row_ok e s i r" by (auto simp add: store_ok_def)
  then show ?thesis by (auto simp add: row_ok_def split: if_splits)
qed

lemma store_ok_all_passed:
  assumes "store_ok e s"
  shows "list_all (\<lambda>r. row_status r = ''passed'') (rows s) \<longleftrightarrow> TOTAL_ERRORS s = 0"
proof -
  have "TOTAL_ERRORS s = 0 \<longleftrightarrow> (\<forall>r\<in>set (rows s). row_status r \<noteq> ''failed'')"
    using assms by (simp add: store_ok_def filter_empty_conv)
  also have "\<dots> \<longleftrightarrow> (\<forall>r\<in>set (rows s). row_status r = ''passed'')"
    using store_ok_statuses [OF assms] by auto
  finally show ?thesis by (simp add: list_all_iff)
qed

lemma store_ok_some_failed:
  assumes "store_ok e s"
  shows "list_ex (\<lambda>r. row_status r = ''failed'') (rows s) \<longleftrightarrow> TOTAL_ERRORS s > 0"
  using assms by (auto simp add: store_ok_def list_ex_iff filter_empty_conv)

subsection \<open>Fail-fast\<close>

lemma hoare_post:
  assumes "hoare P c Q' E'" and "\<And>s. Q' s \<Longrightarrow> Q s" and "\<And>k s. E' k s \<Longrightarrow> E k s"
  shows "hoare P c Q E"
proof (rule hoareI)
  fix s assume "P s"
  from hoareD [OF assms(1) this] show "case c s of Running s' \<Rightarrow> Q s' | Exited k s' \<Rightarrow> E k s'"
    by (cases "c s") (simp_all add: assms(2,3))
qed

lemma main_body_fail_fast:
  assumes ff: "FAIL_FAST c = ''1''" and r0: "rows c = []" "ran c = []"
  shows "\<exists>k s. main_body e c = Exited k s
           \<and> length (filter is_check (ran s)) = length (rows s)
           \<and> (all_passed (rows s) \<or> (k = 1 \<and> first_failure (rows s)))"
proof -
  let ?I = "\<lambda>s. cfg_is c s \<and> length (filter is_check (ran s)) = length (rows s)
                  \<and> all_passed (rows s)"
  let ?J = "\<lambda>s. cfg_is c s \<and> length (filter is_check (ran s)) = length (rows s)
                  \<and> first_failure (rows s)"
  let ?E = "\<lambda>k s. cfg_is c s \<and> length (filter is_check (ran s)) = length (rows s)
                  \<and> (all_passed (rows s) \<or> (k = 1 \<and> first_failure (rows s)))"
  have c: "\<And>s. cfg_is c s \<Longrightarrow> FAIL_FAST s = ''1''"
    using ff by (simp add: cfg_is_def)
  have "hoare ?I (main_body e) (\<lambda>s. False) ?E"
  proof (rule main_body_rule [where l = "LEVEL c" and t = "TARGET c" and Q = ?I and I = ?I])
    show "\<And>s. ?I s \<Longrightarrow> LEVEL s = LEVEL c \<and> TARGET s = TARGET c"
      by (simp add: cfg_is_def)
    show "hoare ?I (run_check e n (check_desc n) (check_cmd e n)) ?I ?E" for n
    proof (rule hoare_run_check)
      fix s assume "?I s" and "\<not> (fst (exec e (cwd s) (check_cmd e n)) \<noteq> 0 \<and> FAIL_FAST s = ''1'')"
      with c [of s] show "?I (checked e n (check_desc n) (check_cmd e n) s)"
        using check_cmd_is_check [of "cwd s" e n]
        by (simp add: all_passed_def new_row_def)
    next
      fix s assume i: "?I s" and f: "fst (exec e (cwd s) (check_cmd e n)) \<noteq> 0"
      then have "first_failure (rows s @ [new_row e n (check_cmd e n) s])"
        unfolding first_failure_def
        by (intro exI [of _ "rows s"] exI [of _ "new_row e n (check_cmd e n) s"])
           (simp add: new_row_def)
      with i show "?E 1 (final (output_results e (checked e n (check_desc n) (check_cmd e n) s)))"
        using check_cmd_is_check [of "cwd s" e n]
        by (simp add: output_results_fields)
    qed
    show "hoare ?I (quiet_or (run_check e n (check_desc n) (check_cmd e n))) ?I ?E" for n
    proof (rule hoare_quiet_run_check)
      fix s assume "?I s" and "\<not> (fst (exec e (cwd s) (check_cmd e n)) \<noteq> 0 \<and> FAIL_FAST s = ''1'')"
      with c [of s] show "?I (qchecked e n (check_desc n) (check_cmd e n) s)"
        using check_cmd_is_check [of "cwd s" e n]
        by (simp add: all_passed_def new_row_def)
    next
      fix s assume i: "?I s" and f: "fst (exec e (cwd s) (check_cmd e n)) \<noteq> 0"
      then have "first_failure (rows s @ [new_row e n (check_cmd e n) s])"
        unfolding first_failure_def
        by (intro exI [of _ "rows s"] exI [of _ "new_row e n (check_cmd e n) s"])
           (simp add: new_row_def)
      with i show "?E 1 (final (output_results e
                      (checked e n (check_desc n) (check_cmd e n) (hushed s))))"
        using check_cmd_is_check [of "cwd s" e n]
        by (simp add: output_results_fields)
    qed
    show "hoare ?I (output_results e) ?I ?E"
      by (rule hoare_post [OF hoare_output_results_final [where P = ?I]])
         (simp_all add: output_results_fields)
  qed (simp_all add: log_alt npm_install_def setup_colors_def cfg_is_def is_check_def)
  from hoare_exit [OF this, of c] r0
  obtain k s where "main_body e c = Exited k s" "?E k s"
    by (auto simp add: cfg_is_refl all_passed_def)
  then show ?thesis by blast
qed

lemma first_failure_hd:
  assumes "rs \<noteq> []" and "row_status (hd rs) = ''failed''"
    and "all_passed rs \<or> first_failure rs"
  shows "length rs = 1 \<and> first_failure rs"
proof -
  from assms(1,2) have "\<not> all_passed rs"
    by (cases rs) (simp_all add: all_passed_def)
  with assms(3) have ff: "first_failure rs" by simp
  then obtain ps r where rs: "rs = ps @ [r]" and ps: "all_passed ps"
    by (auto simp add: first_failure_def)
  have "ps = []"
  proof (rule ccontr)
    assume "ps \<noteq> []"
    with rs ps have "row_status (hd rs) = ''passed''"
      by (cases ps) (simp_all add: all_passed_def)
    with assms(2) show False by simp
  qed
  with rs ff show ?thesis by simp
qed

subsection \<open>Which checks are recorded\<close>

lemma main_body_allowed:
  assumes r0: "rows c = []"
  shows "\<exists>k s. main_body e c = Exited k s
           \<and> list_all (\<lambda>r. allowed e (LEVEL c) (TARGET c) (row_name r)) (rows s)"
proof -
  let ?ok = "\<lambda>r. allowed e (LEVEL c) (TARGET c) (row_name r)"
  let ?I = "\<lambda>s. cfg_is c s \<and> list_all ?ok (rows s)"
  have outp: "hoare ?I (output_results e) ?I (\<lambda>k. ?I)"
    by (rule hoare_output_results_final) (simp add: output_results_fields)
  have "hoare ?I (main_body e) (\<lambda>s. False) (\<lambda>k. ?I)"
  proof (rule main_body_rule [where l = "LEVEL c" and t = "TARGET c" and Q = ?I and I = ?I])
    show "\<And>s. ?I s \<Longrightarrow> LEVEL s = LEVEL c \<and> TARGET s = TARGET c"
      by (simp add: cfg_is_def)
    show "hoare ?I (run_check e n (check_desc n) (check_cmd e n)) ?I (\<lambda>k. ?I)"
      if "allowed e (LEVEL c) (TARGET c) n" for n
      using that by (intro leaf_rule [OF outp]) (simp_all add: new_row_def)
    show "hoare ?I (quiet_or (run_check e n (check_desc n) (check_cmd e n))) ?I (\<lambda>k. ?I)"
      if "allowed e (LEVEL c) (TARGET c) n" for n
      using that by (intro qleaf_rule [OF outp]) (simp_all add: new_row_def)
    show "hoare ?I (output_results e) ?I (\<lambda>k. ?I)" by (rule outp)
  qed (simp_all add: log_alt npm_install_def setup_colors_def cfg_is_def)
  from hoare_exit [OF this, of c] r0
  obtain k s where "main_body e c = Exited k s" "?I s"
    by (auto simp add: cfg_is_refl)
  then show ?thesis by blast
qed

subsection \<open>Verbose output\<close>

lemma head_shown_mono:
  "head_shown s i \<Longrightarrow> files s' i = files s i \<Longrightarrow> set (err s) \<subseteq> set (err s')
   \<Longrightarrow> head_shown s' i"
  by (auto simp add: head_shown_def split: option.splits)

lemma heads_shown_mono:
  assumes "heads_shown s" and "rows s' = rows s" and "CHECK_COUNT s' = CHECK_COUNT s"
    and "files s' = files s" and "set (err s) \<subseteq> set (err s')"
  shows "heads_shown s'"
  using assms by (auto simp add: heads_shown_def intro: head_shown_mono)

lemma output_results_err:
  "set (err st) \<subseteq> set (err (final (output_results e st)))"
  by (auto simp add: output_results_def unbound_variable_def log_alt split: option.splits)

lemma heads_shown_output_results:
  "heads_shown s \<Longrightarrow> heads_shown (final (output_results e s))"
  by (erule heads_shown_mono) (simp_all add: output_results_fields output_results_err)

lemma heads_shown_checked:
  assumes h: "heads_shown s"
    and v: "quiet_name n \<or> (VERBOSE s = ''1'' \<and> OUTPUT s = ''text'' \<and> \<not> stderr_null s)"
  shows "heads_shown (checked e n d w s)"
  unfolding heads_shown_def
proof (intro conjI allI impI)
  from h show "CHECK_COUNT (checked e n d w s) = length (rows (checked e n d w s))"
    by (simp add: heads_shown_def)
next
  fix i
  assume i: "i < length (rows (checked e n d w s))"
    and f: "row_status (rows (checked e n d w s) ! i) = ''failed''
            \<and> \<not> quiet_name (row_name (rows (checked e n d w s) ! i))"
  from h have c: "CHECK_COUNT s = length (rows s)" by (simp add: heads_shown_def)
  show "head_shown (checked e n d w s) i"
  proof (cases "i < length (rows s)")
    case True
    with f have "row_status (rows s ! i) = ''failed'' \<and> \<not> quiet_name (row_name (rows s ! i))"
      by (simp add: nth_append)
    with h True have "head_shown s i" by (simp add: heads_shown_def)
    then show ?thesis
      by (rule head_shown_mono) (use True c in simp_all)
  next
    case False
    with i have e: "i = length (rows s)" by simp
    with f have "fst (exec e (cwd s) w) \<noteq> 0" "\<not> quiet_name n"
      by (auto simp add: new_row_def split: if_splits)
    with v e c show ?thesis
      by (simp add: head_shown_def check_errs_def)
  qed
qed

lemma heads_shown_qchecked:
  assumes "heads_shown s" and "quiet_name n"
  shows "heads_shown (qchecked e n d w s)"
proof -
  from assms(1) have "heads_shown (hushed s)"
    by (rule heads_shown_mono) (simp_all add: hushed_def)
  from heads_shown_checked [OF this disjI1 [OF assms(2)], of e d w]
  show ?thesis
    by (rule heads_shown_mono) (simp_all add: qchecked_def)
qed

lemma main_body_verbose:
  assumes v: "VERBOSE c = ''1''" "OUTPUT c = ''text''"
    and s0: "rows c = []" "CHECK_COUNT c = 0" "\<not> stderr_null c"
  shows "\<exists>k s. main_body e c = Exited k s \<and> heads_shown s"
proof -
  let ?K = "\<lambda>s. cfg_is c s \<and> heads_shown s"
  let ?I = "\<lambda>s. cfg_is c s \<and> heads_shown s \<and> \<not> stderr_null s"
  have vs: "\<And>s. cfg_is c s \<Longrightarrow> VERBOSE s = ''1'' \<and> OUTPUT s = ''text''"
    using v by (simp add: cfg_is_def)
  have outp: "hoare ?K (output_results e) ?K (\<lambda>k. ?K)"
    by (rule hoare_output_results_final) (simp add: heads_shown_output_results)
  have lg: "?I (s\<lparr>err := err s @ x\<rparr>)" if "?I s" for s x
  proof -
    from that have "heads_shown s" by simp
    then have "heads_shown (s\<lparr>err := err s @ x\<rparr>)"
      by (rule heads_shown_mono) simp_all
    with that show ?thesis by (simp add: cfg_is_def)
  qed
  have "hoare ?I (main_body e) (\<lambda>s. False) (\<lambda>k. ?K)"
  proof (rule main_body_rule [where l = "LEVEL c" and t = "TARGET c" and Q = ?K and I = ?I])
    show "\<And>s. ?I s \<Longrightarrow> LEVEL s = LEVEL c \<and> TARGET s = TARGET c"
      by (simp add: cfg_is_def)
    show "hoare ?I (run_check e n (check_desc n) (check_cmd e n)) ?I (\<lambda>k. ?K)" for n
      using vs by (intro leaf_rule [OF outp]) (simp_all add: heads_shown_checked)
    show "hoare ?I (quiet_or (run_check e n (check_desc n) (check_cmd e n))) ?I (\<lambda>k. ?K)"
      if "quiet_name n" for n
    proof (rule qleaf_rule [OF outp])
      fix s assume i: "?I s"
      with that show "?I (qchecked e n (check_desc n) (check_cmd e n) s)"
        by (simp add: heads_shown_qchecked)
      from i have "heads_shown s" by simp
      then have "heads_shown (hushed s)"
        by (rule heads_shown_mono) (simp_all add: hushed_def)
      from heads_shown_checked [OF this disjI1 [OF that]] i
      show "?K (checked e n (check_desc n) (check_cmd e n) (hushed s))"
        by simp
    qed simp
    show "hoare ?I (output_results e) ?K (\<lambda>k. ?K)"
      by (rule hoare_output_results_final) (simp add: heads_shown_output_results)
    show "\<And>m s. ?I s \<Longrightarrow> ?I (log_info m s)" unfolding log_info_alt by (rule lg)
    show "\<And>m s. ?I s \<Longrightarrow> ?I (log_info m s)" unfolding log_info_alt by (rule lg)
    show "\<And>m s. ?I s \<Longrightarrow> ?I (log_warning m s)" unfolding log_warning_alt by (rule lg)
    show "\<And>m s. ?I s \<Longrightarrow> ?I (log_verbose m s)" unfolding log_verbose_alt by (rule lg)
    show "?I (s\<lparr>cwd := x\<rparr>)" if "?I s" for s x
    proof -
      from that have "heads_shown s" by simp
      then have "heads_shown (s\<lparr>cwd := x\<rparr>)"
        by (rule heads_shown_mono) simp_all
      with that show ?thesis by (simp add: cfg_is_def)
    qed
    show "?I (npm_install e s)" if "?I s" for s
    proof -
      from that have "heads_shown s" by simp
      then have "heads_shown (npm_install e s)"
        by (rule heads_shown_mono) (simp_all add: npm_install_def)
      with that show ?thesis by (simp add: cfg_is_def npm_install_def)
    qed
    show "?I (setup_colors e s)" if "?I s" for s
    proof -
      from that have "heads_shown s" by simp
      then have "heads_shown (setup_colors e s)"
        by (rule heads_shown_mono) (simp_all add: setup_colors_def)
      with that show ?thesis by (simp add: cfg_is_def setup_colors_def)
    qed
    show "?K (echo_err (''Missing dependencies:'' @ missing_deps e s) s)" if "?I s" for s
    proof -
      from that have "heads_shown s" by simp
      then have "heads_shown (echo_err (''Missing dependencies:'' @ missing_deps e s) s)"
        by (rule heads_shown_mono) (simp_all add: echo_err_alt)
      with that show ?thesis by (simp add: cfg_is_def echo_err_alt)
    qed
    show "?I (s\<lparr>ticks := Suc (ticks s)\<rparr>)" if "?I s" for s
    proof -
      from that have "heads_shown s" by simp
      then have "heads_shown (s\<lparr>ticks := Suc (ticks s)\<rparr>)"
        by (rule heads_shown_mono) simp_all
      with that show ?thesis by (simp add: cfg_is_def)
    qed
  qed simp_all
  from hoare_exit [OF this, of c] s0
  obtain k s where "main_body e c = Exited k s" "?K s"
    by (auto simp add: cfg_is_refl heads_shown_def)
  then show ?thesis by blast
qed

subsection \<open>Rules with an assertion for each phase\<close>

lemma hoare_skip_weak: "(\<And>s. P s \<Longrightarrow> Q s) \<Longrightarrow> hoare P skip Q E"
  by (simp add: hoare_def skip_def)


lemma main_body_phases:
  assumes col: "\<And>s. I0 s \<Longrightarrow> I0 (setup_colors e s)"
    and info0: "\<And>m s. I0 s \<Longrightarrow> I0 (log_info m s)"
    and deps: "\<And>s. I0 s \<Longrightarrow> missing_deps e s \<noteq> [] \<Longrightarrow>
                 E 3 (echo_err (''Missing dependencies:'' @ missing_deps e s) s)"
    and tick: "\<And>s. I0 s \<Longrightarrow> missing_deps e s = [] \<Longrightarrow> I (s\<lparr>ticks := Suc (ticks s)\<rparr>)"
    and checks: "hoare I (target_checks e) J E"
    and outp: "hoare J (output_results e) Q E"
    and fin: "\<And>s. Q s \<Longrightarrow> (if TOTAL_ERRORS s > 0 then E 1 s else E 0 s)"
  shows "hoare I0 (main_body e) (\<lambda>s. False) E"
  unfolding main_body_def
  apply (rule hoare_seq_Cons [where R = I0], rule hoare_cmd, erule col)
  apply (rule hoare_seq_Cons [where R = I0], rule hoare_cmd, erule info0)
  apply (rule hoare_seq_Cons [where R = I0], rule hoare_cmd, erule info0)
  apply (rule hoare_seq_Cons [where R = "\<lambda>s. I0 s \<and> missing_deps e s = []"])
   apply (rule hoareI)
   apply (case_tac "missing_deps e s = []")
    apply (simp add: check_dependencies_def)
   apply (frule (1) deps)
   apply (simp add: check_dependencies_def)
  apply (rule hoare_seq_Cons [where R = I], rule hoare_cmd)
   apply (simp add: get_timestamp_ms_def tick)
  apply (rule hoare_seq_Cons [where R = J])
   apply (rule hoare_eq [OF checks], simp add: target_checks_def)
  apply (rule hoare_seq_Cons [where R = Q], rule outp)
  apply (rule hoare_seq_Cons [where R = "\<lambda>s. False"])
   apply (rule hoareI, drule fin, simp add: ifte_def split: if_splits)
  apply (simp add: hoare_def)
  done

subsection \<open>Installing the dependencies\<close>


subsection \<open>Every selected check is recorded\<close>

lemma recorded_cong:
  "rows s' = rows s \<Longrightarrow> cfg_is c s' = cfg_is c s \<Longrightarrow> recorded e c D s' = recorded e c D s"
  by (simp add: recorded_def)

lemma recorded_keep [simp]:
  "recorded e c D (log_info m s) = recorded e c D s"
  "recorded e c D (log_warning m s) = recorded e c D s"
  "recorded e c D (log_verbose m s) = recorded e c D s"
  "recorded e c D (s\<lparr>cwd := x\<rparr>) = recorded e c D s"
  "recorded e c D (s\<lparr>ticks := t\<rparr>) = recorded e c D s"
  "recorded e c D (npm_install e' s) = recorded e c D s"
  "recorded e c D (setup_colors e' s) = recorded e c D s"
  "recorded e c D (final (output_results e' s)) = recorded e c D s"
  by (simp_all add: recorded_def cfg_is_def log_alt npm_install_def setup_colors_def
        output_results_fields)

lemma recorded_skip:
  "recorded e c D s \<Longrightarrow> \<not> allowed e (LEVEL c) (TARGET c) n \<Longrightarrow> recorded e c (insert n D) s"
  by (simp add: recorded_def)

lemma recorded_grow:
  assumes "recorded e c D s"
    and "\<And>n. n \<in> D' \<Longrightarrow> n \<notin> D \<Longrightarrow> \<not> allowed e (LEVEL c) (TARGET c) n"
  shows "recorded e c D' s"
  using assms by (auto simp add: recorded_def)

lemma recorded_checked:
  "recorded e c D s \<Longrightarrow> recorded e c (insert n D) (checked e n d w s)"
  "recorded e c D s \<Longrightarrow> recorded e c (insert n D) (qchecked e n d w s)"
  by (auto simp add: recorded_def new_row_def)

lemma cut_short_checked:
  assumes "cfg_is c s" and "FAIL_FAST s = ''1''" and "fst (exec e (cwd s) w) \<noteq> 0"
  shows "ends_complete e c k (final (output_results e (checked e n d w s)))"
    and "ends_complete e c k (final (output_results e (checked e n d w (hushed s))))"
  using assms
  by (simp_all add: ends_complete_def cut_short_def cfg_is_def output_results_fields new_row_def)

lemma site_leaf:
  "hoare (recorded e c D) (run_check e n d w) (recorded e c (insert n D)) (ends_complete e c)"
proof (rule hoare_run_check)
  fix s assume "recorded e c D s"
  then show "recorded e c (insert n D) (checked e n d w s)" by (rule recorded_checked)
next
  fix s assume "recorded e c D s" and "fst (exec e (cwd s) w) \<noteq> 0" and "FAIL_FAST s = ''1''"
  then show "ends_complete e c 1 (final (output_results e (checked e n d w s)))"
    by (intro cut_short_checked) (simp_all add: recorded_def)
qed

lemma site_qleaf:
  "hoare (recorded e c D) (quiet_or (run_check e n d w)) (recorded e c (insert n D))
     (ends_complete e c)"
proof (rule hoare_quiet_run_check)
  fix s assume "recorded e c D s"
  then show "recorded e c (insert n D) (qchecked e n d w s)" by (rule recorded_checked)
next
  fix s assume "recorded e c D s" and "fst (exec e (cwd s) w) \<noteq> 0" and "FAIL_FAST s = ''1''"
  then show "ends_complete e c 1 (final (output_results e (checked e n d w (hushed s))))"
    by (intro cut_short_checked) (simp_all add: recorded_def)
qed

text \<open>A call site: the check runs, or its guard fails and the configuration does not select it.\<close>

lemma site:
  assumes "\<not> g \<Longrightarrow> \<not> allowed e (LEVEL c) (TARGET c) n"
    and "hoare (recorded e c D) run (recorded e c (insert n D)) (ends_complete e c)"
    and "hoare (recorded e c D) other (recorded e c D) (ends_complete e c)"
  shows "hoare (recorded e c D) (ifte (\<lambda>st. g) run other) (recorded e c (insert n D))
           (ends_complete e c)"
proof (rule hoare_ifte_known [where B = g])
  show "\<not> g \<Longrightarrow> hoare (recorded e c D) other (recorded e c (insert n D)) (ends_complete e c)"
    by (rule hoare_post [OF assms(3)]) (simp_all add: recorded_skip assms(1))
qed (simp_all add: assms(2))

lemma warn_keeps:
  "hoare (recorded e c D) (cmd (log_warning m)) (recorded e c D) E"
  by (rule hoare_cmd) simp

lemma backend_complete:
  "hoare (recorded e c D) (run_backend_checks e)
     (recorded e c (insert ''backend_pytest'' (insert ''backend_mypy'' (insert ''backend_flake8''
        (insert ''backend_isort'' (insert ''backend_black'' D))))))
     (ends_complete e c)"
  unfolding run_backend_checks_def
  apply (rule hoare_ifte_known [where B = "\<not> backend_dir e"], simp)
   apply (rule hoare_cmd, simp)
   apply (erule recorded_grow, auto simp add: allowed_def)[1]
  apply (rule hoare_seq_Cons [where R = "recorded e c D"], rule hoare_cmd, simp)
  apply (rule hoare_seq_Cons [where R = "recorded e c D"], rule hoare_cmd, simp)
  apply (rule hoare_seq_Cons [where R = "recorded e c D"], rule hoare_cmd, simp)
  apply (rule hoare_seq_Cons [where R = "recorded e c (insert ''backend_black'' D)"])
   apply (rule site [OF _ site_leaf warn_keeps], simp add: allowed_def)
  apply (rule hoare_seq_Cons [where R = "recorded e c (insert ''backend_isort''
           (insert ''backend_black'' D))"])
   apply (rule site [OF _ site_leaf warn_keeps], simp add: allowed_def)
  apply (rule hoare_seq_Cons [where R = "recorded e c (insert ''backend_mypy''
           (insert ''backend_flake8'' (insert ''backend_isort'' (insert ''backend_black'' D))))"])
   apply (rule hoare_ifte_known [where B = "LEVEL c = ''standard'' \<or> LEVEL c = ''full''"])
     apply (simp add: recorded_def cfg_is_def)
    apply (rule hoare_seq_Cons [where R = "recorded e c (insert ''backend_flake8''
             (insert ''backend_isort'' (insert ''backend_black'' D)))"])
     apply (rule site [OF _ site_leaf warn_keeps], simp add: allowed_def)
    apply (rule hoare_seq_Cons [OF _ hoare_seq_Nil])
    apply (rule site [OF _ site_leaf warn_keeps], simp add: allowed_def)
   apply (rule hoare_skip_weak)
   apply (erule recorded_grow, auto simp add: allowed_def)[1]
  apply (rule hoare_seq_Cons [where R = "recorded e c (insert ''backend_pytest''
           (insert ''backend_mypy'' (insert ''backend_flake8'' (insert ''backend_isort''
             (insert ''backend_black'' D)))))"])
   apply (rule hoare_ifte_known [where B = "LEVEL c = ''full''"])
     apply (simp add: recorded_def cfg_is_def)
    apply (rule site [OF _ site_leaf], simp add: allowed_def)
    apply (rule hoare_ifte_known [where B = "tests_dir e"], simp)
     apply (rule warn_keeps)
    apply (rule hoare_skip)
   apply (rule hoare_skip_weak)
   apply (erule recorded_grow, auto simp add: allowed_def)[1]
  apply (rule hoare_seq_Cons [OF _ hoare_seq_Nil])
  apply (rule hoare_cmd, simp)
  done

lemma frontend_complete:
  "hoare (recorded e c D) (run_frontend_checks e)
     (recorded e c (insert ''frontend_build'' (insert ''frontend_jest''
        (insert ''frontend_typecheck'' (insert ''frontend_eslint'' D)))))
     (ends_complete e c)"
  unfolding run_frontend_checks_def
  apply (rule hoare_ifte_known [where B = "\<not> frontend_dir e"], simp)
   apply (rule hoare_cmd, simp)
   apply (erule recorded_grow, auto simp add: allowed_def)[1]
  apply (rule hoare_seq_Cons [where R = "recorded e c D"], rule hoare_cmd, simp)
  apply (rule hoare_seq_Cons [where R = "recorded e c D"], rule hoare_cmd, simp)
  apply (rule hoare_seq_Cons [where R = "recorded e c D"])
   apply (rule hoare_ifte_known [where B = "\<not> node_modules e"], simp)
    apply (rule hoare_seq_Cons [where R = "recorded e c D"], rule hoare_cmd, simp)
    apply (rule hoare_seq_Cons [OF _ hoare_seq_Nil], rule hoare_cmd, simp)
   apply (rule hoare_skip)
  apply (rule hoare_seq_Cons [where R = "recorded e c (insert ''frontend_eslint'' D)"])
   apply (rule hoare_ifte_known [where B = "package_json e \<noteq> None"], simp)
    apply (rule site [OF _ site_qleaf hoare_skip], simp add: allowed_def)
   apply (rule hoare_skip_weak)
   apply (erule recorded_grow, auto simp add: allowed_def grep_q_def)[1]
  apply (rule hoare_seq_Cons [where R = "recorded e c (insert ''frontend_typecheck''
           (insert ''frontend_eslint'' D))"])
   apply (rule hoare_ifte_known [where B = "LEVEL c = ''standard'' \<or> LEVEL c = ''full''"])
     apply (simp add: recorded_def cfg_is_def)
    apply (rule site [OF _ site_qleaf hoare_skip], simp add: allowed_def)
   apply (rule hoare_skip_weak)
   apply (erule recorded_grow, auto simp add: allowed_def)[1]
  apply (rule hoare_seq_Cons [where R = "recorded e c (insert ''frontend_build''
           (insert ''frontend_jest'' (insert ''frontend_typecheck''
             (insert ''frontend_eslint'' D))))"])
   apply (rule hoare_ifte_known [where B = "LEVEL c = ''full''"])
     apply (simp add: recorded_def cfg_is_def)
    apply (rule hoare_seq_Cons [where R = "recorded e c (insert ''frontend_jest''
             (insert ''frontend_typecheck'' (insert ''frontend_eslint'' D)))"])
     apply (rule site [OF _ site_qleaf hoare_skip], simp add: allowed_def)
    apply (rule hoare_seq_Cons [OF _ hoare_seq_Nil])
    apply (rule site [OF _ site_leaf hoare_skip], simp add: allowed_def)
   apply (rule hoare_skip_weak)
   apply (erule recorded_grow, auto simp add: allowed_def)[1]
  apply (rule hoare_seq_Cons [OF _ hoare_seq_Nil])
  apply (rule hoare_cmd, simp)
  done

lemma target_checks_complete:
  "hoare (recorded e c {}) (target_checks e) (recorded e c UNIV) (ends_complete e c)"
  unfolding target_checks_def
  apply (rule hoare_ifte_known [where B = "TARGET c = ''all''"])
    apply (simp add: recorded_def cfg_is_def)
   apply (rule hoare_seq_Cons [OF backend_complete])
   apply (rule hoare_seq_Cons [OF _ hoare_seq_Nil])
   apply (rule hoare_post [OF frontend_complete])
    apply (erule recorded_grow, auto simp add: allowed_def)[1]
   apply assumption
  apply (rule hoare_ifte_known [where B = "TARGET c = ''backend''"])
    apply (simp add: recorded_def cfg_is_def)
   apply (rule hoare_post [OF backend_complete])
    apply (erule recorded_grow, auto simp add: allowed_def)[1]
   apply assumption
  apply (rule hoare_ifte_known [where B = "TARGET c = ''frontend''"])
    apply (simp add: recorded_def cfg_is_def)
   apply (rule hoare_post [OF frontend_complete])
    apply (erule recorded_grow, auto simp add: allowed_def)[1]
   apply assumption
  apply (rule hoare_skip_weak)
  apply (erule recorded_grow, auto simp add: allowed_def)[1]
  done

lemma main_body_complete:
  "\<exists>k s. main_body e c = Exited k s
     \<and> (missing_deps e c \<noteq> [] \<or> cut_short c s
         \<or> (\<forall>n. allowed e (LEVEL c) (TARGET c) n \<longrightarrow> n \<in> row_name ` set (rows s)))"
proof -
  have "hoare (cfg_is c) (main_body e) (\<lambda>s. False) (ends_complete e c)"
  proof (rule main_body_phases [where I = "recorded e c {}" and J = "recorded e c UNIV"
        and Q = "recorded e c UNIV"])
    show "hoare (recorded e c {}) (target_checks e) (recorded e c UNIV) (ends_complete e c)"
      by (rule target_checks_complete)
    show "hoare (recorded e c UNIV) (output_results e) (recorded e c UNIV) (ends_complete e c)"
    proof (rule hoare_post [OF hoare_output_results_final [where P = "recorded e c UNIV"]])
      show "recorded e c UNIV s \<Longrightarrow> ends_complete e c k s" for k s
        by (simp add: ends_complete_def recorded_def)
    qed simp_all
    show "ends_complete e c 3 (echo_err (''Missing dependencies:'' @ missing_deps e s) s)"
      if "cfg_is c s" and "missing_deps e s \<noteq> []" for s
    proof -
      from that have "missing_deps e s = missing_deps e c"
        by (intro missing_deps_cong) (simp add: cfg_is_def)
      with that show ?thesis by (simp add: ends_complete_def)
    qed
  qed (simp_all add: ends_complete_def recorded_def)
  from hoare_exit [OF this, of c]
  obtain k s where "main_body e c = Exited k s" "ends_complete e c k s"
    by (auto simp add: cfg_is_refl)
  then show ?thesis
    by (auto simp add: ends_complete_def recorded_def)
qed

subsection \<open>The checks of a run and the checks that its configuration selects\<close>

lemma executed_sound:
  assumes "parse_args args (initial e) = Running c" and "n \<in> executed e args"
  shows "allowed e (LEVEL c) (TARGET c) n"
proof -
  from parse_args_Running [OF assms(1)] have "conf_frame (initial e) c" by simp
  then have "rows c = []" by (simp add: conf_frame_def initial_def)
  from main_body_allowed [OF this, of e] assms(1)
  have "list_all (\<lambda>r. allowed e (LEVEL c) (TARGET c) (row_name r)) (rows (final (main e args)))"
    by (auto simp add: main_def)
  with assms(2) show ?thesis
    by (auto simp add: executed_def list_all_iff)
qed

lemma executed_missing:
  assumes "parse_args args (initial e) = Running c" and "missing_deps e c \<noteq> []"
  shows "executed e args = {}"
proof -
  from assms(1) obtain k s where "main e args = Exited k s" and "exit_rule e c k s"
    by (rule main_Running)
  with assms(2) show ?thesis
    by (simp add: executed_def exit_rule_def)
qed

lemma executed_complete:
  assumes "parse_args args (initial e) = Running c" and "missing_deps e c = []"
    and "FAIL_FAST c \<noteq> ''1''
         \<or> list_all (\<lambda>r. row_status r = ''passed'') (rows (final (main e args)))"
    and "allowed e (LEVEL c) (TARGET c) n"
  shows "n \<in> executed e args"
proof -
  from main_body_complete [of e c] assms(1) obtain k s where m: "main e args = Exited k s"
    and c: "missing_deps e c \<noteq> [] \<or> cut_short c s
            \<or> (\<forall>n. allowed e (LEVEL c) (TARGET c) n \<longrightarrow> n \<in> row_name ` set (rows s))"
    by (auto simp add: main_def)
  from assms(3) m have "\<not> cut_short c s"
    by (auto simp add: cut_short_def list_all_iff list_ex_iff)
  with c assms(2,4) m show ?thesis
    by (simp add: executed_def)
qed

lemma allowed_names:
  "allowed e l t n \<Longrightarrow>
     n \<in> {''backend_black'', ''backend_isort'', ''backend_flake8'', ''backend_mypy'',
          ''backend_pytest'', ''frontend_eslint'', ''frontend_typecheck'', ''frontend_jest'',
          ''frontend_build''}"
  by (simp add: allowed_def split: if_splits)

lemma allowed_mono:
  "allowed e ''quick'' t n \<Longrightarrow> allowed e ''standard'' t n"
  "allowed e ''standard'' t n \<Longrightarrow> allowed e ''full'' t n"
proof -
  assume a: "allowed e ''quick'' t n"
  from allowed_names [OF a] a show "allowed e ''standard'' t n"
    by (elim insertE emptyE; simp add: allowed_def)
next
  assume a: "allowed e ''standard'' t n"
  from allowed_names [OF a] a show "allowed e ''full'' t n"
    by (elim insertE emptyE; simp add: allowed_def)
qed

lemma executed_subset:
  assumes lo: "parse_args largs (initial e) = Running (cfg\<lparr>LEVEL := l\<rparr>)"
    and hi: "parse_args hargs (initial e) = Running (cfg\<lparr>LEVEL := h\<rparr>)"
    and mono: "\<And>n. allowed e l (TARGET cfg) n \<Longrightarrow> allowed e h (TARGET cfg) n"
    and whole: "FAIL_FAST cfg \<noteq> ''1''
         \<or> list_all (\<lambda>r. row_status r = ''passed'') (rows (final (main e hargs)))"
  shows "executed e largs \<subseteq> executed e hargs"
proof (cases "missing_deps e cfg = []")
  case True
  show ?thesis
  proof
    fix n assume "n \<in> executed e largs"
    from executed_sound [OF lo this] have "allowed e l (TARGET cfg) n" by simp
    then have a: "allowed e h (TARGET cfg) n" by (rule mono)
    from True have "missing_deps e (cfg\<lparr>LEVEL := h\<rparr>) = []" by (simp add: missing_deps_def)
    from executed_complete [OF hi this, of n] whole a show "n \<in> executed e hargs" by simp
  qed
next
  case False
  then have "missing_deps e (cfg\<lparr>LEVEL := l\<rparr>) \<noteq> []" by (simp add: missing_deps_def)
  from executed_missing [OF lo this] show ?thesis by simp
qed

section \<open>Claim C5: the JSON summary\<close>

lemma json_loop_counts:
  "json_loop e st rs (p, f, cs) = (p', f', cs') \<Longrightarrow>
     p' + f' = p + f + length rs \<and> length cs' = length cs + length rs"
  by (induction rs arbitrary: p f cs) (auto split: if_splits)

lemma output_json_counts:
  assumes "CHECK_COUNT s = length (rows s)"
  shows "j_total (output_json e s) = j_passed (output_json e s) + j_failed (output_json e s)
         \<and> j_passed (output_json e s) + j_failed (output_json e s)
             = length (j_checks (output_json e s))"
proof -
  obtain p f cs where l: "json_loop e s (rows s) (0, 0, []) = (p, f, cs)"
    by (cases "json_loop e s (rows s) (0, 0, [])") auto
  from json_loop_counts [OF l] assms l show ?thesis
    by (simp add: output_json_def)
qed

text \<open>
  Claim C5. Whatever the arguments and the environment, a JSON report that the
  run prints or writes to the output file has
  \<open>summary.total = summary.passed + summary.failed = length checks\<close>.
\<close>

theorem C5_json_summary:
  assumes "Doc (Json j) \<in> set (out (final (main e args)))
           \<or> (p, Json j) \<in> set (written (final (main e args)))"
  shows "j_total j = j_passed j + j_failed j
         \<and> j_passed j + j_failed j = length (j_checks j)"
proof (cases rule: main_cases [of args e])
  case (parse_exit k s)
  with assms show ?thesis
    by (auto simp add: no_run_def initial_def)
next
  case (body cfg k s)
  from body(2) assms have m: "Doc (Json j) \<in> set (out s) \<or> (p, Json j) \<in> set (written s)"
    by simp
  with body(8) have d: "delivered e s" by (auto split: if_splits)
  from delivered_member [OF d m] have "render e s = Some (Json j)" .
  then have "j = output_json e s" by (simp add: render_def split: if_splits)
  with output_json_counts [of s e] body(7) show ?thesis
    by (simp add: store_ok_def)
qed

theorem C5_json_summary_witness:
  "Doc (Json ci_json) \<in> set (out (final (main ci_env [''-o'', ''json'', ''-t'', ''backend''])))
   \<and> j_total ci_json = j_passed ci_json + j_failed ci_json
   \<and> j_passed ci_json + j_failed ci_json = length (j_checks ci_json)"
proof -
  have h: "Doc (Json ci_json) \<in> set (out (final (main ci_env [''-o'', ''json'', ''-t'', ''backend''])))"
    by code_simp
  from C5_json_summary [OF disjI1 [OF h]] h show ?thesis by simp
qed

section \<open>Claim C1: the exit status\<close>

text \<open>
  Claim C1, as amended. When the arguments parse, the runtimes that the target
  needs are on the path, and the report goes to standard output or to a file
  that can be written, the process exits with 0 exactly when every recorded
  check is passed (or none is recorded), and with 1 exactly when a recorded
  check is failed.
\<close>

theorem C1_exit_status:
  assumes "parse_args args (initial e) = Running cfg"
    and "missing_deps e cfg = []"
    and "OUTPUT_FILE cfg = [] \<or> write_error e (OUTPUT_FILE cfg) = None"
  shows "(exit_code (main e args) = Some 0
            \<longleftrightarrow> list_all (\<lambda>r. row_status r = ''passed'') (rows (final (main e args))))
         \<and> (exit_code (main e args) = Some 1
            \<longleftrightarrow> list_ex (\<lambda>r. row_status r = ''failed'') (rows (final (main e args))))"
proof -
  from assms(1) obtain k s where m: "main e args = Exited k s" and so: "store_ok e s"
    and x: "exit_rule e cfg k s"
    by (rule main_Running)
  from assms(3) have "\<not> write_fails e cfg" by (auto simp add: write_fails_def)
  with x assms(2) have "(k = 1 \<and> TOTAL_ERRORS s > 0) \<or> (k = 0 \<and> TOTAL_ERRORS s = 0)"
    by (auto simp add: exit_rule_def)
  with m store_ok_all_passed [OF so] store_ok_some_failed [OF so] show ?thesis
    by auto
qed

theorem C1_exit_status_witness:
  "parse_args [''-t'', ''backend''] (initial ci_env)
     = Running ((initial ci_env)\<lparr>TARGET := ''backend''\<rparr>)
   \<and> missing_deps ci_env ((initial ci_env)\<lparr>TARGET := ''backend''\<rparr>) = []
   \<and> OUTPUT_FILE ((initial ci_env)\<lparr>TARGET := ''backend''\<rparr>) = []
   \<and> exit_code (main ci_env [''-t'', ''backend'']) = Some 1
   \<and> list_ex (\<lambda>r. row_status r = ''failed'') (rows (final (main ci_env [''-t'', ''backend''])))
   \<and> \<not> list_all (\<lambda>r. row_status r = ''passed'') (rows (final (main ci_env [''-t'', ''backend''])))"
proof -
  have p: "parse_args [''-t'', ''backend''] (initial ci_env)
             = Running ((initial ci_env)\<lparr>TARGET := ''backend''\<rparr>)"
    by (simp add: parse_args_def validate_options_def initial_def ci_env_def dflt_def)
  have d: "missing_deps ci_env ((initial ci_env)\<lparr>TARGET := ''backend''\<rparr>) = []"
    by (simp add: missing_deps_def ci_env_def)
  have f: "OUTPUT_FILE ((initial ci_env)\<lparr>TARGET := ''backend''\<rparr>) = []"
    by (simp add: initial_def)
  have x: "exit_code (main ci_env [''-t'', ''backend'']) = Some 1"
    by code_simp
  from C1_exit_status [OF p d disjI1 [OF f]] p d f x show ?thesis by simp
qed

text \<open>
  Claim C1 as stated fails: with the default arguments on a machine without
  Node and npm the configuration is valid and no check is executed, yet the
  exit status is 3, not 0.
\<close>

theorem C1_missing_runtime_counterexample:
  "exit_code (parse_args [] (initial no_node_env)) = None
   \<and> exit_code (main no_node_env []) = Some 3
   \<and> rows (final (main no_node_env [])) = []
   \<and> ran (final (main no_node_env [])) = []"
  by code_simp

section \<open>Claim C2: fail-fast\<close>

text \<open>
  Claim C2. When the arguments parse with fail-fast enabled and the first
  check that the run starts, the command \<open>w\<close> in directory \<open>d\<close>, exits
  with a status other than 0, then the store holds exactly one row, which is
  failed and names the check of that command; no other check was started; the
  renderer has been called once, on this store, and its report is the last
  thing printed, or has been written to the output file (a write that fails
  leaves no file); and the exit status is 1. The level does not enter.
\<close>

theorem C2_fail_fast:
  assumes "parse_args args (initial e) = Running cfg"
    and "FAIL_FAST cfg = ''1''"
    and "checks_run (final (main e args)) \<noteq> []"
    and "hd (checks_run (final (main e args))) = (d, w)"
    and "fst (exec e d w) \<noteq> 0"
  shows "length (rows (final (main e args))) = 1
         \<and> row_status (hd (rows (final (main e args)))) = ''failed''
         \<and> check_cmd e (row_name (hd (rows (final (main e args))))) = w
         \<and> checks_run (final (main e args)) = [(d, w)]
         \<and> delivered e (final (main e args))
         \<and> exit_code (main e args) = Some 1"
proof -
  from assms(1) obtain k s where m: "main e args = Exited k s" and so: "store_ok e s"
    and dl: "if k = 3 then out s = [] \<and> written s = [] else delivered e s"
    by (rule main_Running)
  from parse_args_Running [OF assms(1)] have "conf_frame (initial e) cfg" by simp
  then have "rows cfg = []" "ran cfg = []"
    by (simp_all add: conf_frame_def initial_def)
  from main_body_fail_fast [OF assms(2) this, of e] assms(1) m
  have c: "all_passed (rows s) \<or> (k = 1 \<and> first_failure (rows s))"
    by (simp add: main_def)
  from m assms(3,4) have cr: "checks_run s \<noteq> []" "hd (checks_run s) = (d, w)" by simp_all
  from so have len: "length (checks_run s) = length (rows s)" by (simp add: store_ok_def)
  with cr have ne: "rows s \<noteq> []" by auto
  with so have "row_ok e s 0 (rows s ! 0)" by (simp add: store_ok_def)
  with cr ne assms(5) have h: "row_status (hd (rows s)) = ''failed''"
    and n: "check_cmd e (row_name (hd (rows s))) = w"
    by (simp_all add: row_ok_def hd_conv_nth)
  from first_failure_hd [OF ne h] c have l: "length (rows s) = 1" by blast
  from ne h have "\<not> all_passed (rows s)"
    by (cases "rows s") (simp_all add: all_passed_def)
  with c have k: "k = 1" by simp
  from l len cr have "checks_run s = [(d, w)]"
    by (cases "checks_run s") simp_all
  with m h n l k dl show ?thesis by simp
qed

theorem C2_fail_fast_witness:
  "parse_args [''--fail-fast'', ''-l'', ''full'', ''-t'', ''frontend''] (initial red_env)
     = Running ((initial red_env)\<lparr>FAIL_FAST := ''1'', LEVEL := ''full'', TARGET := ''frontend''\<rparr>)
   \<and> checks_run (final (main red_env [''--fail-fast'', ''-l'', ''full'', ''-t'', ''frontend'']))
       \<noteq> []
   \<and> hd (checks_run (final (main red_env [''--fail-fast'', ''-l'', ''full'', ''-t'', ''frontend''])))
       = (''/repo/frontend'', [''npm'', ''run'', ''lint'', ''--silent''])
   \<and> fst (exec red_env ''/repo/frontend'' [''npm'', ''run'', ''lint'', ''--silent'']) \<noteq> 0
   \<and> length (rows (final (main red_env [''--fail-fast'', ''-l'', ''full'', ''-t'', ''frontend''])))
       = 1
   \<and> row_status (hd (rows (final
         (main red_env [''--fail-fast'', ''-l'', ''full'', ''-t'', ''frontend''])))) = ''failed''
   \<and> checks_run (final (main red_env [''--fail-fast'', ''-l'', ''full'', ''-t'', ''frontend'']))
       = [(''/repo/frontend'', [''npm'', ''run'', ''lint'', ''--silent''])]
   \<and> delivered red_env
        (final (main red_env [''--fail-fast'', ''-l'', ''full'', ''-t'', ''frontend'']))
   \<and> exit_code (main red_env [''--fail-fast'', ''-l'', ''full'', ''-t'', ''frontend'']) = Some 1"
proof -
  let ?args = "[''--fail-fast'', ''-l'', ''full'', ''-t'', ''frontend'']"
  let ?cfg = "(initial red_env)\<lparr>FAIL_FAST := ''1'', LEVEL := ''full'', TARGET := ''frontend''\<rparr>"
  let ?w = "[''npm'', ''run'', ''lint'', ''--silent'']"
  have p: "parse_args ?args (initial red_env) = Running ?cfg"
    by (simp add: parse_args_def validate_options_def initial_def red_env_def ci_env_def
          dflt_def)
  have f: "FAIL_FAST ?cfg = ''1''" by simp
  have n: "checks_run (final (main red_env ?args)) \<noteq> []"
    by code_simp
  have h: "hd (checks_run (final (main red_env ?args))) = (''/repo/frontend'', ?w)"
    by code_simp
  have x: "fst (exec red_env ''/repo/frontend'' ?w) \<noteq> 0"
    by (simp add: red_env_def)
  from C2_fail_fast [OF p f n h x] p n h x show ?thesis by simp
qed

section \<open>Claim C3: the levels are nested\<close>

text \<open>
  Claim C3, as amended. Take one environment and three argument lists that
  parse to configurations differing in the level only: quick, standard and
  full. If fail-fast is off, or no check fails in the run at standard, every
  check executed at quick is executed at standard; if fail-fast is off, or no
  check fails in the run at full, every check executed at standard is
  executed at full.
\<close>

theorem C3_level_superset:
  assumes "parse_args qargs (initial e) = Running (cfg\<lparr>LEVEL := ''quick''\<rparr>)"
    and "parse_args sargs (initial e) = Running (cfg\<lparr>LEVEL := ''standard''\<rparr>)"
    and "parse_args fargs (initial e) = Running (cfg\<lparr>LEVEL := ''full''\<rparr>)"
  shows "(FAIL_FAST cfg \<noteq> ''1''
          \<or> list_all (\<lambda>r. row_status r = ''passed'') (rows (final (main e sargs)))
          \<longrightarrow> executed e qargs \<subseteq> executed e sargs)
         \<and> (FAIL_FAST cfg \<noteq> ''1''
             \<or> list_all (\<lambda>r. row_status r = ''passed'') (rows (final (main e fargs)))
             \<longrightarrow> executed e sargs \<subseteq> executed e fargs)"
  using executed_subset [OF assms(1,2) allowed_mono(1)]
    executed_subset [OF assms(2,3) allowed_mono(2)]
  by blast

theorem C3_level_superset_witness:
  "parse_args [''-l'', ''quick''] (initial ci_env) = Running ((initial ci_env)\<lparr>LEVEL := ''quick''\<rparr>)
   \<and> parse_args [''-l'', ''standard''] (initial ci_env)
       = Running ((initial ci_env)\<lparr>LEVEL := ''standard''\<rparr>)
   \<and> parse_args [''-l'', ''full''] (initial ci_env) = Running ((initial ci_env)\<lparr>LEVEL := ''full''\<rparr>)
   \<and> FAIL_FAST (initial ci_env) \<noteq> ''1''
   \<and> executed ci_env [''-l'', ''quick''] \<subseteq> executed ci_env [''-l'', ''standard'']
   \<and> executed ci_env [''-l'', ''standard''] \<subseteq> executed ci_env [''-l'', ''full'']
   \<and> executed ci_env [''-l'', ''quick''] = {''backend_black'', ''backend_isort'', ''frontend_eslint''}
   \<and> executed ci_env [''-l'', ''full'']
       = {''backend_black'', ''backend_isort'', ''backend_flake8'', ''frontend_eslint'',
          ''frontend_jest''}"
proof -
  have p: "parse_args [''-l'', ''quick''] (initial ci_env)
             = Running ((initial ci_env)\<lparr>LEVEL := ''quick''\<rparr>)"
    "parse_args [''-l'', ''standard''] (initial ci_env)
       = Running ((initial ci_env)\<lparr>LEVEL := ''standard''\<rparr>)"
    "parse_args [''-l'', ''full''] (initial ci_env) = Running ((initial ci_env)\<lparr>LEVEL := ''full''\<rparr>)"
    by (simp_all add: parse_args_def validate_options_def initial_def ci_env_def dflt_def)
  have f: "FAIL_FAST (initial ci_env) \<noteq> ''1''"
    by (simp add: initial_def ci_env_def dflt_def)
  have q: "executed ci_env [''-l'', ''quick'']
             = {''backend_black'', ''backend_isort'', ''frontend_eslint''}"
    by code_simp
  have u: "executed ci_env [''-l'', ''full'']
             = {''backend_black'', ''backend_isort'', ''backend_flake8'', ''frontend_eslint'',
                ''frontend_jest''}"
    by code_simp
  from C3_level_superset [OF p] p f q u show ?thesis by simp
qed

text \<open>
  Claim C3 as stated fails. With fail-fast on, the example project is checked
  at quick by Black, isort and ESLint. At standard Flake8 is added, fails, and
  ends the run before the frontend: ESLint, executed at quick, is not executed
  at standard.
\<close>

theorem C3_fail_fast_counterexample:
  "exit_code (parse_args [''--fail-fast'', ''-l'', ''quick''] (initial ci_env)) = None
   \<and> exit_code (parse_args [''--fail-fast'', ''-l'', ''standard''] (initial ci_env)) = None
   \<and> map row_name (rows (final (main ci_env [''--fail-fast'', ''-l'', ''quick''])))
       = [''backend_black'', ''backend_isort'', ''frontend_eslint'']
   \<and> map row_name (rows (final (main ci_env [''--fail-fast'', ''-l'', ''standard''])))
       = [''backend_black'', ''backend_isort'', ''backend_flake8'']
   \<and> ''frontend_eslint'' \<in> executed ci_env [''--fail-fast'', ''-l'', ''quick'']
   \<and> ''frontend_eslint'' \<notin> executed ci_env [''--fail-fast'', ''-l'', ''standard'']"
  by code_simp

section \<open>Claim C4: skipped checks\<close>

text \<open>
  Claim C4, as amended. In the store at the end of a run whose arguments
  parse, a row named after a check is there only if the check was not skipped:
  its target is selected and its directory exists, its tool resolves (backend)
  or the script name in double quotes occurs in the text of
  \<^verbatim>\<open>package.json\<close> (frontend: the probe \<^verbatim>\<open>grep -q '"name"' package.json\<close> of
  the source), and its level is selected. There are no other names, every
  status is \<^verbatim>\<open>passed\<close> or \<^verbatim>\<open>failed\<close>, and the failure counter is the number
  of failed rows.
\<close>

theorem C4_skipped_checks_absent:
  assumes "parse_args args (initial e) = Running cfg"
    and "r \<in> set (rows (final (main e args)))"
  shows "(row_status r = ''passed'' \<or> row_status r = ''failed'')
    \<and> TOTAL_ERRORS (final (main e args))
        = length (filter (\<lambda>r. row_status r = ''failed'') (rows (final (main e args))))
    \<and> row_name r \<in> {''backend_black'', ''backend_isort'', ''backend_flake8'', ''backend_mypy'',
         ''backend_pytest'', ''frontend_eslint'', ''frontend_typecheck'', ''frontend_jest'',
         ''frontend_build''}
    \<and> (row_name r = ''backend_black'' \<longrightarrow> resolve_tool e ''black'' \<noteq> [])
    \<and> (row_name r = ''backend_isort'' \<longrightarrow> resolve_tool e ''isort'' \<noteq> [])
    \<and> (row_name r = ''backend_flake8'' \<longrightarrow>
          resolve_tool e ''flake8'' \<noteq> [] \<and> (LEVEL cfg = ''standard'' \<or> LEVEL cfg = ''full''))
    \<and> (row_name r = ''backend_mypy'' \<longrightarrow>
          resolve_tool e ''mypy'' \<noteq> [] \<and> (LEVEL cfg = ''standard'' \<or> LEVEL cfg = ''full''))
    \<and> (row_name r = ''backend_pytest'' \<longrightarrow>
          resolve_tool e ''pytest'' \<noteq> [] \<and> tests_dir e \<and> LEVEL cfg = ''full'')
    \<and> (row_name r = ''frontend_eslint'' \<longrightarrow> grep_q (quoted ''lint'') (package_json e))
    \<and> (row_name r = ''frontend_typecheck'' \<longrightarrow>
          grep_q (quoted ''type-check'') (package_json e)
          \<and> (LEVEL cfg = ''standard'' \<or> LEVEL cfg = ''full''))
    \<and> (row_name r = ''frontend_jest'' \<longrightarrow>
          grep_q (quoted ''test'') (package_json e) \<and> LEVEL cfg = ''full'')
    \<and> (row_name r = ''frontend_build'' \<longrightarrow>
          grep_q (quoted ''build'') (package_json e) \<and> LEVEL cfg = ''full'')
    \<and> (row_name r \<in> {''backend_black'', ''backend_isort'', ''backend_flake8'', ''backend_mypy'',
          ''backend_pytest''} \<longrightarrow> backend_dir e \<and> TARGET cfg \<noteq> ''frontend'')
    \<and> (row_name r \<in> {''frontend_eslint'', ''frontend_typecheck'', ''frontend_jest'',
          ''frontend_build''} \<longrightarrow> frontend_dir e \<and> TARGET cfg \<noteq> ''backend'')"
proof -
  from assms(1) obtain k s where m: "main e args = Exited k s" and so: "store_ok e s"
    by (rule main_Running)
  from parse_args_Running [OF assms(1)] have "conf_frame (initial e) cfg" by simp
  then have "rows cfg = []" by (simp add: conf_frame_def initial_def)
  from main_body_allowed [OF this, of e] assms(1) m
  have "list_all (\<lambda>r. allowed e (LEVEL cfg) (TARGET cfg) (row_name r)) (rows s)"
    by (simp add: main_def)
  with assms(2) m have a: "allowed e (LEVEL cfg) (TARGET cfg) (row_name r)"
    by (simp add: list_all_iff)
  from assms(2) m have "r \<in> set (rows s)" by simp
  from store_ok_statuses [OF so this] have st: "row_status r = ''passed'' \<or> row_status r = ''failed''" .
  from so have te: "TOTAL_ERRORS s = length (filter (\<lambda>r. row_status r = ''failed'') (rows s))"
    by (simp add: store_ok_def)
  from a have names: "row_name r \<in> {''backend_black'', ''backend_isort'', ''backend_flake8'',
      ''backend_mypy'', ''backend_pytest'', ''frontend_eslint'', ''frontend_typecheck'',
      ''frontend_jest'', ''frontend_build''}"
    by (simp add: allowed_def split: if_splits)
  from a have conds:
    "row_name r = ''backend_black'' \<longrightarrow> resolve_tool e ''black'' \<noteq> []"
    "row_name r = ''backend_isort'' \<longrightarrow> resolve_tool e ''isort'' \<noteq> []"
    "row_name r = ''backend_flake8'' \<longrightarrow>
       resolve_tool e ''flake8'' \<noteq> [] \<and> (LEVEL cfg = ''standard'' \<or> LEVEL cfg = ''full'')"
    "row_name r = ''backend_mypy'' \<longrightarrow>
       resolve_tool e ''mypy'' \<noteq> [] \<and> (LEVEL cfg = ''standard'' \<or> LEVEL cfg = ''full'')"
    "row_name r = ''backend_pytest'' \<longrightarrow>
       resolve_tool e ''pytest'' \<noteq> [] \<and> tests_dir e \<and> LEVEL cfg = ''full''"
    "row_name r = ''frontend_eslint'' \<longrightarrow> grep_q (quoted ''lint'') (package_json e)"
    "row_name r = ''frontend_typecheck'' \<longrightarrow>
       grep_q (quoted ''type-check'') (package_json e)
       \<and> (LEVEL cfg = ''standard'' \<or> LEVEL cfg = ''full'')"
    "row_name r = ''frontend_jest'' \<longrightarrow>
       grep_q (quoted ''test'') (package_json e) \<and> LEVEL cfg = ''full''"
    "row_name r = ''frontend_build'' \<longrightarrow>
       grep_q (quoted ''build'') (package_json e) \<and> LEVEL cfg = ''full''"
    by (simp_all add: allowed_def)
  from a have dirs:
    "row_name r \<in> {''backend_black'', ''backend_isort'', ''backend_flake8'', ''backend_mypy'',
       ''backend_pytest''} \<longrightarrow> backend_dir e \<and> TARGET cfg \<noteq> ''frontend''"
    "row_name r \<in> {''frontend_eslint'', ''frontend_typecheck'', ''frontend_jest'',
       ''frontend_build''} \<longrightarrow> frontend_dir e \<and> TARGET cfg \<noteq> ''backend''"
    by (auto simp add: allowed_def)
  from st te names conds dirs m show ?thesis by simp
qed

theorem C4_skipped_checks_absent_witness:
  "parse_args [''-l'', ''full'', ''-t'', ''frontend''] (initial ci_env)
     = Running ((initial ci_env)\<lparr>LEVEL := ''full'', TARGET := ''frontend''\<rparr>)
   \<and> hd (rows (final (main ci_env [''-l'', ''full'', ''-t'', ''frontend''])))
       \<in> set (rows (final (main ci_env [''-l'', ''full'', ''-t'', ''frontend''])))
   \<and> row_name (hd (rows (final (main ci_env [''-l'', ''full'', ''-t'', ''frontend'']))))
       = ''frontend_eslint''
   \<and> grep_q (quoted ''lint'') (package_json ci_env)
   \<and> frontend_dir ci_env
   \<and> \<not> grep_q (quoted ''build'') (package_json ci_env)
   \<and> map row_name (rows (final (main ci_env [''-l'', ''full'', ''-t'', ''frontend''])))
       = [''frontend_eslint'', ''frontend_jest'']
   \<and> TOTAL_ERRORS (final (main ci_env [''-l'', ''full'', ''-t'', ''frontend''])) = 0"
proof -
  let ?args = "[''-l'', ''full'', ''-t'', ''frontend'']"
  let ?cfg = "(initial ci_env)\<lparr>LEVEL := ''full'', TARGET := ''frontend''\<rparr>"
  have p: "parse_args ?args (initial ci_env) = Running ?cfg"
    by (simp add: parse_args_def validate_options_def initial_def ci_env_def dflt_def)
  have n: "map row_name (rows (final (main ci_env ?args))) = [''frontend_eslint'', ''frontend_jest'']"
    by code_simp
  then have ne: "rows (final (main ci_env ?args)) \<noteq> []" by auto
  then have m: "hd (rows (final (main ci_env ?args))) \<in> set (rows (final (main ci_env ?args)))"
    by simp
  from n ne have h: "row_name (hd (rows (final (main ci_env ?args)))) = ''frontend_eslint''"
    by (cases "rows (final (main ci_env ?args))") simp_all
  have b: "\<not> grep_q (quoted ''build'') (package_json ci_env)"
    by code_simp
  have t: "TOTAL_ERRORS (final (main ci_env ?args)) = 0"
    by code_simp
  from C4_skipped_checks_absent [OF p m] h p m n b t show ?thesis by simp
qed

text \<open>
  Claim C4 as stated fails: a \<^verbatim>\<open>package.json\<close> that defines no build script
  but has the word \<^verbatim>\<open>build\<close> in double quotes elsewhere passes the probe.
  At level full with the target \<^verbatim>\<open>frontend\<close> the build check is then run,
  recorded as failed and counted, and the exit status is 1.
\<close>

theorem C4_script_absent_counterexample:
  "package_json files_build_env
     = Some (''{'' @ quoted ''scripts'' @ '': {'' @ quoted ''lint'' @ '': 1}, ''
             @ quoted ''files'' @ '': ['' @ quoted ''build'' @ '']}'')
   \<and> exit_code (parse_args [''-l'', ''full'', ''-t'', ''frontend''] (initial files_build_env))
       = None
   \<and> map row_name (rows (final (main files_build_env [''-l'', ''full'', ''-t'', ''frontend''])))
       = [''frontend_eslint'', ''frontend_build'']
   \<and> map row_status (rows (final (main files_build_env [''-l'', ''full'', ''-t'', ''frontend''])))
       = [''passed'', ''failed'']
   \<and> TOTAL_ERRORS (final (main files_build_env [''-l'', ''full'', ''-t'', ''frontend''])) = 1
   \<and> exit_code (main files_build_env [''-l'', ''full'', ''-t'', ''frontend'']) = Some 1"
  by code_simp

section \<open>Claim C8: verbose output of a failed check\<close>

text \<open>
  Claim C8, as amended. When the arguments parse with verbose enabled and the
  output format \<^verbatim>\<open>text\<close>, every failed row of the final store that does not
  name \<^verbatim>\<open>frontend_eslint\<close>, \<^verbatim>\<open>frontend_typecheck\<close> or \<^verbatim>\<open>frontend_jest\<close>
  belongs to a command that ran and failed, whose captured output is in the
  file of the row and whose first 50 lines are on standard error. Nothing is
  said of those three checks.
\<close>

theorem C8_verbose_head:
  assumes "parse_args args (initial e) = Running cfg"
    and "VERBOSE cfg = ''1''"
    and "OUTPUT cfg = ''text''"
    and "i < length (rows (final (main e args)))"
    and "row_status (rows (final (main e args)) ! i) = ''failed''"
    and "row_name (rows (final (main e args)) ! i)
           \<notin> {''frontend_eslint'', ''frontend_typecheck'', ''frontend_jest''}"
  shows "\<exists>d w. (d, w) \<in> set (ran (final (main e args)))
           \<and> fst (exec e d w) \<noteq> 0
           \<and> files (final (main e args)) i = Some (snd (exec e d w))
           \<and> head_n 50 (snd (exec e d w)) \<in> set (err (final (main e args)))"
proof -
  from assms(1) obtain k s where m: "main e args = Exited k s" and so: "store_ok e s"
    by (rule main_Running)
  from parse_args_Running [OF assms(1)] have "conf_frame (initial e) cfg" by simp
  then have "rows cfg = []" "CHECK_COUNT cfg = 0" "\<not> stderr_null cfg"
    by (simp_all add: conf_frame_def initial_def)
  from main_body_verbose [OF assms(2,3) this, of e] assms(1) m
  have hs: "heads_shown s" by (simp add: main_def)
  from m assms(4-6) have i: "i < length (rows s)" and f: "row_status (rows s ! i) = ''failed''"
    and q: "\<not> quiet_name (row_name (rows s ! i))"
    by (simp_all add: quiet_name_def)
  from hs i f q have "head_shown s i" by (simp add: heads_shown_def)
  moreover from so i have ro: "row_ok e s i (rows s ! i)" by (simp add: store_ok_def)
  obtain d w where dw: "checks_run s ! i = (d, w)" by (cases "checks_run s ! i")
  from ro have "checks_run s ! i \<in> set (checks_run s)" by (simp add: row_ok_def)
  with dw ro have "(d, w) \<in> set (ran s)" "files s i = Some (snd (exec e d w))"
    "row_status (rows s ! i) = (if fst (exec e d w) = 0 then ''passed'' else ''failed'')"
    by (simp_all add: row_ok_def checks_run_def)
  ultimately have "(d, w) \<in> set (ran s) \<and> fst (exec e d w) \<noteq> 0
      \<and> files s i = Some (snd (exec e d w)) \<and> head_n 50 (snd (exec e d w)) \<in> set (err s)"
    using f by (auto simp add: head_shown_def split: if_splits)
  with m show ?thesis by auto
qed

theorem C8_verbose_head_witness:
  "parse_args [''-v'', ''-t'', ''backend''] (initial ci_env)
     = Running ((initial ci_env)\<lparr>VERBOSE := ''1'', TARGET := ''backend''\<rparr>)
   \<and> OUTPUT ((initial ci_env)\<lparr>VERBOSE := ''1'', TARGET := ''backend''\<rparr>) = ''text''
   \<and> 2 < length (rows (final (main ci_env [''-v'', ''-t'', ''backend''])))
   \<and> row_status (rows (final (main ci_env [''-v'', ''-t'', ''backend''])) ! 2) = ''failed''
   \<and> row_name (rows (final (main ci_env [''-v'', ''-t'', ''backend''])) ! 2) = ''backend_flake8''
   \<and> (\<exists>d w. (d, w) \<in> set (ran (final (main ci_env [''-v'', ''-t'', ''backend''])))
         \<and> fst (exec ci_env d w) \<noteq> 0
         \<and> files (final (main ci_env [''-v'', ''-t'', ''backend''])) 2
             = Some (snd (exec ci_env d w))
         \<and> head_n 50 (snd (exec ci_env d w))
             \<in> set (err (final (main ci_env [''-v'', ''-t'', ''backend'']))))"
proof -
  let ?args = "[''-v'', ''-t'', ''backend'']"
  let ?cfg = "(initial ci_env)\<lparr>VERBOSE := ''1'', TARGET := ''backend''\<rparr>"
  have p: "parse_args ?args (initial ci_env) = Running ?cfg"
    by (simp add: parse_args_def validate_options_def initial_def ci_env_def dflt_def)
  have v: "VERBOSE ?cfg = ''1''" by simp
  have t: "OUTPUT ?cfg = ''text''" by (simp add: initial_def ci_env_def dflt_def)
  have n: "2 < length (rows (final (main ci_env ?args)))" by code_simp
  have f: "row_status (rows (final (main ci_env ?args)) ! 2) = ''failed''" by code_simp
  have r: "row_name (rows (final (main ci_env ?args)) ! 2) = ''backend_flake8''" by code_simp
  then have q: "row_name (rows (final (main ci_env ?args)) ! 2)
                  \<notin> {''frontend_eslint'', ''frontend_typecheck'', ''frontend_jest''}"
    by simp
  from C8_verbose_head [OF p v t n f q] p t n f r show ?thesis by simp
qed

text \<open>
  Claim C8 as stated fails: with verbose enabled and the output format
  \<^verbatim>\<open>json\<close>, Flake8 fails on the example project, its output is captured, and
  nothing at all is written to standard error.
\<close>

theorem C8_json_counterexample:
  "exit_code (parse_args [''-v'', ''-o'', ''json'', ''-t'', ''backend''] (initial ci_env)) = None
   \<and> VERBOSE (final (main ci_env [''-v'', ''-o'', ''json'', ''-t'', ''backend''])) = ''1''
   \<and> map row_status (rows (final (main ci_env [''-v'', ''-o'', ''json'', ''-t'', ''backend''])))
       = [''passed'', ''passed'', ''failed'']
   \<and> files (final (main ci_env [''-v'', ''-o'', ''json'', ''-t'', ''backend''])) 2
       = Some (''a.py:1:1: E501 x<y'' @ [nl, nl])
   \<and> err (final (main ci_env [''-v'', ''-o'', ''json'', ''-t'', ''backend''])) = []"
  by code_simp

text \<open>
  The three checks left out are called as \<^verbatim>\<open>run_check ... 2>/dev/null || ...\<close>,
  which discards the standard error of the whole function. In a verbose text
  run of the project whose tools all fail, ESLint fails and the head of its
  output is not on standard error.
\<close>

lemma eslint_head_discarded:
  "map row_name (rows (final (main red_env [''-v'', ''-l'', ''quick'', ''-t'', ''frontend''])))
     = [''frontend_eslint'']
   \<and> map row_status (rows (final (main red_env [''-v'', ''-l'', ''quick'', ''-t'', ''frontend''])))
       = [''failed'']
   \<and> files (final (main red_env [''-v'', ''-l'', ''quick'', ''-t'', ''frontend''])) 0
       = Some (''boom'' @ [nl])
   \<and> head_n 50 (''boom'' @ [nl])
       \<notin> set (err (final (main red_env [''-v'', ''-l'', ''quick'', ''-t'', ''frontend''])))"
  by code_simp

section \<open>Claim C6: the failure element of the JUnit report\<close>

lemma junit_loop_eq:
  "junit_loop e st rs tcs = tcs @ map (junit_testcase_of e st) rs"
  by (induction rs arbitrary: tcs) simp_all

lemma gsub_Nil [simp]: "gsub c rep [] = []"
  by (simp add: gsub_def)

lemma gsub_Cons [simp]: "gsub c rep (x # s) = (if x = c then rep else [x]) @ gsub c rep s"
  by (simp add: gsub_def)

lemma gsub_append [simp]: "gsub c rep (s @ t) = gsub c rep s @ gsub c rep t"
  by (simp add: gsub_def)

text \<open>The four substitutions in sequence escape each character once.\<close>

lemma sed_escape_entities: "sed_escape s = concat (map xml_entity s)"
  by (induction s) (simp_all add: sed_escape_def xml_entity_def)

lemma junit_testcase_row:
  assumes "row_ok e s i r" and "checks_run s ! i = (d, w)"
  shows "w = check_cmd e (row_name r)
         \<and> files s i = Some (snd (exec e d w))
         \<and> row_status r = (if fst (exec e d w) = 0 then ''passed'' else ''failed'')
         \<and> tc_name (junit_testcase_of e s r) = row_name r
         \<and> tc_failure (junit_testcase_of e s r) =
             (if fst (exec e d w) = 0 then None
              else Some \<lparr> jf_message = ''Check failed'',
                          jf_cdata = cmd_subst (concat (map xml_entity
                                       (head_n 50 (snd (exec e d w))))) \<rparr>)"
  using assms by (simp add: row_ok_def junit_testcase_of_def sed_escape_entities)

text \<open>
  Claim C6, as amended. In a JUnit report that a run prints or writes there is
  one test case for each row of the store and for each check that the run
  started, in the same order. Let the \<open>i\<close>-th check started be the command
  \<open>w\<close> in directory \<open>d\<close>. Then \<open>w\<close> is the command of the check that row
  \<open>i\<close> and test case \<open>i\<close> name, and file \<open>i\<close> holds what it printed. When
  it exited with 0 the row is passed and the test case has no failure element.
  Otherwise the row is failed and the failure element holds the first 50 lines
  of what it printed, with each of \<^verbatim>\<open>&\<close>, \<^verbatim>\<open><\<close>, \<^verbatim>\<open>>\<close> and \<^verbatim>\<open>"\<close> replaced by
  its entity, and then cut by the command substitution: NUL bytes and all
  trailing newlines are gone.
\<close>

theorem C6_junit_failure_body:
  assumes "Doc (Junit j) \<in> set (out (final (main e args)))
           \<or> (p, Junit j) \<in> set (written (final (main e args)))"
    and "i < length (ju_testcases j)"
    and "checks_run (final (main e args)) ! i = (d, w)"
  shows "length (ju_testcases j) = length (rows (final (main e args)))
         \<and> length (ju_testcases j) = length (checks_run (final (main e args)))
         \<and> w = check_cmd e (row_name (rows (final (main e args)) ! i))
         \<and> files (final (main e args)) i = Some (snd (exec e d w))
         \<and> row_status (rows (final (main e args)) ! i)
             = (if fst (exec e d w) = 0 then ''passed'' else ''failed'')
         \<and> tc_name (ju_testcases j ! i) = row_name (rows (final (main e args)) ! i)
         \<and> tc_failure (ju_testcases j ! i) =
             (if fst (exec e d w) = 0 then None
              else Some \<lparr> jf_message = ''Check failed'',
                          jf_cdata = cmd_subst (concat (map xml_entity
                                       (head_n 50 (snd (exec e d w))))) \<rparr>)"
proof (cases rule: main_cases [of args e])
  case (parse_exit k s)
  with assms show ?thesis
    by (auto simp add: no_run_def initial_def)
next
  case (body cfg k s)
  from body(2) assms have m: "Doc (Junit j) \<in> set (out s) \<or> (p, Junit j) \<in> set (written s)"
    by simp
  with body(8) have dl: "delivered e s" by (auto split: if_splits)
  from delivered_member [OF dl m] have "render e s = Some (Junit j)" .
  then have j: "j = output_junit e s" by (simp add: render_def split: if_splits)
  then have tcs: "ju_testcases j = map (junit_testcase_of e s) (rows s)"
    by (simp add: output_junit_def junit_loop_eq)
  with assms(2) have i: "i < length (rows s)" by simp
  from body(7) have len: "length (checks_run s) = length (rows s)" by (simp add: store_ok_def)
  from i body(7) have "row_ok e s i (rows s ! i)" by (simp add: store_ok_def)
  moreover from assms(3) body(2) have "checks_run s ! i = (d, w)" by simp
  ultimately have "w = check_cmd e (row_name (rows s ! i))
         \<and> files s i = Some (snd (exec e d w))
         \<and> row_status (rows s ! i) = (if fst (exec e d w) = 0 then ''passed'' else ''failed'')
         \<and> tc_name (junit_testcase_of e s (rows s ! i)) = row_name (rows s ! i)
         \<and> tc_failure (junit_testcase_of e s (rows s ! i)) =
             (if fst (exec e d w) = 0 then None
              else Some \<lparr> jf_message = ''Check failed'',
                          jf_cdata = cmd_subst (concat (map xml_entity
                                       (head_n 50 (snd (exec e d w))))) \<rparr>)"
    by (rule junit_testcase_row)
  with tcs i len body(2) show ?thesis by simp
qed

theorem C6_junit_failure_body_witness:
  "Doc (Junit ci_junit) \<in> set (out (final (main ci_env [''-o'', ''junit'', ''-t'', ''backend''])))
   \<and> 2 < length (ju_testcases ci_junit)
   \<and> checks_run (final (main ci_env [''-o'', ''junit'', ''-t'', ''backend''])) ! 2
       = (''/repo/backend'',
          [''flake8'', ''.'', ''--max-line-length=88'', ''--count'', ''--statistics''])
   \<and> length (ju_testcases ci_junit)
       = length (rows (final (main ci_env [''-o'', ''junit'', ''-t'', ''backend''])))
   \<and> files (final (main ci_env [''-o'', ''junit'', ''-t'', ''backend''])) 2
       = Some (''a.py:1:1: E501 x<y'' @ [nl, nl])
   \<and> row_status (rows (final (main ci_env [''-o'', ''junit'', ''-t'', ''backend''])) ! 2)
       = ''failed''
   \<and> tc_name (ju_testcases ci_junit ! 2)
       = row_name (rows (final (main ci_env [''-o'', ''junit'', ''-t'', ''backend''])) ! 2)
   \<and> tc_failure (ju_testcases ci_junit ! 2)
       = Some \<lparr> jf_message = ''Check failed'',
                 jf_cdata = cmd_subst (concat (map xml_entity
                              (head_n 50 (''a.py:1:1: E501 x<y'' @ [nl, nl])))) \<rparr>"
proof -
  let ?w = "[''flake8'', ''.'', ''--max-line-length=88'', ''--count'', ''--statistics'']"
  have h: "Doc (Junit ci_junit)
           \<in> set (out (final (main ci_env [''-o'', ''junit'', ''-t'', ''backend''])))"
    by code_simp
  have l: "2 < length (ju_testcases ci_junit)"
    by (simp add: ci_junit_def)
  have c: "checks_run (final (main ci_env [''-o'', ''junit'', ''-t'', ''backend''])) ! 2
             = (''/repo/backend'', ?w)"
    by code_simp
  have x: "exec ci_env ''/repo/backend'' ?w = (1, ''a.py:1:1: E501 x<y'' @ [nl, nl])"
    by (simp add: ci_env_def)
  from C6_junit_failure_body [OF disjI1 [OF h] l c] h l c x show ?thesis by simp
qed

text \<open>
  Claim C6 as stated fails. The flake8 of the example project prints one line
  and an empty line; both are among the first 50 lines, and escaped they are
  \<^verbatim>\<open>a.py:1:1: E501 x&lt;y\<close> followed by two newlines. The failure element
  holds the first line only.
\<close>

theorem C6_trailing_lines_counterexample:
  "out (final (main ci_env [''-o'', ''junit'', ''-t'', ''backend''])) = [Doc (Junit ci_junit)]
   \<and> map tc_failure (ju_testcases ci_junit)
       = [None, None,
          Some \<lparr> jf_message = ''Check failed'', jf_cdata = ''a.py:1:1: E501 x&lt;y'' \<rparr>]
   \<and> exec ci_env ''/repo/backend''
        [''flake8'', ''.'', ''--max-line-length=88'', ''--count'', ''--statistics'']
       = (1, ''a.py:1:1: E501 x<y'' @ [nl, nl])
   \<and> sed_escape (head_n 50 (''a.py:1:1: E501 x<y'' @ [nl, nl]))
       = ''a.py:1:1: E501 x&lt;y'' @ [nl, nl]
   \<and> ''a.py:1:1: E501 x&lt;y'' \<noteq> ''a.py:1:1: E501 x&lt;y'' @ [nl, nl]"
  by code_simp

section \<open>Claim C7: an unrecognized level\<close>

text \<open>
  Claim C7, as amended. When the option loop reads all the arguments (none of
  them is \<^verbatim>\<open>--help\<close> or an unknown option, and no option lacks its value) and
  leaves the level at a value other than quick, standard and full, wherever
  the level option stands among the arguments, the process exits with status
  2, writes the one line \<^verbatim>\<open>Invalid level: <value>\<close> to standard error and
  nothing to standard output (the usage text is not printed), and starts no
  command and records no check.
\<close>

theorem C7_invalid_level:
  assumes "parse_loop args (initial e) = Running st"
    and "LEVEL st \<noteq> ''quick''" and "LEVEL st \<noteq> ''standard''" and "LEVEL st \<noteq> ''full''"
  shows "exit_code (main e args) = Some 2
         \<and> out (final (main e args)) = []
         \<and> err (final (main e args)) = [''Invalid level: '' @ LEVEL st @ [nl]]
         \<and> ran (final (main e args)) = []
         \<and> rows (final (main e args)) = []"
proof -
  from parse_loop_Running [OF assms(1)] have fr: "conf_frame (initial e) st" .
  have "parse_args args (initial e) = validate_options st"
    using assms(1) by (simp add: parse_args_def)
  also have "\<dots> = Exited 2 (echo_err (''Invalid level: '' @ LEVEL st) st)"
    using assms(2-4) by (simp add: validate_options_def)
  finally have "main e args = Exited 2 (echo_err (''Invalid level: '' @ LEVEL st) st)"
    by (simp add: main_def)
  with fr show ?thesis
    by (simp add: conf_frame_def initial_def echo_err_alt)
qed

theorem C7_invalid_level_witness:
  "parse_loop [''-o'', ''xml'', ''--level'', ''nightly'', ''-v'', ''-t'', ''backend''] (initial ci_env)
     = Running ((initial ci_env)\<lparr>OUTPUT := ''xml'', LEVEL := ''nightly'', VERBOSE := ''1'',
                                 TARGET := ''backend''\<rparr>)
   \<and> exit_code (main ci_env [''-o'', ''xml'', ''--level'', ''nightly'', ''-v'', ''-t'', ''backend''])
       = Some 2
   \<and> out (final (main ci_env [''-o'', ''xml'', ''--level'', ''nightly'', ''-v'', ''-t'', ''backend'']))
       = []
   \<and> err (final (main ci_env [''-o'', ''xml'', ''--level'', ''nightly'', ''-v'', ''-t'', ''backend'']))
       = [''Invalid level: nightly'' @ [nl]]
   \<and> ran (final (main ci_env [''-o'', ''xml'', ''--level'', ''nightly'', ''-v'', ''-t'', ''backend'']))
       = []
   \<and> rows (final (main ci_env [''-o'', ''xml'', ''--level'', ''nightly'', ''-v'', ''-t'', ''backend'']))
       = []"
proof -
  let ?st = "(initial ci_env)\<lparr>OUTPUT := ''xml'', LEVEL := ''nightly'', VERBOSE := ''1'',
                               TARGET := ''backend''\<rparr>"
  have p: "parse_loop [''-o'', ''xml'', ''--level'', ''nightly'', ''-v'', ''-t'', ''backend'']
             (initial ci_env) = Running ?st"
    by simp
  have l: "LEVEL ?st \<noteq> ''quick''" "LEVEL ?st \<noteq> ''standard''" "LEVEL ?st \<noteq> ''full''"
    by simp_all
  from C7_invalid_level [OF p l] p show ?thesis by simp
qed

text \<open>
  Claim C7 as stated fails: with \<^verbatim>\<open>--level nightly\<close> the exit status is 2 and
  standard error has the diagnostic, but standard output stays empty, so the
  usage text is not printed.
\<close>

theorem C7_usage_counterexample:
  "exit_code (main ci_env [''--level'', ''nightly'']) = Some 2
   \<and> out (final (main ci_env [''--level'', ''nightly''])) = []
   \<and> err (final (main ci_env [''--level'', ''nightly''])) = [''Invalid level: nightly'' @ [nl]]"
  by (simp add: main_def parse_args_def validate_options_def initial_def ci_env_def dflt_def
        echo_err_alt)

section \<open>Claim C9: a report that cannot be written\<close>

text \<open>
  Claim C9 does not hold of the script. \<^verbatim>\<open>output_results\<close> does not test
  whether \<^verbatim>\<open>echo "${output_content}" > "${OUTPUT_FILE}"\<close> succeeded. In the
  example project without a backend directory, run with
  \<^verbatim>\<open>-t backend -f /ro/report\<close>, no check is executed, the redirection fails
  with the diagnostic of the shell, and the script goes on to log
  \<^verbatim>\<open>Results written to: /ro/report\<close> and exits with 0 although no file was
  written. In the example project itself, run with
  \<^verbatim>\<open>-l quick -t backend -f /ro/report\<close>, both checks pass and the same failed
  redirection ends the script with status 1, because \<^verbatim>\<open>run_check\<close> has left
  \<^verbatim>\<open>set -e\<close> on.
\<close>

theorem C9_write_failure_not_fatal:
  "write_error no_backend_env ''/ro/report'' = Some ''/ro/report: Permission denied''
   \<and> exit_code (main no_backend_env [''-t'', ''backend'', ''-f'', ''/ro/report'']) = Some 0
   \<and> rows (final (main no_backend_env [''-t'', ''backend'', ''-f'', ''/ro/report''])) = []
   \<and> written (final (main no_backend_env [''-t'', ''backend'', ''-f'', ''/ro/report''])) = []
   \<and> out (final (main no_backend_env [''-t'', ''backend'', ''-f'', ''/ro/report''])) = []
   \<and> err (final (main no_backend_env [''-t'', ''backend'', ''-f'', ''/ro/report'']))
       = [''[INFO] Starting code review...'' @ [nl],
          ''[INFO] Level: standard | Target: backend | Output: text'' @ [nl],
          ''[WARN] Backend directory not found: /repo/backend'' @ [nl],
          ''/ro/report: Permission denied'' @ [nl],
          ''[INFO] Results written to: /ro/report'' @ [nl]]
   \<and> map row_status
        (rows (final (main ci_env [''-l'', ''quick'', ''-t'', ''backend'', ''-f'', ''/ro/report''])))
       = [''passed'', ''passed'']
   \<and> exit_code (main ci_env [''-l'', ''quick'', ''-t'', ''backend'', ''-f'', ''/ro/report''])
       = Some 1"
  by code_simp

section \<open>Claim C10: the dependencies are installed first\<close>




end
